theory Spec2Isabelle
  imports Complex_Main
begin

section \<open>Status codes and the dispatcher of gpu\_transducer.h\<close>

text \<open>
  The status codes that the two source files return (the enumeration itself is declared in
  types.h).
\<close>

datatype status_t =
    SUCCESS
  | COMPUTE_DENOMINATOR_REDUCE_MAX_FAILED
  | COMPUTE_DENOMINATOR_REDUCE_SUM_FAILED
  | COMPUTE_LOG_PROBS_FAILED
  | COMPUTE_ALPHAS_BETAS_COSTS_FAILED
  | COMPUTE_GRADIENTS_FAILED

text \<open>
  The CUDA runtime as far as the dispatcher sees it. A kernel launch either succeeds or
  leaves an error code behind; \<open>cudaGetLastError\<close> returns the error left behind and
  resets it to \<open>cudaSuccess\<close>. The kernels themselves (gpu\_kernels.cuh) are not modelled:
  what a launch leaves behind is given by an environment \<open>env\<close>, and the state records
  the kernels launched, in order.
\<close>

datatype cudaError_t = cudaSuccess | cudaError nat

datatype kernel =
    ReduceMax2D
  | ReduceLogSumExpGivenMax2D
  | ComputeLogProbs
  | ComputeLogProbsSparse
  | ComputeAlphasBetasCosts
  | ComputeGradients

record gpu =
  last_error :: cudaError_t
  launched :: "kernel list"

definition launch :: "(kernel \<Rightarrow> cudaError_t) \<Rightarrow> kernel \<Rightarrow> gpu \<Rightarrow> gpu" where
  "launch env k g =
     g\<lparr>launched := launched g @ [k],
       last_error := (if env k = cudaSuccess then last_error g else env k)\<rparr>"

definition cudaGetLastError :: "gpu \<Rightarrow> cudaError_t \<times> gpu" where
  "cudaGetLastError g = (last_error g, g\<lparr>last_error := cudaSuccess\<rparr>)"

text \<open>
  A routine either returns a status or, through \<open>gpuAssert\<close> with \<open>abort = true\<close>,
  ends the process with \<open>exit(code)\<close>.
\<close>

datatype outcome = Return status_t | Exit cudaError_t

text \<open>\<open>gpuErrchk(ans)\<close>: \<open>None\<close> when the process goes on, the exit code otherwise.\<close>

definition gpuErrchk :: "cudaError_t \<Rightarrow> cudaError_t option" where
  "gpuErrchk code = (if code \<noteq> cudaSuccess then Some code else None)"

definition gpu_LogSumExp2D :: "(kernel \<Rightarrow> cudaError_t) \<Rightarrow> gpu \<Rightarrow> status_t \<times> gpu" where
  "gpu_LogSumExp2D env g =
     (let g1 = launch env ReduceMax2D g;
          (e1, g2) = cudaGetLastError g1
      in if e1 \<noteq> cudaSuccess then (COMPUTE_DENOMINATOR_REDUCE_MAX_FAILED, g2)
         else
           let g3 = launch env ReduceLogSumExpGivenMax2D g2;
               (e2, g4) = cudaGetLastError g3
           in if e2 \<noteq> cudaSuccess then (COMPUTE_DENOMINATOR_REDUCE_SUM_FAILED, g4)
              else (SUCCESS, g4))"

text \<open>
  \<open>Compute\<close>: \<open>gradients\<close> is \<open>True\<close> when the gradients pointer is not null.
\<close>

definition Compute :: "(kernel \<Rightarrow> cudaError_t) \<Rightarrow> bool \<Rightarrow> gpu \<Rightarrow> outcome \<times> gpu" where
  "Compute env gradients g =
     (let (status, g1) = gpu_LogSumExp2D env g
      in if status \<noteq> SUCCESS then (Return status, g1)
         else
           let g2 = launch env ComputeLogProbs g1;
               (e2, g3) = cudaGetLastError g2
           in if e2 \<noteq> cudaSuccess then (Return COMPUTE_LOG_PROBS_FAILED, g3)
              else
                let g4 = launch env ComputeAlphasBetasCosts g3;
                    (e3, g5) = cudaGetLastError g4
                in if e3 \<noteq> cudaSuccess then (Return COMPUTE_ALPHAS_BETAS_COSTS_FAILED, g5)
                   else if gradients then
                     let g6 = launch env ComputeGradients g5;
                         (e4, g7) = cudaGetLastError g6
                     in if e4 \<noteq> cudaSuccess then (Return COMPUTE_GRADIENTS_FAILED, g7)
                        else (Return SUCCESS, g7)
                   else (Return SUCCESS, g5))"

definition ComputeSparse :: "(kernel \<Rightarrow> cudaError_t) \<Rightarrow> bool \<Rightarrow> gpu \<Rightarrow> outcome \<times> gpu" where
  "ComputeSparse env gradients g =
     (let (status, g1) = gpu_LogSumExp2D env g;
          (e1, g2) = cudaGetLastError g1
      in if gpuErrchk e1 \<noteq> None then (Exit (the (gpuErrchk e1)), g2)
         else if status \<noteq> SUCCESS then (Return status, g2)
         else
           let g3 = launch env ComputeLogProbsSparse g2;
               (e2, g4) = cudaGetLastError g3
           in if gpuErrchk e2 \<noteq> None then (Exit (the (gpuErrchk e2)), g4)
              else
                let g5 = launch env ComputeAlphasBetasCosts g4;
                    (e3, g6) = cudaGetLastError g5
                in if gpuErrchk e3 \<noteq> None then (Exit (the (gpuErrchk e3)), g6)
                   else if gradients then
                     let g7 = launch env ComputeGradients g6;
                         (e4, g8) = cudaGetLastError g7
                     in if gpuErrchk e4 \<noteq> None then (Exit (the (gpuErrchk e4)), g8)
                        else (Return SUCCESS, g8)
                   else (Return SUCCESS, g6))"

text \<open>
  The error that the first \<open>cudaGetLastError\<close> of a routine reads: the one the first launch
  leaves behind, or an older one that nobody has read yet.
\<close>

definition first_check :: "(kernel \<Rightarrow> cudaError_t) \<Rightarrow> gpu \<Rightarrow> cudaError_t" where
  "first_check env g = (if env ReduceMax2D = cudaSuccess then last_error g else env ReduceMax2D)"

definition denominators_ok :: "(kernel \<Rightarrow> cudaError_t) \<Rightarrow> gpu \<Rightarrow> bool" where
  "denominators_ok env g \<longleftrightarrow>
     first_check env g = cudaSuccess \<and> env ReduceLogSumExpGivenMax2D = cudaSuccess"

definition ran :: "(outcome \<times> gpu) \<Rightarrow> gpu \<Rightarrow> kernel list \<Rightarrow> bool" where
  "ran r g ks \<longleftrightarrow> launched (snd r) = launched g @ ks"

definition gpu0 :: gpu where
  "gpu0 = \<lparr>last_error = cudaSuccess, launched = []\<rparr>"

definition fails_at :: "kernel \<Rightarrow> kernel \<Rightarrow> cudaError_t" where
  "fails_at k = (\<lambda>k'. if k' = k then cudaError 1 else cudaSuccess)"

section \<open>Memory, tensor views and loops of cpu\_kernels.h\<close>

text \<open>
  A buffer is a map from element offsets to elements; a pointer into it is an offset, and
  pointer arithmetic is integer arithmetic. C \<open>int\<close>s are unbounded integers here (no claim
  depends on overflow).
\<close>

type_synonym 'a mem = "int \<Rightarrow> 'a"

record 'a LogProbs =
  skip :: 'a
  emit :: 'a

record TensorView =
  dims :: "int list"
  strides :: "int list"
  data :: int

fun mk_strides :: "int list \<Rightarrow> int list" where
  "mk_strides [] = []"
| "mk_strides [d] = [1]"
| "mk_strides (d # d' # ds) = (hd (mk_strides (d' # ds)) * d') # mk_strides (d' # ds)"

definition mk_TensorView :: "int list \<Rightarrow> int \<Rightarrow> TensorView" where
  "mk_TensorView ds p = \<lparr>dims = ds, strides = mk_strides ds, data = p\<rparr>"

text \<open>
  \<open>operator()\<close>: the offset of the element with the given indices. Every call in the file
  passes as many indices as the view has dimensions, so \<open>CHECK_EQ\<close> never fires.
\<close>

definition addr :: "TensorView \<Rightarrow> int list \<Rightarrow> int" where
  "addr v indices =
     data v + (last indices + (\<Sum>i<length indices - 1. indices ! i * strides v ! i))"

text \<open>
  The fields of \<open>Options\<close> (options.h) that the kernels read, and the members of the
  classes, are written without the trailing underscore of the source.
\<close>

record 'a Options =
  batchSize :: int
  maxSrcLen :: int
  maxTgtLen :: int
  numTargets :: int
  blank :: int
  clamp :: 'a
  lBuffer :: int
  rBuffer :: int
  fusedLogSmax :: bool

text \<open>\<open>for (i = a; i < n; ++i) body\<close> and \<open>for (i = a; i >= lo; --i) body\<close>.\<close>

function for_loop :: "int \<Rightarrow> int \<Rightarrow> (int \<Rightarrow> 's \<Rightarrow> 's) \<Rightarrow> 's \<Rightarrow> 's" where
  "for_loop i n body s = (if i < n then for_loop (i + 1) n body (body i s) else s)"
  by pat_completeness auto
termination
  by (relation "measure (\<lambda>(i, n, body, s). nat (n - i))") auto

function for_down :: "int \<Rightarrow> int \<Rightarrow> (int \<Rightarrow> 's \<Rightarrow> 's) \<Rightarrow> 's \<Rightarrow> 's" where
  "for_down i lo body s = (if i \<ge> lo then for_down (i - 1) lo body (body i s) else s)"
  by pat_completeness auto
termination
  by (relation "measure (\<lambda>(i, lo, body, s). nat (i - lo + 1))") auto

declare for_loop.simps [simp del] for_down.simps [simp del]

subsection \<open>LogSumExp2D\<close>

definition row_max :: "int \<Rightarrow> int \<Rightarrow> real mem \<Rightarrow> real" where
  "row_max i D logits = for_loop 1 D (\<lambda>j m. max m (logits (i + j))) (logits i)"

definition row_sum :: "int \<Rightarrow> int \<Rightarrow> real mem \<Rightarrow> real \<Rightarrow> real" where
  "row_sum i D logits m = for_loop 0 D (\<lambda>j sum. sum + exp (logits (i + j) - m)) 0"

text \<open>
  The outer loop steps by \<open>D\<close> and need not end for every \<open>N\<close> and \<open>D\<close>: \<open>None\<close> is
  a loop that never ends. \<open>i / D\<close> is \<open>div\<close>: the quotient is never negative in the loop.
\<close>

partial_function (option) LogSumExp2D_rows ::
  "int \<Rightarrow> int \<Rightarrow> int \<Rightarrow> real mem \<Rightarrow> real mem \<Rightarrow> real mem option" where
  "LogSumExp2D_rows i N D logits outputs =
     (if i < N * D
      then LogSumExp2D_rows (i + D) N D logits
             (outputs(i div D :=
                row_max i D logits + ln (row_sum i D logits (row_max i D logits))))
      else Some outputs)"

definition LogSumExp2D ::
  "int \<Rightarrow> int \<Rightarrow> real mem \<Rightarrow> real mem \<Rightarrow> (status_t \<times> real mem) option" where
  "LogSumExp2D N D logits outputs =
     map_option (\<lambda>out. (SUCCESS, out)) (LogSumExp2D_rows 0 N D logits outputs)"

text \<open>The value that one pass of the outer loop of \<open>LogSumExp2D\<close> stores for row \<open>i\<close>.\<close>

definition row_value :: "int \<Rightarrow> real mem \<Rightarrow> int \<Rightarrow> real" where
  "row_value D logits i =
     row_max (i * D) D logits + ln (row_sum (i * D) D logits (row_max (i * D) D logits))"

subsection \<open>ComputeLogProbsOneSequence\<close>

definition ComputeLogProbsOneSequence ::
  "('a::minus) Options \<Rightarrow> TensorView \<Rightarrow> 'a mem \<Rightarrow> (int \<Rightarrow> int) \<Rightarrow> int \<Rightarrow> int \<Rightarrow>
   TensorView \<Rightarrow> 'a mem \<Rightarrow> TensorView \<Rightarrow> 'a LogProbs mem \<Rightarrow> 'a LogProbs mem" where
  "ComputeLogProbsOneSequence options logits lm targets srcLen tgtLen denom dm logProbs pm =
     (let T = srcLen; U = tgtLen
      in for_loop 0 T (\<lambda>t. for_loop 0 U (\<lambda>u pm.
           let pm1 =
                 (if u < U - 1
                  then pm(addr logProbs [t, u] := (pm (addr logProbs [t, u]))
                         \<lparr>emit := lm (addr logits [t, u, targets u]) - dm (addr denom [t, u])\<rparr>)
                  else pm)
           in pm1(addr logProbs [t, u] := (pm1 (addr logProbs [t, u]))
                 \<lparr>skip := lm (addr logits [t, u, blank options]) - dm (addr denom [t, u])\<rparr>))) pm)"

text \<open>The pair that the log-probs stage leaves in cell \<open>(t, u)\<close>, whose old content is \<open>old\<close>.\<close>

definition logProbs_cell ::
  "('a::minus) Options \<Rightarrow> TensorView \<Rightarrow> 'a mem \<Rightarrow> (int \<Rightarrow> int) \<Rightarrow> int \<Rightarrow> TensorView \<Rightarrow> 'a mem \<Rightarrow>
   int \<Rightarrow> int \<Rightarrow> 'a LogProbs \<Rightarrow> 'a LogProbs" where
  "logProbs_cell options logits lm targets U denom dm t u old =
     \<lparr>skip = lm (addr logits [t, u, blank options]) - dm (addr denom [t, u]),
      emit = (if u < U - 1 then lm (addr logits [t, u, targets u]) - dm (addr denom [t, u])
              else emit old)\<rparr>"

subsection \<open>The forward and backward recurrences\<close>

text \<open>
  The kernels are templates over the floating type \<open>DTYPE\<close>: here a type \<open>'a\<close> with the
  operations the code applies. \<open>math::lse\<close> (math.h) and the value \<open>DTYPE(-INFINITY)\<close> are
  parameters, \<open>lse\<close> and \<open>ninf\<close>. Each pointer parameter of the source is a buffer of its
  own together with an offset into it; the log-probs buffer holds \<open>LogProbs\<close> pairs.
\<close>

definition ComputeAlphaOneSequence ::
  "('a \<Rightarrow> 'a \<Rightarrow> 'a) \<Rightarrow> 'b Options \<Rightarrow> TensorView \<Rightarrow> ('a::{zero,plus}) LogProbs mem \<Rightarrow>
   int \<Rightarrow> int \<Rightarrow> TensorView \<Rightarrow> 'a mem \<Rightarrow> 'a \<times> 'a mem" where
  "ComputeAlphaOneSequence lse options logProbs pm srcLen tgtLen alpha am =
     (let T = srcLen; U = tgtLen;
          am1 = am(addr alpha [0, 0] := 0);
          am2 = for_loop 1 T (\<lambda>t am.
                  am(addr alpha [t, 0] :=
                       am (addr alpha [t - 1, 0]) + skip (pm (addr logProbs [t - 1, 0])))) am1;
          am3 = for_loop 1 U (\<lambda>u am.
                  am(addr alpha [0, u] :=
                       am (addr alpha [0, u - 1]) + emit (pm (addr logProbs [0, u - 1])))) am2;
          am4 = for_loop 1 T (\<lambda>t. for_loop 1 U (\<lambda>u am.
                  am(addr alpha [t, u] :=
                       lse (am (addr alpha [t - 1, u]) + skip (pm (addr logProbs [t - 1, u])))
                           (am (addr alpha [t, u - 1]) + emit (pm (addr logProbs [t, u - 1])))))) am3;
          forward_score = am4 (addr alpha [T - 1, U - 1]) + skip (pm (addr logProbs [T - 1, U - 1]))
      in (forward_score, am4))"

definition ComputeBetaOneSequence ::
  "('a \<Rightarrow> 'a \<Rightarrow> 'a) \<Rightarrow> 'b Options \<Rightarrow> TensorView \<Rightarrow> ('a::{zero,plus}) LogProbs mem \<Rightarrow>
   int \<Rightarrow> int \<Rightarrow> TensorView \<Rightarrow> 'a mem \<Rightarrow> 'a \<times> 'a mem" where
  "ComputeBetaOneSequence lse options logProbs pm srcLen tgtLen beta bm =
     (let T = srcLen; U = tgtLen;
          bm1 = bm(addr beta [T - 1, U - 1] := skip (pm (addr logProbs [T - 1, U - 1])));
          bm2 = for_down (T - 2) 0 (\<lambda>t bm.
                  bm(addr beta [t, U - 1] :=
                       bm (addr beta [t + 1, U - 1]) + skip (pm (addr logProbs [t, U - 1])))) bm1;
          bm3 = for_down (U - 2) 0 (\<lambda>u bm.
                  bm(addr beta [T - 1, u] :=
                       bm (addr beta [T - 1, u + 1]) + emit (pm (addr logProbs [T - 1, u])))) bm2;
          bm4 = for_down (T - 2) 0 (\<lambda>t. for_down (U - 2) 0 (\<lambda>u bm.
                  bm(addr beta [t, u] :=
                       lse (bm (addr beta [t + 1, u]) + skip (pm (addr logProbs [t, u])))
                           (bm (addr beta [t, u + 1]) + emit (pm (addr logProbs [t, u])))))) bm3;
          backward_score = bm4 (addr beta [0, 0])
      in (backward_score, bm4))"

text \<open>
  Loops that leave through \<open>break\<close>: the body returns \<open>None\<close> when it breaks.
\<close>

function for_loop_break :: "int \<Rightarrow> int \<Rightarrow> (int \<Rightarrow> 's \<Rightarrow> 's option) \<Rightarrow> 's \<Rightarrow> 's" where
  "for_loop_break i n body s =
     (if i < n
      then (case body i s of None \<Rightarrow> s | Some s' \<Rightarrow> for_loop_break (i + 1) n body s')
      else s)"
  by pat_completeness auto
termination
  by (relation "measure (\<lambda>(i, n, body, s). nat (n - i))") auto

function for_down_break :: "int \<Rightarrow> int \<Rightarrow> (int \<Rightarrow> 's \<Rightarrow> 's option) \<Rightarrow> 's \<Rightarrow> 's" where
  "for_down_break i lo body s =
     (if i \<ge> lo
      then (case body i s of None \<Rightarrow> s | Some s' \<Rightarrow> for_down_break (i - 1) lo body s')
      else s)"
  by pat_completeness auto
termination
  by (relation "measure (\<lambda>(i, lo, body, s). nat (i - lo + 1))") auto

declare for_loop_break.simps [simp del] for_down_break.simps [simp del]

text \<open>
  \<open>AlignmentRestrictionCheck\<close> is declared in alignment\_restrictions.h: its four predicates
  and \<open>validTimeRanges\<close> (the values it leaves in \<open>start_t\<close> and \<open>end_t\<close>) are the fields of a
  record, and its constructor is the parameter \<open>mk_check\<close> of the restricted kernels.
\<close>

record AlignmentRestrictionCheck =
  alphaBlankTransition :: "int \<Rightarrow> int \<Rightarrow> bool"
  alphaEmitTransition :: "int \<Rightarrow> int \<Rightarrow> bool"
  betaBlankTransition :: "int \<Rightarrow> int \<Rightarrow> bool"
  betaEmitTransition :: "int \<Rightarrow> int \<Rightarrow> bool"
  validTimeRanges :: "int \<Rightarrow> int \<times> int"

type_synonym mk_check = "(int \<Rightarrow> int) \<Rightarrow> int \<Rightarrow> int \<Rightarrow> int \<Rightarrow> int \<Rightarrow> AlignmentRestrictionCheck"

text \<open>
  The bodies of the interior loops of the two restricted kernels: the update of one cell
  \<open>(t, u)\<close> of the buffer.
\<close>

definition alpha_restricted_cell ::
  "AlignmentRestrictionCheck \<Rightarrow> ('a \<Rightarrow> 'a \<Rightarrow> 'a) \<Rightarrow> 'a \<Rightarrow> TensorView \<Rightarrow> ('a::{zero,plus}) LogProbs mem \<Rightarrow>
   TensorView \<Rightarrow> int \<Rightarrow> int \<Rightarrow> 'a mem \<Rightarrow> 'a mem" where
  "alpha_restricted_cell check lse ninf logProbs pm alpha t u am =
     (let skip' = (if alphaBlankTransition check t u
                   then am (addr alpha [t - 1, u]) + skip (pm (addr logProbs [t - 1, u]))
                   else ninf);
          emit' = (if alphaEmitTransition check t u
                   then am (addr alpha [t, u - 1]) + emit (pm (addr logProbs [t, u - 1]))
                   else ninf)
      in if skip' \<noteq> ninf \<or> emit' \<noteq> ninf
         then am(addr alpha [t, u] := lse skip' emit')
         else am)"

definition beta_restricted_cell ::
  "AlignmentRestrictionCheck \<Rightarrow> ('a \<Rightarrow> 'a \<Rightarrow> 'a) \<Rightarrow> 'a \<Rightarrow> TensorView \<Rightarrow> ('a::{zero,plus}) LogProbs mem \<Rightarrow>
   TensorView \<Rightarrow> int \<Rightarrow> int \<Rightarrow> 'a mem \<Rightarrow> 'a mem" where
  "beta_restricted_cell check lse ninf logProbs pm beta t u bm =
     (let skip' = (if betaBlankTransition check t u
                   then bm (addr beta [t + 1, u]) + skip (pm (addr logProbs [t, u]))
                   else ninf);
          emit' = (if betaEmitTransition check t u
                   then bm (addr beta [t, u + 1]) + emit (pm (addr logProbs [t, u]))
                   else ninf)
      in if skip' \<noteq> ninf \<or> emit' \<noteq> ninf
         then bm(addr beta [t, u] := lse skip' emit')
         else bm)"

definition ComputeAlphaOneSequenceRestricted ::
  "mk_check \<Rightarrow> ('a \<Rightarrow> 'a \<Rightarrow> 'a) \<Rightarrow> 'a \<Rightarrow> 'b Options \<Rightarrow> TensorView \<Rightarrow>
   ('a::{zero,plus}) LogProbs mem \<Rightarrow> int \<Rightarrow> int \<Rightarrow> TensorView \<Rightarrow> 'a mem \<Rightarrow> (int \<Rightarrow> int) \<Rightarrow>
   'a \<times> 'a mem" where
  "ComputeAlphaOneSequenceRestricted mk_check lse ninf options logProbs pm srcLen tgtLen alpha am
       wpEnds =
     (let T = srcLen; U = tgtLen;
          check = mk_check wpEnds T U (lBuffer options) (rBuffer options);
          am0 = for_loop 0 T (\<lambda>t. for_loop 0 U (\<lambda>u am. am(addr alpha [t, u] := ninf))) am;
          am1 = am0(addr alpha [0, 0] := 0);
          am2 = for_loop_break 1 T (\<lambda>t am.
                  if \<not> alphaBlankTransition check t 0 then None
                  else Some (am(addr alpha [t, 0] :=
                       am (addr alpha [t - 1, 0]) + skip (pm (addr logProbs [t - 1, 0]))))) am1;
          am3 = for_loop_break 1 U (\<lambda>u am.
                  if \<not> alphaEmitTransition check 0 u then None
                  else Some (am(addr alpha [0, u] :=
                       am (addr alpha [0, u - 1]) + emit (pm (addr logProbs [0, u - 1]))))) am2;
          am4 = for_loop 1 U (\<lambda>u am.
                  let (start_t, end_t) = validTimeRanges check u
                  in for_loop start_t (end_t + 1) (\<lambda>t.
                       alpha_restricted_cell check lse ninf logProbs pm alpha t u) am) am3;
          forward_score = am4 (addr alpha [T - 1, U - 1]) + skip (pm (addr logProbs [T - 1, U - 1]))
      in (forward_score, am4))"

definition ComputeBetaOneSequenceRestricted ::
  "mk_check \<Rightarrow> ('a \<Rightarrow> 'a \<Rightarrow> 'a) \<Rightarrow> 'a \<Rightarrow> 'b Options \<Rightarrow> TensorView \<Rightarrow>
   ('a::{zero,plus}) LogProbs mem \<Rightarrow> int \<Rightarrow> int \<Rightarrow> TensorView \<Rightarrow> 'a mem \<Rightarrow> (int \<Rightarrow> int) \<Rightarrow>
   'a \<times> 'a mem" where
  "ComputeBetaOneSequenceRestricted mk_check lse ninf options logProbs pm srcLen tgtLen beta bm
       wpEnds =
     (let T = srcLen; U = tgtLen;
          check = mk_check wpEnds T U (lBuffer options) (rBuffer options);
          bm0 = for_loop 0 T (\<lambda>t. for_loop 0 U (\<lambda>u bm. bm(addr beta [t, u] := ninf))) bm;
          bm1 = bm0(addr beta [T - 1, U - 1] := skip (pm (addr logProbs [T - 1, U - 1])));
          bm2 = for_down_break (T - 2) 0 (\<lambda>t bm.
                  if \<not> betaBlankTransition check t (U - 1) then None
                  else Some (bm(addr beta [t, U - 1] :=
                       bm (addr beta [t + 1, U - 1]) + skip (pm (addr logProbs [t, U - 1]))))) bm1;
          bm3 = for_down_break (U - 2) 0 (\<lambda>u bm.
                  if \<not> betaEmitTransition check (T - 1) u then None
                  else Some (bm(addr beta [T - 1, u] :=
                       bm (addr beta [T - 1, u + 1]) + emit (pm (addr logProbs [T - 1, u]))))) bm2;
          bm4 = for_down (U - 2) 0 (\<lambda>u bm.
                  let (start_t, end_t) = validTimeRanges check u
                  in for_down end_t start_t (\<lambda>t.
                       beta_restricted_cell check lse ninf logProbs pm beta t u) bm) bm3;
          backward_score = bm4 (addr beta [0, 0])
      in (backward_score, bm4))"

text \<open>
  \<open>ComputeAlphaOrBetaOneSequence\<close>: \<open>wpEnds\<close> is \<open>None\<close> for the null pointer; \<open>thread & 1\<close>
  is the parity of \<open>thread\<close>. The result is the score with the two buffers.
\<close>

definition ComputeAlphaOrBetaOneSequence ::
  "mk_check \<Rightarrow> ('a \<Rightarrow> 'a \<Rightarrow> 'a) \<Rightarrow> 'a \<Rightarrow> int \<Rightarrow> 'b Options \<Rightarrow> TensorView \<Rightarrow>
   ('a::{zero,plus}) LogProbs mem \<Rightarrow> int \<Rightarrow> int \<Rightarrow> TensorView \<Rightarrow> 'a mem \<Rightarrow> TensorView \<Rightarrow> 'a mem \<Rightarrow>
   (int \<Rightarrow> int) option \<Rightarrow> 'a \<times> 'a mem \<times> 'a mem" where
  "ComputeAlphaOrBetaOneSequence mk_check lse ninf thread options logProbs pm srcLen tgtLen
       alpha am beta bm wpEnds =
     (case wpEnds of
        None \<Rightarrow>
          if thread mod 2 \<noteq> 0
          then (let (score, am') = ComputeAlphaOneSequence lse options logProbs pm srcLen tgtLen alpha am
                in (score, am', bm))
          else (let (score, bm') = ComputeBetaOneSequence lse options logProbs pm srcLen tgtLen beta bm
                in (score, am, bm'))
      | Some w \<Rightarrow>
          if thread mod 2 \<noteq> 0
          then (let (score, am') = ComputeAlphaOneSequenceRestricted mk_check lse ninf options
                                     logProbs pm srcLen tgtLen alpha am w
                in (score, am', bm))
          else (let (score, bm') = ComputeBetaOneSequenceRestricted mk_check lse ninf options
                                     logProbs pm srcLen tgtLen beta bm w
                in (score, am, bm')))"

text \<open>
  \<open>ComputeAlphasBetas\<close>: the views of sample \<open>b\<close> start at \<open>b * maxT * maxU\<close> in their
  buffers, \<open>t >> 1\<close> is \<open>t div 2\<close> and \<open>B << 1\<close> is \<open>2 * B\<close>. The vector \<open>scores\<close> starts
  filled with zeros. The result is the alphas, the betas and the costs.
\<close>

definition ComputeAlphasBetas ::
  "mk_check \<Rightarrow> ('a \<Rightarrow> 'a \<Rightarrow> 'a) \<Rightarrow> 'a \<Rightarrow> 'b Options \<Rightarrow> ('a::{zero,plus,uminus}) LogProbs mem \<Rightarrow>
   (int \<Rightarrow> int) \<Rightarrow> (int \<Rightarrow> int) \<Rightarrow> 'a mem \<Rightarrow> 'a mem \<Rightarrow> 'a mem \<Rightarrow> (int \<Rightarrow> int) option \<Rightarrow>
   'a mem \<times> 'a mem \<times> 'a mem" where
  "ComputeAlphasBetas mk_check lse ninf options logProbs srcLengths tgtLengths alphas betas costs
       wpEnds =
     (let B = batchSize options; maxT = maxSrcLen options; maxU = maxTgtLen options;
          seqlogProbs = (\<lambda>b. mk_TensorView [maxT, maxU] (b * maxT * maxU));
          seq_alphas = (\<lambda>b. mk_TensorView [maxT, maxU] (b * maxT * maxU));
          seq_betas = (\<lambda>b. mk_TensorView [maxT, maxU] (b * maxT * maxU));
          seq_wpEnds = (\<lambda>b. map_option (\<lambda>w i. w (b * maxU + i)) wpEnds);
          (alphas', betas', scores) =
            for_loop 0 (2 * B) (\<lambda>t (am, bm, scores).
              let i = t div 2;
                  (score, am', bm') =
                    ComputeAlphaOrBetaOneSequence mk_check lse ninf t options (seqlogProbs i)
                      logProbs (srcLengths i) (tgtLengths i + 1) (seq_alphas i) am
                      (seq_betas i) bm (seq_wpEnds i)
              in (am', bm', scores(t := score))) (alphas, betas, (\<lambda>t. 0));
          costs' = for_loop 0 B (\<lambda>b costs. costs(b := - scores (2 * b))) costs
      in (alphas', betas', costs'))"

subsection \<open>ComputeGradientsOneSequence\<close>

text \<open>
  The logits and the gradients are pointers into one buffer \<open>hm\<close> of the type \<open>DTYPE\<close>: the
  code compares their addresses, and the caller may pass the same memory for both. The
  denominators, alphas and betas are read-only buffers of their own. \<open>math::min\<close> and
  \<open>math::max\<close> are \<open>min\<close> and \<open>max\<close>.
\<close>

definition ComputeGradientsOneSequence ::
  "real Options \<Rightarrow> TensorView \<Rightarrow> (int \<Rightarrow> int) \<Rightarrow> int \<Rightarrow> int \<Rightarrow> TensorView \<Rightarrow> real mem \<Rightarrow>
   TensorView \<Rightarrow> real mem \<Rightarrow> TensorView \<Rightarrow> real mem \<Rightarrow> TensorView \<Rightarrow> real mem \<Rightarrow> real mem" where
  "ComputeGradientsOneSequence options logits targets srcLen tgtLen denom dm alpha am beta bm
       gradients hm =
     (let T = srcLen; U = tgtLen; D = numTargets options;
          cost = - bm (addr beta [0, 0]);
          hm1 = for_loop 0 T (\<lambda>t. for_loop 0 U (\<lambda>u hm.
                  let c = am (addr alpha [t, u]) + cost - dm (addr denom [t, u])
                  in for_loop 0 D (\<lambda>d hm.
                       let g = hm (addr logits [t, u, d]) + c;
                           hm' = hm(addr gradients [t, u, d] :=
                                   (if d = blank options \<and> t = T - 1 \<and> u = U - 1
                                    then exp (g + bm (addr beta [t, u])) - exp g
                                    else if d = blank options \<and> t < T - 1
                                    then exp (g + bm (addr beta [t, u]))
                                         - exp (g + bm (addr beta [t + 1, u]))
                                    else if u < U - 1 \<and> d = targets u
                                    then exp (g + bm (addr beta [t, u]))
                                         - exp (g + bm (addr beta [t, u + 1]))
                                    else exp (g + bm (addr beta [t, u]))))
                       in if clamp options > 0
                          then (let hm'' = hm'(addr gradients [t, u, d] :=
                                             min (hm' (addr gradients [t, u, d])) (clamp options))
                                in hm''(addr gradients [t, u, d] :=
                                             max (hm'' (addr gradients [t, u, d])) (- clamp options)))
                          else hm') hm)) hm
      in if addr gradients [0, 0, 0] = addr logits [0, 0, 0]
         then (let maxT = maxSrcLen options; maxU = maxTgtLen options;
                   hm2 = for_loop T maxT (\<lambda>t. for_loop 0 maxU (\<lambda>u. for_loop 0 D (\<lambda>d hm.
                           hm(addr gradients [t, u, d] := 0)))) hm1
               in for_loop 0 T (\<lambda>t. for_loop U maxU (\<lambda>u. for_loop 0 D (\<lambda>d hm.
                           hm(addr gradients [t, u, d] := 0)))) hm2)
         else hm1)"

subsection \<open>The recurrences as functions of the cell\<close>

text \<open>
  Modelled from the spec: \<open>math::lse\<close> of math.h, which is not among the sources. The spec
  gives \<open>lse(a,b) = max(a,b) + log1p(exp(-|a-b|))\<close>.
\<close>

definition math_lse :: "real \<Rightarrow> real \<Rightarrow> real" where
  "math_lse a b = max a b + ln (1 + exp (- \<bar>a - b\<bar>))"

text \<open>
  The value of \<open>alpha(t, u)\<close>, and of \<open>beta\<close> at the cell \<open>(n - i, m - j)\<close> of a lattice
  whose last cell is \<open>(n, m)\<close>, as the recurrences of the two kernels define them from the
  tables \<open>sk\<close> and \<open>em\<close> of the skip and emit log-probabilities.
\<close>

fun alpha_rec ::
  "('a \<Rightarrow> 'a \<Rightarrow> 'a) \<Rightarrow> (nat \<Rightarrow> nat \<Rightarrow> 'a) \<Rightarrow> (nat \<Rightarrow> nat \<Rightarrow> 'a) \<Rightarrow> nat \<Rightarrow> nat \<Rightarrow> 'a::{zero,plus}" where
  "alpha_rec lse sk em 0 0 = 0"
| "alpha_rec lse sk em (Suc t) 0 = alpha_rec lse sk em t 0 + sk t 0"
| "alpha_rec lse sk em 0 (Suc u) = alpha_rec lse sk em 0 u + em 0 u"
| "alpha_rec lse sk em (Suc t) (Suc u) =
     lse (alpha_rec lse sk em t (Suc u) + sk t (Suc u))
         (alpha_rec lse sk em (Suc t) u + em (Suc t) u)"

fun beta_rev ::
  "('a \<Rightarrow> 'a \<Rightarrow> 'a) \<Rightarrow> (nat \<Rightarrow> nat \<Rightarrow> 'a) \<Rightarrow> (nat \<Rightarrow> nat \<Rightarrow> 'a) \<Rightarrow> nat \<Rightarrow> nat \<Rightarrow> nat \<Rightarrow> nat \<Rightarrow>
   'a::{zero,plus}" where
  "beta_rev lse sk em n m 0 0 = sk n m"
| "beta_rev lse sk em n m (Suc i) 0 = beta_rev lse sk em n m i 0 + sk (n - Suc i) m"
| "beta_rev lse sk em n m 0 (Suc j) = beta_rev lse sk em n m 0 j + em n (m - Suc j)"
| "beta_rev lse sk em n m (Suc i) (Suc j) =
     lse (beta_rev lse sk em n m i (Suc j) + sk (n - Suc i) (m - Suc j))
         (beta_rev lse sk em n m (Suc i) j + em (n - Suc i) (m - Suc j))"

text \<open>The same recurrences on probabilities instead of their logarithms.\<close>

fun fwd :: "(nat \<Rightarrow> nat \<Rightarrow> real) \<Rightarrow> (nat \<Rightarrow> nat \<Rightarrow> real) \<Rightarrow> nat \<Rightarrow> nat \<Rightarrow> real" where
  "fwd P Q 0 0 = 1"
| "fwd P Q (Suc t) 0 = fwd P Q t 0 * P t 0"
| "fwd P Q 0 (Suc u) = fwd P Q 0 u * Q 0 u"
| "fwd P Q (Suc t) (Suc u) = fwd P Q t (Suc u) * P t (Suc u) + fwd P Q (Suc t) u * Q (Suc t) u"

fun bwd :: "(nat \<Rightarrow> nat \<Rightarrow> real) \<Rightarrow> (nat \<Rightarrow> nat \<Rightarrow> real) \<Rightarrow> nat \<Rightarrow> nat \<Rightarrow> nat \<Rightarrow> nat \<Rightarrow> real" where
  "bwd P Q n m 0 0 = P n m"
| "bwd P Q n m (Suc i) 0 = bwd P Q n m i 0 * P (n - Suc i) m"
| "bwd P Q n m 0 (Suc j) = bwd P Q n m 0 j * Q n (m - Suc j)"
| "bwd P Q n m (Suc i) (Suc j) =
     bwd P Q n m i (Suc j) * P (n - Suc i) (m - Suc j)
     + bwd P Q n m (Suc i) j * Q (n - Suc i) (m - Suc j)"

text \<open>
  \<open>holds_on D a F s\<close>: in the buffer \<open>s\<close>, every cell \<open>(t, u)\<close> of \<open>D\<close>, stored at offset
  \<open>a t u\<close>, holds \<open>F t u\<close>.
\<close>

definition holds_on :: "(int \<Rightarrow> int \<Rightarrow> bool) \<Rightarrow> (int \<Rightarrow> int \<Rightarrow> int) \<Rightarrow> (int \<Rightarrow> int \<Rightarrow> 'a) \<Rightarrow> 'a mem \<Rightarrow> bool" where
  "holds_on D a F s \<longleftrightarrow> (\<forall>t u. D t u \<longrightarrow> s (a t u) = F t u)"

subsection \<open>The gradient table of the spec\<close>

text \<open>
  Section 4.5 of the spec, in its words: \<open>c(t,u) = alpha(t,u) + cost - denom(t,u)\<close> with
  \<open>cost = -beta(0,0)\<close>, \<open>g = x + c(t,u)\<close> for the logit \<open>x = logits(t,u,d)\<close>, and the four
  cases of the table, the first that applies. Over the reals \<open>g\<close> is
  \<open>logits(t,u,d) + alpha(t,u) + cost - denom(t,u)\<close>. \<open>clip\<close> is the clamp to
  \<open>[-clamp, clamp]\<close>, applied when \<open>clamp > 0\<close>.
\<close>

definition spec_gradient ::
  "int \<Rightarrow> (int \<Rightarrow> int) \<Rightarrow> int \<Rightarrow> int \<Rightarrow> (int \<Rightarrow> int \<Rightarrow> int \<Rightarrow> real) \<Rightarrow> (int \<Rightarrow> int \<Rightarrow> real) \<Rightarrow>
   (int \<Rightarrow> int \<Rightarrow> real) \<Rightarrow> (int \<Rightarrow> int \<Rightarrow> real) \<Rightarrow> int \<Rightarrow> int \<Rightarrow> int \<Rightarrow> real" where
  "spec_gradient blank' targets T U logits denom alpha beta t u d =
     (let cost = - beta 0 0;
          c = alpha t u + cost - denom t u;
          g = logits t u d + c
      in if d = blank' \<and> t = T - 1 \<and> u = U - 1 then exp (g + beta t u) - exp g
         else if d = blank' \<and> t < T - 1 then exp (g + beta t u) - exp (g + beta (t + 1) u)
         else if u < U - 1 \<and> d = targets u then exp (g + beta t u) - exp (g + beta t (u + 1))
         else exp (g + beta t u))"

definition clip :: "real \<Rightarrow> real \<Rightarrow> real" where
  "clip c x = (if c > 0 then max (min x c) (- c) else x)"

text \<open>
  \<open>filled Dn a F s0 s\<close>: the buffer \<open>s\<close> holds \<open>F t u d\<close> in every cell of \<open>Dn\<close>, stored at
  offset \<open>a t u d\<close>, and is \<open>s0\<close> everywhere else.
\<close>

definition filled ::
  "(int \<Rightarrow> int \<Rightarrow> int \<Rightarrow> bool) \<Rightarrow> (int \<Rightarrow> int \<Rightarrow> int \<Rightarrow> int) \<Rightarrow> (int \<Rightarrow> int \<Rightarrow> int \<Rightarrow> 'a) \<Rightarrow>
   'a mem \<Rightarrow> 'a mem \<Rightarrow> bool" where
  "filled Dn a F s0 s \<longleftrightarrow>
     (\<forall>t u d. Dn t u d \<longrightarrow> s (a t u d) = F t u d)
     \<and> (\<forall>x. (\<forall>t u d. Dn t u d \<longrightarrow> x \<noteq> a t u d) \<longrightarrow> s x = s0 x)"

text \<open>
  The first loop nest of \<open>ComputeGradientsOneSequence\<close>, which writes the valid region.
\<close>

definition gradients_valid_region ::
  "real Options \<Rightarrow> TensorView \<Rightarrow> (int \<Rightarrow> int) \<Rightarrow> int \<Rightarrow> int \<Rightarrow> TensorView \<Rightarrow> real mem \<Rightarrow>
   TensorView \<Rightarrow> real mem \<Rightarrow> TensorView \<Rightarrow> real mem \<Rightarrow> TensorView \<Rightarrow> real mem \<Rightarrow> real mem" where
  "gradients_valid_region options logits targets T U denom dm alpha am beta bm gradients hm =
     for_loop 0 T (\<lambda>t. for_loop 0 U (\<lambda>u hm.
        let c = am (addr alpha [t, u]) + - bm (addr beta [0, 0]) - dm (addr denom [t, u])
        in for_loop 0 (numTargets options) (\<lambda>d hm.
             let g = hm (addr logits [t, u, d]) + c;
                 hm' = hm(addr gradients [t, u, d] :=
                         (if d = blank options \<and> t = T - 1 \<and> u = U - 1
                          then exp (g + bm (addr beta [t, u])) - exp g
                          else if d = blank options \<and> t < T - 1
                          then exp (g + bm (addr beta [t, u]))
                               - exp (g + bm (addr beta [t + 1, u]))
                          else if u < U - 1 \<and> d = targets u
                          then exp (g + bm (addr beta [t, u]))
                               - exp (g + bm (addr beta [t, u + 1]))
                          else exp (g + bm (addr beta [t, u]))))
             in if clamp options > 0
                then (let hm'' = hm'(addr gradients [t, u, d] :=
                                   min (hm' (addr gradients [t, u, d])) (clamp options))
                      in hm''(addr gradients [t, u, d] :=
                                   max (hm'' (addr gradients [t, u, d])) (- clamp options)))
                else hm') hm)) hm"

subsection \<open>The invariants I1 to I5 of the spec\<close>

text \<open>
  Section 3 of the spec, in its words, on the tables of one sample as functions of the
  cell: the denominator is the log-sum-exp of the logits (I1), \<open>skip\<close> and \<open>emit\<close> are the
  normalised blank and target logits (I2, I3), \<open>alpha\<close> and \<open>beta\<close> satisfy their boundary
  conditions and recurrences (I4), and the forward score is the backward score (I5).
\<close>

definition I1 :: "int \<Rightarrow> int \<Rightarrow> int \<Rightarrow> (int \<Rightarrow> int \<Rightarrow> int \<Rightarrow> real) \<Rightarrow> (int \<Rightarrow> int \<Rightarrow> real) \<Rightarrow> bool" where
  "I1 T U D logits denom \<longleftrightarrow>
     (\<forall>t u. 0 \<le> t \<and> t < T \<and> 0 \<le> u \<and> u < U \<longrightarrow>
        denom t u = ln (\<Sum>d\<in>{0..<D}. exp (logits t u d)))"

definition I2 ::
  "int \<Rightarrow> int \<Rightarrow> int \<Rightarrow> (int \<Rightarrow> int \<Rightarrow> int \<Rightarrow> real) \<Rightarrow> (int \<Rightarrow> int \<Rightarrow> real) \<Rightarrow> (int \<Rightarrow> int \<Rightarrow> real) \<Rightarrow> bool" where
  "I2 T U blank' logits denom skip' \<longleftrightarrow>
     (\<forall>t u. 0 \<le> t \<and> t < T \<and> 0 \<le> u \<and> u < U \<longrightarrow> skip' t u = logits t u blank' - denom t u)"

definition I3 ::
  "int \<Rightarrow> int \<Rightarrow> (int \<Rightarrow> int) \<Rightarrow> (int \<Rightarrow> int \<Rightarrow> int \<Rightarrow> real) \<Rightarrow> (int \<Rightarrow> int \<Rightarrow> real) \<Rightarrow> (int \<Rightarrow> int \<Rightarrow> real) \<Rightarrow>
   bool" where
  "I3 T U targets logits denom emit' \<longleftrightarrow>
     (\<forall>t u. 0 \<le> t \<and> t < T \<and> 0 \<le> u \<and> u < U - 1 \<longrightarrow>
        emit' t u = logits t u (targets u) - denom t u)"

definition I4_alpha ::
  "int \<Rightarrow> int \<Rightarrow> (int \<Rightarrow> int \<Rightarrow> real) \<Rightarrow> (int \<Rightarrow> int \<Rightarrow> real) \<Rightarrow> (int \<Rightarrow> int \<Rightarrow> real) \<Rightarrow> bool" where
  "I4_alpha T U skip' emit' alpha \<longleftrightarrow>
     alpha 0 0 = 0
     \<and> (\<forall>t. 1 \<le> t \<and> t < T \<longrightarrow> alpha t 0 = alpha (t - 1) 0 + skip' (t - 1) 0)
     \<and> (\<forall>u. 1 \<le> u \<and> u < U \<longrightarrow> alpha 0 u = alpha 0 (u - 1) + emit' 0 (u - 1))
     \<and> (\<forall>t u. 1 \<le> t \<and> t < T \<and> 1 \<le> u \<and> u < U \<longrightarrow>
           alpha t u = math_lse (alpha (t - 1) u + skip' (t - 1) u)
                                (alpha t (u - 1) + emit' t (u - 1)))"

definition I4_beta ::
  "int \<Rightarrow> int \<Rightarrow> (int \<Rightarrow> int \<Rightarrow> real) \<Rightarrow> (int \<Rightarrow> int \<Rightarrow> real) \<Rightarrow> (int \<Rightarrow> int \<Rightarrow> real) \<Rightarrow> bool" where
  "I4_beta T U skip' emit' beta \<longleftrightarrow>
     beta (T - 1) (U - 1) = skip' (T - 1) (U - 1)
     \<and> (\<forall>t. 0 \<le> t \<and> t < T - 1 \<longrightarrow> beta t (U - 1) = beta (t + 1) (U - 1) + skip' t (U - 1))
     \<and> (\<forall>u. 0 \<le> u \<and> u < U - 1 \<longrightarrow> beta (T - 1) u = beta (T - 1) (u + 1) + emit' (T - 1) u)
     \<and> (\<forall>t u. 0 \<le> t \<and> t < T - 1 \<and> 0 \<le> u \<and> u < U - 1 \<longrightarrow>
           beta t u = math_lse (beta (t + 1) u + skip' t u) (beta t (u + 1) + emit' t u))"

definition I5 ::
  "int \<Rightarrow> int \<Rightarrow> (int \<Rightarrow> int \<Rightarrow> real) \<Rightarrow> (int \<Rightarrow> int \<Rightarrow> real) \<Rightarrow> (int \<Rightarrow> int \<Rightarrow> real) \<Rightarrow> bool" where
  "I5 T U skip' alpha beta \<longleftrightarrow> alpha (T - 1) (U - 1) + skip' (T - 1) (U - 1) = beta 0 0"

definition invariants_I1_I5 ::
  "int \<Rightarrow> int \<Rightarrow> int \<Rightarrow> int \<Rightarrow> (int \<Rightarrow> int) \<Rightarrow> (int \<Rightarrow> int \<Rightarrow> int \<Rightarrow> real) \<Rightarrow> (int \<Rightarrow> int \<Rightarrow> real) \<Rightarrow>
   (int \<Rightarrow> int \<Rightarrow> real) \<Rightarrow> (int \<Rightarrow> int \<Rightarrow> real) \<Rightarrow> (int \<Rightarrow> int \<Rightarrow> real) \<Rightarrow> (int \<Rightarrow> int \<Rightarrow> real) \<Rightarrow> bool" where
  "invariants_I1_I5 T U D blank' targets logits denom skip' emit' alpha beta \<longleftrightarrow>
     I1 T U D logits denom \<and> I2 T U blank' logits denom skip'
     \<and> I3 T U targets logits denom emit' \<and> I4_alpha T U skip' emit' alpha
     \<and> I4_beta T U skip' emit' beta \<and> I5 T U skip' alpha beta"

subsection \<open>A floating type with minus infinity\<close>

text \<open>
  The reals with \<open>-INFINITY\<close>, enough of \<open>DTYPE\<close> to run the restricted kernels: a sum with
  \<open>-INFINITY\<close> is \<open>-INFINITY\<close>, and \<open>math::lse\<close> returns its other argument when one is
  \<open>-INFINITY\<close>, as the spec says.
\<close>

datatype xreal = NegInf | Fin real

instantiation xreal :: "{zero,plus}"
begin

definition zero_xreal :: xreal where
  "zero_xreal = Fin 0"

fun plus_xreal :: "xreal \<Rightarrow> xreal \<Rightarrow> xreal" where
  "plus_xreal (Fin a) (Fin b) = Fin (a + b)"
| "plus_xreal NegInf y = NegInf"
| "plus_xreal x NegInf = NegInf"

instance ..

end

fun xlse :: "xreal \<Rightarrow> xreal \<Rightarrow> xreal" where
  "xlse (Fin a) (Fin b) = Fin (math_lse a b)"
| "xlse NegInf y = y"
| "xlse x NegInf = x"

subsection \<open>The type float\<close>

text \<open>
  With \<open>DTYPE = CAST_DTYPE = float\<close> the kernels compute in IEEE 754 binary32 under the
  default rounding, to nearest with ties to even. A finite number is taken as the real it
  denotes, so the two zeros are one. A nonzero \<open>x\<close> has the exponent \<open>\<lfloor>log\<^sub>2 \<bar>x\<bar>\<rfloor>\<close>, at least
  \<open>-126\<close> (the subnormal numbers share that exponent), and 24 significant bits, so its unit in
  the last place is \<open>2\<close> to the exponent minus 23; \<open>round32\<close> is the nearest multiple of that
  unit. A result whose rounded value reaches \<open>2\<^sup>1\<^sup>2\<^sup>8\<close> is an infinity of its sign;
  \<open>Infinity True\<close> is \<open>-INFINITY\<close>.
\<close>

definition round_ties_even :: "real \<Rightarrow> int" where
  "round_ties_even x =
     (let f = \<lfloor>x\<rfloor>; r = x - of_int f
      in if r < 1 / 2 then f else if 1 / 2 < r then f + 1 else if even f then f else f + 1)"

definition exponent32 :: "real \<Rightarrow> int" where
  "exponent32 x = max \<lfloor>log 2 \<bar>x\<bar>\<rfloor> (- 126)"

definition round32 :: "real \<Rightarrow> real" where
  "round32 x =
     (if x = 0 then 0
      else let ulp = 2 powr (of_int (exponent32 x) - 23)
           in of_int (round_ties_even (x / ulp)) * ulp)"

datatype float32 = Finite real | Infinity bool | NaN

definition of_real32 :: "real \<Rightarrow> float32" where
  "of_real32 x = (let r = round32 x in if 2 ^ 128 \<le> \<bar>r\<bar> then Infinity (r < 0) else Finite r)"

instantiation float32 :: "{zero,plus,uminus}"
begin

definition zero_float32 :: float32 where
  "zero_float32 = Finite 0"

fun plus_float32 :: "float32 \<Rightarrow> float32 \<Rightarrow> float32" where
  "plus_float32 (Finite x) (Finite y) = of_real32 (x + y)"
| "plus_float32 NaN y = NaN"
| "plus_float32 x NaN = NaN"
| "plus_float32 (Infinity s) (Infinity s') = (if s = s' then Infinity s else NaN)"
| "plus_float32 (Infinity s) (Finite y) = Infinity s"
| "plus_float32 (Finite x) (Infinity s) = Infinity s"

fun uminus_float32 :: "float32 \<Rightarrow> float32" where
  "uminus_float32 (Finite x) = Finite (- x)"
| "uminus_float32 (Infinity s) = Infinity (\<not> s)"
| "uminus_float32 NaN = NaN"

instance ..

end


subsection \<open>Concrete inputs\<close>

text \<open>A smallest input: one sample, one frame, no target label, two classes.\<close>

definition opts0 :: "real Options" where
  "opts0 = \<lparr>batchSize = 1, maxSrcLen = 1, maxTgtLen = 1, numTargets = 2, blank = 0,
            clamp = 0, lBuffer = 0, rBuffer = 0, fusedLogSmax = False\<rparr>"

definition pm0 :: "real LogProbs mem" where
  "pm0 = (\<lambda>i. \<lparr>skip = 0, emit = 0\<rparr>)"

text \<open>One sample of one frame in a batch padded to two frames.\<close>

definition opts1 :: "real Options" where
  "opts1 = \<lparr>batchSize = 1, maxSrcLen = 2, maxTgtLen = 1, numTargets = 2, blank = 0,
            clamp = 0, lBuffer = 0, rBuffer = 0, fusedLogSmax = True\<rparr>"

text \<open>
  Two frames and one target label, two classes: the tables \<open>alpha2\<close> and \<open>beta2\<close> are the
  alphas and betas of zero logits when the target label is the blank, as \<open>[2, 2]\<close> views.
\<close>

definition opts2 :: "real Options" where
  "opts2 = \<lparr>batchSize = 1, maxSrcLen = 2, maxTgtLen = 2, numTargets = 2, blank = 0,
            clamp = 0, lBuffer = 0, rBuffer = 0, fusedLogSmax = True\<rparr>"

definition alpha2 :: "real mem" where
  "alpha2 = (\<lambda>i. if i = 0 then 0 else - ln 2)"

definition beta2 :: "real mem" where
  "beta2 = (\<lambda>i. if i = 3 then - ln 2 else - 2 * ln 2)"

text \<open>Log-probs that are zero everywhere.\<close>

definition xpm0 :: "xreal LogProbs mem" where
  "xpm0 = (\<lambda>i. \<lparr>skip = Fin 0, emit = Fin 0\<rparr>)"

text \<open>
  A check of windows: cell \<open>(t, u)\<close> is inside when \<open>t\<close> is within \<open>l\<close> frames before and
  \<open>r\<close> frames after \<open>wpEnds[u]\<close>, and a transition is accepted when both its cells are
  inside. It serves as an instance of the parameter \<open>mk_check\<close>.
\<close>

definition window_check :: mk_check where
  "window_check wpEnds T U l r =
     (let inside = (\<lambda>t u. 0 \<le> t \<and> t < T \<and> 0 \<le> u \<and> u < U
                           \<and> wpEnds u - l \<le> t \<and> t \<le> wpEnds u + r)
      in \<lparr>alphaBlankTransition = (\<lambda>t u. inside (t - 1) u \<and> inside t u),
          alphaEmitTransition = (\<lambda>t u. inside t (u - 1) \<and> inside t u),
          betaBlankTransition = (\<lambda>t u. inside t u \<and> inside (t + 1) u),
          betaEmitTransition = (\<lambda>t u. inside t u \<and> inside t (u + 1)),
          validTimeRanges = (\<lambda>u. (max 0 (wpEnds u - l), min (T - 1) (wpEnds u + r)))\<rparr>)"




section \<open>The dispatcher: stage order and short-circuit\<close>

lemma gpu_LogSumExp2D_cases:
  "gpu_LogSumExp2D env g =
     (if first_check env g \<noteq> cudaSuccess
      then (COMPUTE_DENOMINATOR_REDUCE_MAX_FAILED,
            \<lparr>last_error = cudaSuccess, launched = launched g @ [ReduceMax2D]\<rparr>)
      else if env ReduceLogSumExpGivenMax2D \<noteq> cudaSuccess
      then (COMPUTE_DENOMINATOR_REDUCE_SUM_FAILED,
            \<lparr>last_error = cudaSuccess,
             launched = launched g @ [ReduceMax2D, ReduceLogSumExpGivenMax2D]\<rparr>)
      else (SUCCESS,
            \<lparr>last_error = cudaSuccess,
             launched = launched g @ [ReduceMax2D, ReduceLogSumExpGivenMax2D]\<rparr>))"
  by (simp add: gpu_LogSumExp2D_def launch_def cudaGetLastError_def first_check_def Let_def)

lemma Compute_cases:
  "Compute env gradients g =
     (if first_check env g \<noteq> cudaSuccess
      then (Return COMPUTE_DENOMINATOR_REDUCE_MAX_FAILED,
            \<lparr>last_error = cudaSuccess, launched = launched g @ [ReduceMax2D]\<rparr>)
      else if env ReduceLogSumExpGivenMax2D \<noteq> cudaSuccess
      then (Return COMPUTE_DENOMINATOR_REDUCE_SUM_FAILED,
            \<lparr>last_error = cudaSuccess,
             launched = launched g @ [ReduceMax2D, ReduceLogSumExpGivenMax2D]\<rparr>)
      else if env ComputeLogProbs \<noteq> cudaSuccess
      then (Return COMPUTE_LOG_PROBS_FAILED,
            \<lparr>last_error = cudaSuccess,
             launched = launched g @ [ReduceMax2D, ReduceLogSumExpGivenMax2D, ComputeLogProbs]\<rparr>)
      else if env ComputeAlphasBetasCosts \<noteq> cudaSuccess
      then (Return COMPUTE_ALPHAS_BETAS_COSTS_FAILED,
            \<lparr>last_error = cudaSuccess,
             launched = launched g @ [ReduceMax2D, ReduceLogSumExpGivenMax2D, ComputeLogProbs,
               ComputeAlphasBetasCosts]\<rparr>)
      else if \<not> gradients
      then (Return SUCCESS,
            \<lparr>last_error = cudaSuccess,
             launched = launched g @ [ReduceMax2D, ReduceLogSumExpGivenMax2D, ComputeLogProbs,
               ComputeAlphasBetasCosts]\<rparr>)
      else if env ComputeGradients \<noteq> cudaSuccess
      then (Return COMPUTE_GRADIENTS_FAILED,
            \<lparr>last_error = cudaSuccess,
             launched = launched g @ [ReduceMax2D, ReduceLogSumExpGivenMax2D, ComputeLogProbs,
               ComputeAlphasBetasCosts, ComputeGradients]\<rparr>)
      else (Return SUCCESS,
            \<lparr>last_error = cudaSuccess,
             launched = launched g @ [ReduceMax2D, ReduceLogSumExpGivenMax2D, ComputeLogProbs,
               ComputeAlphasBetasCosts, ComputeGradients]\<rparr>))"
  by (simp add: Compute_def gpu_LogSumExp2D_cases launch_def cudaGetLastError_def Let_def)

lemma ComputeSparse_cases:
  "ComputeSparse env gradients g =
     (if first_check env g \<noteq> cudaSuccess
      then (Return COMPUTE_DENOMINATOR_REDUCE_MAX_FAILED,
            \<lparr>last_error = cudaSuccess, launched = launched g @ [ReduceMax2D]\<rparr>)
      else if env ReduceLogSumExpGivenMax2D \<noteq> cudaSuccess
      then (Return COMPUTE_DENOMINATOR_REDUCE_SUM_FAILED,
            \<lparr>last_error = cudaSuccess,
             launched = launched g @ [ReduceMax2D, ReduceLogSumExpGivenMax2D]\<rparr>)
      else if env ComputeLogProbsSparse \<noteq> cudaSuccess
      then (Exit (env ComputeLogProbsSparse),
            \<lparr>last_error = cudaSuccess,
             launched = launched g @ [ReduceMax2D, ReduceLogSumExpGivenMax2D,
               ComputeLogProbsSparse]\<rparr>)
      else if env ComputeAlphasBetasCosts \<noteq> cudaSuccess
      then (Exit (env ComputeAlphasBetasCosts),
            \<lparr>last_error = cudaSuccess,
             launched = launched g @ [ReduceMax2D, ReduceLogSumExpGivenMax2D,
               ComputeLogProbsSparse, ComputeAlphasBetasCosts]\<rparr>)
      else if \<not> gradients
      then (Return SUCCESS,
            \<lparr>last_error = cudaSuccess,
             launched = launched g @ [ReduceMax2D, ReduceLogSumExpGivenMax2D,
               ComputeLogProbsSparse, ComputeAlphasBetasCosts]\<rparr>)
      else if env ComputeGradients \<noteq> cudaSuccess
      then (Exit (env ComputeGradients),
            \<lparr>last_error = cudaSuccess,
             launched = launched g @ [ReduceMax2D, ReduceLogSumExpGivenMax2D,
               ComputeLogProbsSparse, ComputeAlphasBetasCosts, ComputeGradients]\<rparr>)
      else (Return SUCCESS,
            \<lparr>last_error = cudaSuccess,
             launched = launched g @ [ReduceMax2D, ReduceLogSumExpGivenMax2D,
               ComputeLogProbsSparse, ComputeAlphasBetasCosts, ComputeGradients]\<rparr>))"
  by (simp add: ComputeSparse_def gpu_LogSumExp2D_cases launch_def cudaGetLastError_def
      gpuErrchk_def Let_def)

text \<open>
  \<open>Compute\<close> launches the stages in the order denominator (\<open>ReduceMax2D\<close>,
  \<open>ReduceLogSumExpGivenMax2D\<close>), log-probs, alpha/beta, gradient. It returns the status of
  the first stage that fails and launches no later stage. With a null gradients pointer
  the gradient stage is not launched and, the earlier stages succeeding, it returns
  \<open>SUCCESS\<close>.
\<close>

lemma Compute_stage_order_short_circuit:
  "(first_check env g \<noteq> cudaSuccess \<longrightarrow>
      fst (Compute env gr g) = Return COMPUTE_DENOMINATOR_REDUCE_MAX_FAILED
      \<and> ran (Compute env gr g) g [ReduceMax2D])
   \<and> (first_check env g = cudaSuccess \<and> env ReduceLogSumExpGivenMax2D \<noteq> cudaSuccess \<longrightarrow>
      fst (Compute env gr g) = Return COMPUTE_DENOMINATOR_REDUCE_SUM_FAILED
      \<and> ran (Compute env gr g) g [ReduceMax2D, ReduceLogSumExpGivenMax2D])
   \<and> (denominators_ok env g \<and> env ComputeLogProbs \<noteq> cudaSuccess \<longrightarrow>
      fst (Compute env gr g) = Return COMPUTE_LOG_PROBS_FAILED
      \<and> ran (Compute env gr g) g [ReduceMax2D, ReduceLogSumExpGivenMax2D, ComputeLogProbs])
   \<and> (denominators_ok env g \<and> env ComputeLogProbs = cudaSuccess
        \<and> env ComputeAlphasBetasCosts \<noteq> cudaSuccess \<longrightarrow>
      fst (Compute env gr g) = Return COMPUTE_ALPHAS_BETAS_COSTS_FAILED
      \<and> ran (Compute env gr g) g
          [ReduceMax2D, ReduceLogSumExpGivenMax2D, ComputeLogProbs, ComputeAlphasBetasCosts])
   \<and> (denominators_ok env g \<and> env ComputeLogProbs = cudaSuccess
        \<and> env ComputeAlphasBetasCosts = cudaSuccess \<and> gr
        \<and> env ComputeGradients \<noteq> cudaSuccess \<longrightarrow>
      fst (Compute env gr g) = Return COMPUTE_GRADIENTS_FAILED
      \<and> ran (Compute env gr g) g
          [ReduceMax2D, ReduceLogSumExpGivenMax2D, ComputeLogProbs, ComputeAlphasBetasCosts,
           ComputeGradients])
   \<and> (denominators_ok env g \<and> env ComputeLogProbs = cudaSuccess
        \<and> env ComputeAlphasBetasCosts = cudaSuccess \<and> gr
        \<and> env ComputeGradients = cudaSuccess \<longrightarrow>
      fst (Compute env gr g) = Return SUCCESS
      \<and> ran (Compute env gr g) g
          [ReduceMax2D, ReduceLogSumExpGivenMax2D, ComputeLogProbs, ComputeAlphasBetasCosts,
           ComputeGradients])
   \<and> (denominators_ok env g \<and> env ComputeLogProbs = cudaSuccess
        \<and> env ComputeAlphasBetasCosts = cudaSuccess \<and> \<not> gr \<longrightarrow>
      fst (Compute env gr g) = Return SUCCESS
      \<and> ran (Compute env gr g) g
          [ReduceMax2D, ReduceLogSumExpGivenMax2D, ComputeLogProbs, ComputeAlphasBetasCosts])"
  by (simp add: Compute_cases ran_def denominators_ok_def)

text \<open>
  \<open>ComputeSparse\<close> launches the stages in the same order, returns the status of a failing
  denominator stage, and returns \<open>SUCCESS\<close> when every launched stage succeeds, the
  gradient stage being launched only for a gradients pointer that is not null.
\<close>

lemma ComputeSparse_stage_order:
  "(first_check env g \<noteq> cudaSuccess \<longrightarrow>
      fst (ComputeSparse env gr g) = Return COMPUTE_DENOMINATOR_REDUCE_MAX_FAILED
      \<and> ran (ComputeSparse env gr g) g [ReduceMax2D])
   \<and> (first_check env g = cudaSuccess \<and> env ReduceLogSumExpGivenMax2D \<noteq> cudaSuccess \<longrightarrow>
      fst (ComputeSparse env gr g) = Return COMPUTE_DENOMINATOR_REDUCE_SUM_FAILED
      \<and> ran (ComputeSparse env gr g) g [ReduceMax2D, ReduceLogSumExpGivenMax2D])
   \<and> (denominators_ok env g \<and> env ComputeLogProbsSparse = cudaSuccess
        \<and> env ComputeAlphasBetasCosts = cudaSuccess \<and> gr
        \<and> env ComputeGradients = cudaSuccess \<longrightarrow>
      fst (ComputeSparse env gr g) = Return SUCCESS
      \<and> ran (ComputeSparse env gr g) g
          [ReduceMax2D, ReduceLogSumExpGivenMax2D, ComputeLogProbsSparse,
           ComputeAlphasBetasCosts, ComputeGradients])
   \<and> (denominators_ok env g \<and> env ComputeLogProbsSparse = cudaSuccess
        \<and> env ComputeAlphasBetasCosts = cudaSuccess \<and> \<not> gr \<longrightarrow>
      fst (ComputeSparse env gr g) = Return SUCCESS
      \<and> ran (ComputeSparse env gr g) g
          [ReduceMax2D, ReduceLogSumExpGivenMax2D, ComputeLogProbsSparse,
           ComputeAlphasBetasCosts])"
  by (simp add: ComputeSparse_cases ran_def denominators_ok_def)

text \<open>
  When its log-probs, alpha/beta or gradient launch fails, \<open>ComputeSparse\<close> launches no
  later stage either, but it returns no status: \<open>gpuErrchk\<close> ends the process with the
  CUDA error code.
\<close>

lemma ComputeSparse_kernel_failure:
  "(denominators_ok env g \<and> env ComputeLogProbsSparse \<noteq> cudaSuccess \<longrightarrow>
      fst (ComputeSparse env gr g) = Exit (env ComputeLogProbsSparse)
      \<and> ran (ComputeSparse env gr g) g
          [ReduceMax2D, ReduceLogSumExpGivenMax2D, ComputeLogProbsSparse])
   \<and> (denominators_ok env g \<and> env ComputeLogProbsSparse = cudaSuccess
        \<and> env ComputeAlphasBetasCosts \<noteq> cudaSuccess \<longrightarrow>
      fst (ComputeSparse env gr g) = Exit (env ComputeAlphasBetasCosts)
      \<and> ran (ComputeSparse env gr g) g
          [ReduceMax2D, ReduceLogSumExpGivenMax2D, ComputeLogProbsSparse,
           ComputeAlphasBetasCosts])
   \<and> (denominators_ok env g \<and> env ComputeLogProbsSparse = cudaSuccess
        \<and> env ComputeAlphasBetasCosts = cudaSuccess \<and> gr
        \<and> env ComputeGradients \<noteq> cudaSuccess \<longrightarrow>
      fst (ComputeSparse env gr g) = Exit (env ComputeGradients)
      \<and> ran (ComputeSparse env gr g) g
          [ReduceMax2D, ReduceLogSumExpGivenMax2D, ComputeLogProbsSparse,
           ComputeAlphasBetasCosts, ComputeGradients])"
  by (simp add: ComputeSparse_cases ran_def denominators_ok_def)

text \<open>
  Claim C9 at a failing log-probs launch. On a device without a pending error, the two
  denominator kernels succeed and the log-probs kernel leaves the error code 1 behind.
  \<open>Compute\<close> returns \<open>COMPUTE_LOG_PROBS_FAILED\<close> after three launches, as the claim says.
  \<open>ComputeSparse\<close> stops after three launches as well, but returns no status: the process
  exits with code 1.
\<close>

theorem ComputeSparse_exits_where_Compute_returns_status:
  "fst (Compute (fails_at ComputeLogProbs) True gpu0) = Return COMPUTE_LOG_PROBS_FAILED
   \<and> launched (snd (Compute (fails_at ComputeLogProbs) True gpu0))
       = [ReduceMax2D, ReduceLogSumExpGivenMax2D, ComputeLogProbs]
   \<and> fst (ComputeSparse (fails_at ComputeLogProbsSparse) True gpu0) = Exit (cudaError 1)
   \<and> launched (snd (ComputeSparse (fails_at ComputeLogProbsSparse) True gpu0))
       = [ReduceMax2D, ReduceLogSumExpGivenMax2D, ComputeLogProbsSparse]"
  by (simp add: Compute_cases ComputeSparse_cases fails_at_def first_check_def gpu0_def)

section \<open>Views and loops\<close>

lemma addr2 [simp]: "addr (mk_TensorView [a, b] p) [t, u] = p + t * b + u"
  by (simp add: addr_def mk_TensorView_def)

lemma addr3 [simp]: "addr (mk_TensorView [a, b, c] p) [t, u, d] = p + t * (b * c) + u * c + d"
  by (simp add: addr_def mk_TensorView_def lessThan_Suc algebra_simps numeral_2_eq_2)

lemma for_loop_done [simp]: "n \<le> i \<Longrightarrow> for_loop i n body s = s"
  by (simp add: for_loop.simps)

lemma for_loop_step: "i < n \<Longrightarrow> for_loop i n body s = for_loop (i + 1) n body (body i s)"
  by (subst for_loop.simps) simp

lemma for_loop_inv:
  assumes "P i s" and "i \<le> n"
    and "\<And>j s. i \<le> j \<Longrightarrow> j < n \<Longrightarrow> P j s \<Longrightarrow> P (j + 1) (body j s)"
  shows "P n (for_loop i n body s)"
  using assms
proof (induction i n body s rule: for_loop.induct)
  case (1 i n body s)
  show ?case
  proof (cases "i < n")
    case True
    have "P n (for_loop (i + 1) n body (body i s))"
      using True 1 by (intro 1(1)) auto
    then show ?thesis using True by (simp add: for_loop_step)
  next
    case False
    then show ?thesis using 1 by simp
  qed
qed

lemma for_down_done [simp]: "i < lo \<Longrightarrow> for_down i lo body s = s"
  by (simp add: for_down.simps)

lemma for_down_step: "lo \<le> i \<Longrightarrow> for_down i lo body s = for_down (i - 1) lo body (body i s)"
  by (subst for_down.simps) simp

lemma for_down_inv:
  assumes "P i s" and "lo - 1 \<le> i"
    and "\<And>j s. lo \<le> j \<Longrightarrow> j \<le> i \<Longrightarrow> P j s \<Longrightarrow> P (j - 1) (body j s)"
  shows "P (lo - 1) (for_down i lo body s)"
  using assms
proof (induction i lo body s rule: for_down.induct)
  case (1 i lo body s)
  show ?case
  proof (cases "lo \<le> i")
    case True
    have "P (lo - 1) (for_down (i - 1) lo body (body i s))"
      using True 1 by (intro 1(1)) auto
    then show ?thesis using True by (simp add: for_down_step)
  next
    case False
    then have "i = lo - 1" using 1 by simp
    then show ?thesis using 1 by simp
  qed
qed

lemma for_loop_sum:
  "i \<le> n \<Longrightarrow> for_loop i n (\<lambda>j s. s + g j) (a::real) = a + (\<Sum>j\<in>{i..<n}. g j)"
proof (rule for_loop_inv [where P = "\<lambda>k s. s = a + (\<Sum>j\<in>{i..<k}. g j)" and i = i and n = n])
  fix j s assume "i \<le> j" "j < n" "s = a + sum g {i..<j}"
  moreover have "{i..<j + 1} = insert j {i..<j}" using \<open>i \<le> j\<close> by auto
  ultimately show "s + g j = a + sum g {i..<j + 1}" by simp
qed simp_all

lemma for_loop_max:
  "i \<le> n \<Longrightarrow> for_loop i n (\<lambda>j m. max m (f j)) (a::real) = Max (insert a (f ` {i..<n}))"
proof (rule for_loop_inv [where P = "\<lambda>k s. s = Max (insert a (f ` {i..<k}))" and i = i and n = n])
  fix j s assume "i \<le> j" "j < n" and s: "s = Max (insert a (f ` {i..<j}))"
  have "{i..<j + 1} = insert j {i..<j}" using \<open>i \<le> j\<close> by auto
  then have "insert a (f ` {i..<j + 1}) = insert (f j) (insert a (f ` {i..<j}))"
    by auto
  then have "Max (insert a (f ` {i..<j + 1})) = max (f j) (Max (insert a (f ` {i..<j})))"
    by (simp del: insert_commute)
  then show "max s (f j) = Max (insert a (f ` {i..<j + 1}))"
    using s by (simp add: max.commute)
qed simp_all

section \<open>LogSumExp2D computes the log-partition of every row\<close>

lemma row_max_eq: "1 \<le> D \<Longrightarrow> row_max i D logits = Max ((\<lambda>j. logits (i + j)) ` {0..<D})"
proof -
  assume D: "1 \<le> D"
  have "{0..<D} = insert 0 {1..<D}" using D by auto
  then have "insert (logits i) ((\<lambda>j. logits (i + j)) ` {1..<D}) = (\<lambda>j. logits (i + j)) ` {0..<D}"
    by auto
  then show ?thesis using D by (simp add: row_max_def for_loop_max)
qed

lemma row_sum_eq: "0 \<le> D \<Longrightarrow> row_sum i D logits m = (\<Sum>j\<in>{0..<D}. exp (logits (i + j) - m))"
  by (simp add: row_sum_def for_loop_sum)

lemma lse_shift:
  assumes "1 \<le> (D::int)"
  shows "m + ln (\<Sum>j\<in>{0..<D}. exp (x j - m)) = ln (\<Sum>j\<in>{0..<D}. exp (x j :: real))"
proof -
  have ne: "{0..<D} \<noteq> {}" using assms by auto
  have pos: "0 < (\<Sum>j\<in>{0..<D}. exp (x j))"
    by (rule sum_pos) (use ne in auto)
  have "(\<Sum>j\<in>{0..<D}. exp (x j - m)) = exp (- m) * (\<Sum>j\<in>{0..<D}. exp (x j))"
    by (simp add: sum_distrib_left exp_diff exp_minus field_simps)
  then have "ln (\<Sum>j\<in>{0..<D}. exp (x j - m)) = - m + ln (\<Sum>j\<in>{0..<D}. exp (x j))"
    using pos by (simp add: ln_mult)
  then show ?thesis by simp
qed

lemma LogSumExp2D_rows_eq:
  assumes "1 \<le> D"
  shows "0 \<le> r \<Longrightarrow> r \<le> N \<Longrightarrow> nat (N - r) = k \<Longrightarrow>
     LogSumExp2D_rows (r * D) N D logits outputs =
       Some (\<lambda>i. if r \<le> i \<and> i < N then row_value D logits i else outputs i)"
proof (induction k arbitrary: r outputs)
  case 0
  then have "r = N" by simp
  then show ?case by (subst LogSumExp2D_rows.simps) auto
next
  case (Suc k)
  then have rN: "r < N" by simp
  then have lt: "r * D < N * D" using assms by simp
  have step: "r * D + D = (r + 1) * D" by (simp add: algebra_simps)
  have dv: "r * D div D = r" using assms by simp
  have "LogSumExp2D_rows ((r + 1) * D) N D logits (outputs(r := row_value D logits r)) =
       Some (\<lambda>i. if r + 1 \<le> i \<and> i < N then row_value D logits i
                   else (outputs(r := row_value D logits r)) i)"
    using Suc.prems rN by (intro Suc.IH) auto
  also have "(\<lambda>i. if r + 1 \<le> i \<and> i < N then row_value D logits i
                   else (outputs(r := row_value D logits r)) i) =
             (\<lambda>i. if r \<le> i \<and> i < N then row_value D logits i else outputs i)"
    using rN by (auto simp: fun_eq_iff)
  finally have ih: "LogSumExp2D_rows ((r + 1) * D) N D logits (outputs(r := row_value D logits r)) =
       Some (\<lambda>i. if r \<le> i \<and> i < N then row_value D logits i else outputs i)" .
  have "LogSumExp2D_rows (r * D) N D logits outputs =
        LogSumExp2D_rows ((r + 1) * D) N D logits (outputs(r := row_value D logits r))"
    by (subst LogSumExp2D_rows.simps) (simp only: lt if_True step dv row_value_def)
  then show ?case using ih by simp
qed

text \<open>
  Claim C5. For \<open>N \<ge> 1\<close> and \<open>D \<ge> 1\<close> the loop of \<open>LogSumExp2D\<close> ends, the routine
  returns \<open>SUCCESS\<close>, and for every row \<open>i < N\<close> the output is the maximum of the row plus
  the logarithm of the sum of \<open>exp (x - max)\<close> over the row, which is the logarithm of the
  sum of \<open>exp x\<close> over the row.
\<close>

theorem LogSumExp2D_correct:
  assumes "1 \<le> N" and "1 \<le> D"
  shows "\<exists>out. LogSumExp2D N D logits outputs = Some (SUCCESS, out) \<and>
    (\<forall>i. 0 \<le> i \<and> i < N \<longrightarrow>
       out i = Max ((\<lambda>j. logits (i * D + j)) ` {0..<D})
               + ln (\<Sum>j\<in>{0..<D}. exp (logits (i * D + j)
                                       - Max ((\<lambda>j. logits (i * D + j)) ` {0..<D})))
       \<and> out i = ln (\<Sum>j\<in>{0..<D}. exp (logits (i * D + j))))"
proof -
  have rows: "LogSumExp2D_rows 0 N D logits outputs =
       Some (\<lambda>i. if 0 \<le> i \<and> i < N then row_value D logits i else outputs i)"
    using LogSumExp2D_rows_eq [OF assms(2), of 0 N "nat N" logits outputs] assms by simp
  have val: "row_value D logits i = Max ((\<lambda>j. logits (i * D + j)) ` {0..<D})
               + ln (\<Sum>j\<in>{0..<D}. exp (logits (i * D + j)
                                       - Max ((\<lambda>j. logits (i * D + j)) ` {0..<D})))" for i
    using assms(2) by (simp add: row_value_def row_max_eq row_sum_eq)
  show ?thesis
    using assms(2) by (simp add: LogSumExp2D_def rows val lse_shift)
qed

theorem LogSumExp2D_correct_witness:
  "\<exists>out. LogSumExp2D 1 2 (\<lambda>i. 0) (\<lambda>i. 7) = Some (SUCCESS, out) \<and> out 0 = ln 2"
  using LogSumExp2D_correct [of 1 2 "\<lambda>i. 0" "\<lambda>i. 7"] by auto

lemma for_loop_writes:
  assumes "i \<le> n"
    and step: "\<And>j s. i \<le> j \<Longrightarrow> j < n \<Longrightarrow>
       s = (\<lambda>x. if x \<in> (\<Union>k\<in>{i..<j}. W k) then G x else s0 x) \<Longrightarrow>
       body j s = (\<lambda>x. if x \<in> W j then G x else s x)"
  shows "for_loop i n body s0 = (\<lambda>x. if x \<in> (\<Union>k\<in>{i..<n}. W k) then G x else s0 x)"
proof (rule for_loop_inv [where P = "\<lambda>j s. s = (\<lambda>x. if x \<in> (\<Union>k\<in>{i..<j}. W k) then G x else s0 x)"
      and i = i and n = n])
  fix j s assume j: "i \<le> j" "j < n"
    and s: "s = (\<lambda>x. if x \<in> (\<Union>k\<in>{i..<j}. W k) then G x else s0 x)"
  have "{i..<j + 1} = insert j {i..<j}" using j by auto
  then show "body j s = (\<lambda>x. if x \<in> (\<Union>k\<in>{i..<j + 1}. W k) then G x else s0 x)"
    unfolding step [OF j s] by (auto simp: s fun_eq_iff)
qed (use assms in simp_all)

text \<open>The cells of a two-dimensional view have distinct offsets.\<close>

lemma cell_decode:
  assumes "0 \<le> u" "u < (m::int)"
  shows "(p + t * m + u - p) div m = t" "(p + t * m + u - p) mod m = u"
  using assms by (simp_all add: algebra_simps)

lemma cell_inj:
  assumes "0 \<le> u" "u < (m::int)" "0 \<le> u'" "u' < m" "p + t * m + u = p + t' * m + u'"
  shows "t = t' \<and> u = u'"
proof -
  have "(p + t * m + u - p) div m = (p + t' * m + u' - p) div m"
       "(p + t * m + u - p) mod m = (p + t' * m + u' - p) mod m"
    using assms(5) by simp_all
  then show ?thesis using cell_decode assms(1-4) by metis
qed

section \<open>The log-probs stage\<close>

lemma ComputeLogProbsOneSequence_eq:
  fixes pm :: "('a::minus) LogProbs mem"
  assumes "0 \<le> T" "0 \<le> U" "U \<le> maxU"
  shows "ComputeLogProbsOneSequence options logits lm targets T U denom dm
           (mk_TensorView [maxT, maxU] p) pm =
         (\<lambda>x. if x \<in> (\<Union>t\<in>{0..<T}. \<Union>u\<in>{0..<U}. {p + t * maxU + u})
               then logProbs_cell options logits lm targets U denom dm
                      ((x - p) div maxU) ((x - p) mod maxU) (pm x)
               else pm x)"
proof -
  define G where "G x = logProbs_cell options logits lm targets U denom dm
                      ((x - p) div maxU) ((x - p) mod maxU) (pm x)" for x
  define W where "W t = (\<Union>u\<in>{0..<U}. {p + t * maxU + u})" for t
  define body :: "int \<Rightarrow> int \<Rightarrow> 'a LogProbs mem \<Rightarrow> 'a LogProbs mem"
    where "body t = (\<lambda>u pm.
           let pm1 =
                 (if u < U - 1
                  then pm(addr (mk_TensorView [maxT, maxU] p) [t, u] :=
                         (pm (addr (mk_TensorView [maxT, maxU] p) [t, u]))
                         \<lparr>emit := lm (addr logits [t, u, targets u]) - dm (addr denom [t, u])\<rparr>)
                  else pm)
           in pm1(addr (mk_TensorView [maxT, maxU] p) [t, u] :=
                 (pm1 (addr (mk_TensorView [maxT, maxU] p) [t, u]))
                 \<lparr>skip := lm (addr logits [t, u, blank options]) - dm (addr denom [t, u])\<rparr>))" for t
  have row: "for_loop 0 U (body t) s = (\<lambda>x. if x \<in> W t then G x else s x)"
    if t: "0 \<le> t" "t < T" and s: "s = (\<lambda>x. if x \<in> (\<Union>k\<in>{0..<t}. W k) then G x else pm x)"
    for t s
  proof -
    have "for_loop 0 U (body t) s =
        (\<lambda>x. if x \<in> (\<Union>u\<in>{0..<U}. {p + t * maxU + u}) then G x else s x)"
    proof (rule for_loop_writes [OF assms(2)])
      fix u s' assume u: "0 \<le> u" "u < U"
        and s': "s' = (\<lambda>x. if x \<in> (\<Union>k\<in>{0..<u}. {p + t * maxU + k}) then G x else s x)"
      have um: "0 \<le> u" "u < maxU" using u assms by auto
      have notin: "p + t * maxU + u \<notin> (\<Union>k\<in>{0..<u}. {p + t * maxU + k})" by auto
      have notin2: "p + t * maxU + u \<notin> (\<Union>k\<in>{0..<t}. W k)"
      proof
        assume "p + t * maxU + u \<in> (\<Union>k\<in>{0..<t}. W k)"
        then obtain k u' where k: "0 \<le> k" "k < t" "0 \<le> u'" "u' < U"
          "p + t * maxU + u = p + k * maxU + u'" by (auto simp: W_def)
        then have "t = k" using cell_inj [of u maxU u' p t k] um assms by auto
        then show False using k by simp
      qed
      have old: "s' (p + t * maxU + u) = pm (p + t * maxU + u)"
        using notin notin2 by (simp add: s' s)
      show "body t u s' = (\<lambda>x. if x \<in> {p + t * maxU + u} then G x else s' x)"
        using um
        by (auto simp: body_def fun_eq_iff Let_def G_def logProbs_cell_def old cell_decode)
    qed
    then show ?thesis by (simp add: W_def)
  qed
  have "for_loop 0 T (\<lambda>t. for_loop 0 U (body t)) pm =
        (\<lambda>x. if x \<in> (\<Union>t\<in>{0..<T}. W t) then G x else pm x)"
    by (rule for_loop_writes [OF assms(1)]) (rule row)
  then show ?thesis
    unfolding ComputeLogProbsOneSequence_def body_def G_def W_def Let_def .
qed

text \<open>
  Claim C6, as the code has it. \<open>ComputeLogProbsOneSequence\<close> never reads \<open>fusedLogSmax\<close>:
  whatever the options are, for every in-range cell it stores
  \<open>skip = logits(t,u,blank) - denom(t,u)\<close> and, for \<open>u < U - 1\<close>,
  \<open>emit = logits(t,u,targets[u]) - denom(t,u)\<close>.
\<close>

theorem ComputeLogProbsOneSequence_subtracts_denominator:
  fixes pm :: "('a::minus) LogProbs mem"
  assumes "tgtLen \<le> maxU" "0 \<le> t" "t < srcLen" "0 \<le> u" "u < tgtLen"
  shows "skip (ComputeLogProbsOneSequence options logits lm targets srcLen tgtLen denom dm
           (mk_TensorView [maxT, maxU] p) pm (addr (mk_TensorView [maxT, maxU] p) [t, u]))
         = lm (addr logits [t, u, blank options]) - dm (addr denom [t, u])
       \<and> (u < tgtLen - 1 \<longrightarrow>
          emit (ComputeLogProbsOneSequence options logits lm targets srcLen tgtLen denom dm
           (mk_TensorView [maxT, maxU] p) pm (addr (mk_TensorView [maxT, maxU] p) [t, u]))
          = lm (addr logits [t, u, targets u]) - dm (addr denom [t, u]))"
proof -
  have um: "0 \<le> u" "u < maxU" using assms by auto
  have "p + t * maxU + u \<in> (\<Union>t\<in>{0..<srcLen}. \<Union>u\<in>{0..<tgtLen}. {p + t * maxU + u})"
  proof (rule UN_I [of t])
    show "p + t * maxU + u \<in> (\<Union>u\<in>{0..<tgtLen}. {p + t * maxU + u})"
      by (rule UN_I [of u]) (use assms in auto)
  qed (use assms in auto)
  then show ?thesis
    using assms um
    by (simp add: ComputeLogProbsOneSequence_eq logProbs_cell_def cell_decode del: UN_iff)
qed

theorem ComputeLogProbsOneSequence_subtracts_denominator_witness:
  "skip (ComputeLogProbsOneSequence opts0 (mk_TensorView [1, 1, 2] 0) (\<lambda>i. 0) (\<lambda>u. 1) 1 1
           (mk_TensorView [1, 1] 0) (\<lambda>i. ln 2) (mk_TensorView [1, 1] 0) pm0
           (addr (mk_TensorView [1, 1] 0) [0, 0])) = - ln 2"
  using ComputeLogProbsOneSequence_subtracts_denominator [where tgtLen = 1 and maxU = 1
      and t = 0 and srcLen = 1 and u = 0 and options = opts0 and logits = "mk_TensorView [1, 1, 2] 0"
      and lm = "\<lambda>i. 0::real" and targets = "\<lambda>u. 1" and denom = "mk_TensorView [1, 1] 0"
      and dm = "\<lambda>i. ln 2" and maxT = 1 and p = 0 and pm = pm0]
  by simp

text \<open>
  Claim C6 as stated fails: with \<open>fusedLogSmax\<close> false, one cell, two zero logits and the
  denominator \<open>ln 2\<close>, the stored \<open>skip\<close> is not the blank logit.
\<close>

theorem fusedLogSmax_false_counterexample:
  "\<not> fusedLogSmax opts0 \<and>
   skip (ComputeLogProbsOneSequence opts0 (mk_TensorView [1, 1, 2] 0) (\<lambda>i. 0) (\<lambda>u. 1) 1 1
           (mk_TensorView [1, 1] 0) (\<lambda>i. ln 2) (mk_TensorView [1, 1] 0) pm0
           (addr (mk_TensorView [1, 1] 0) [0, 0]))
     \<noteq> (\<lambda>i. 0) (addr (mk_TensorView [1, 1, 2] 0) [0, 0, blank opts0])"
  by (simp add: ComputeLogProbsOneSequence_def for_loop_step opts0_def pm0_def)

lemma for_loop_frame:
  assumes "\<And>j s. i \<le> j \<Longrightarrow> j < n \<Longrightarrow> body j s x = s x"
  shows "for_loop i n body s x = s x"
proof (cases "i \<le> n")
  case True
  show ?thesis
    by (rule for_loop_inv [where P = "\<lambda>j s'. s' x = s x" and i = i and n = n])
       (use True assms in auto)
qed simp

lemma for_down_frame:
  assumes "\<And>j s. lo \<le> j \<Longrightarrow> j \<le> i \<Longrightarrow> body j s x = s x"
  shows "for_down i lo body s x = s x"
proof (cases "lo - 1 \<le> i")
  case True
  show ?thesis
    by (rule for_down_inv [where P = "\<lambda>j s'. s' x = s x" and i = i and lo = lo])
       (use True assms in auto)
qed simp

lemma ComputeAlphaOneSequence_frame:
  assumes "1 \<le> srcLen" "1 \<le> tgtLen"
    and x: "\<And>t u. 0 \<le> t \<Longrightarrow> t < srcLen \<Longrightarrow> 0 \<le> u \<Longrightarrow> u < tgtLen \<Longrightarrow> x \<noteq> addr alpha [t, u]"
  shows "snd (ComputeAlphaOneSequence lse options logProbs pm srcLen tgtLen alpha am) x = am x"
proof -
  have x0: "x \<noteq> addr alpha [0, 0]" using x [of 0 0] assms by simp
  show ?thesis
    unfolding ComputeAlphaOneSequence_def Let_def snd_conv
    apply (subst for_loop_frame)
    subgoal for t s by (rule for_loop_frame) (use x [of t] assms in auto)
    apply (subst for_loop_frame)
    subgoal for u s using x [of 0 u] assms by auto
    apply (subst for_loop_frame)
    subgoal for t s using x [of t 0] assms by auto
    using x0 by simp
qed

lemma ComputeBetaOneSequence_frame:
  assumes "1 \<le> srcLen" "1 \<le> tgtLen"
    and x: "\<And>t u. 0 \<le> t \<Longrightarrow> t < srcLen \<Longrightarrow> 0 \<le> u \<Longrightarrow> u < tgtLen \<Longrightarrow> x \<noteq> addr beta [t, u]"
  shows "snd (ComputeBetaOneSequence lse options logProbs pm srcLen tgtLen beta bm) x = bm x"
proof -
  have x0: "x \<noteq> addr beta [srcLen - 1, tgtLen - 1]"
    using x [of "srcLen - 1" "tgtLen - 1"] assms by simp
  show ?thesis
    unfolding ComputeBetaOneSequence_def Let_def snd_conv
    apply (subst for_down_frame)
    subgoal for t s by (rule for_down_frame) (use x [of t] assms in auto)
    apply (subst for_down_frame)
    subgoal for u s using x [of "srcLen - 1" u] assms by auto
    apply (subst for_down_frame)
    subgoal for t s using x [of t "tgtLen - 1"] assms by auto
    using x0 by simp
qed

section \<open>The unrestricted recurrences write lattice cells only\<close>

text \<open>
  Claim C10, amended. For \<open>srcLen \<ge> 1\<close> and \<open>tgtLen \<ge> 1\<close>, \<open>ComputeAlphaOneSequence\<close> and
  \<open>ComputeBetaOneSequence\<close> leave every element of the output buffer that is not a cell
  \<open>(t, u)\<close> with \<open>t < srcLen\<close> and \<open>u < tgtLen\<close> of the view as it was before the call; in
  particular the padding cells of a \<open>[maxT, maxU]\<close> view (\<open>t \<ge> srcLen\<close> or \<open>u \<ge> tgtLen\<close>)
  keep whatever they held, initialised or not.
\<close>

theorem unrestricted_recurrences_write_only_lattice_cells:
  assumes "1 \<le> srcLen" and "1 \<le> tgtLen"
  shows "((\<forall>t u. 0 \<le> t \<and> t < srcLen \<and> 0 \<le> u \<and> u < tgtLen \<longrightarrow> x \<noteq> addr alpha [t, u]) \<longrightarrow>
            snd (ComputeAlphaOneSequence lse options logProbs pm srcLen tgtLen alpha am) x = am x)
       \<and> ((\<forall>t u. 0 \<le> t \<and> t < srcLen \<and> 0 \<le> u \<and> u < tgtLen \<longrightarrow> x \<noteq> addr beta [t, u]) \<longrightarrow>
            snd (ComputeBetaOneSequence lse options logProbs pm srcLen tgtLen beta bm) x = bm x)
       \<and> (tgtLen \<le> maxU \<and> 0 \<le> u \<and> u < maxU \<and> (t < 0 \<or> srcLen \<le> t \<or> tgtLen \<le> u) \<longrightarrow>
            snd (ComputeAlphaOneSequence lse options logProbs pm srcLen tgtLen
                   (mk_TensorView [maxT, maxU] p) am) (addr (mk_TensorView [maxT, maxU] p) [t, u])
              = am (addr (mk_TensorView [maxT, maxU] p) [t, u])
          \<and> snd (ComputeBetaOneSequence lse options logProbs pm srcLen tgtLen
                   (mk_TensorView [maxT, maxU] p) bm) (addr (mk_TensorView [maxT, maxU] p) [t, u])
              = bm (addr (mk_TensorView [maxT, maxU] p) [t, u]))"
proof (intro conjI impI)
  assume "\<forall>t u. 0 \<le> t \<and> t < srcLen \<and> 0 \<le> u \<and> u < tgtLen \<longrightarrow> x \<noteq> addr alpha [t, u]"
  then show "snd (ComputeAlphaOneSequence lse options logProbs pm srcLen tgtLen alpha am) x = am x"
    by (intro ComputeAlphaOneSequence_frame assms) auto
next
  assume "\<forall>t u. 0 \<le> t \<and> t < srcLen \<and> 0 \<le> u \<and> u < tgtLen \<longrightarrow> x \<noteq> addr beta [t, u]"
  then show "snd (ComputeBetaOneSequence lse options logProbs pm srcLen tgtLen beta bm) x = bm x"
    by (intro ComputeBetaOneSequence_frame assms) auto
next
  assume pad: "tgtLen \<le> maxU \<and> 0 \<le> u \<and> u < maxU \<and> (t < 0 \<or> srcLen \<le> t \<or> tgtLen \<le> u)"
  have ne: "addr (mk_TensorView [maxT, maxU] p) [t, u] \<noteq> addr (mk_TensorView [maxT, maxU] p) [t', u']"
    if "0 \<le> t'" "t' < srcLen" "0 \<le> u'" "u' < tgtLen" for t' u'
    using cell_inj [of u maxU u' p t t'] that pad by auto
  show "snd (ComputeAlphaOneSequence lse options logProbs pm srcLen tgtLen
                   (mk_TensorView [maxT, maxU] p) am) (addr (mk_TensorView [maxT, maxU] p) [t, u])
              = am (addr (mk_TensorView [maxT, maxU] p) [t, u])"
    by (intro ComputeAlphaOneSequence_frame assms ne)
  show "snd (ComputeBetaOneSequence lse options logProbs pm srcLen tgtLen
                   (mk_TensorView [maxT, maxU] p) bm) (addr (mk_TensorView [maxT, maxU] p) [t, u])
              = bm (addr (mk_TensorView [maxT, maxU] p) [t, u])"
    by (intro ComputeBetaOneSequence_frame assms ne)
qed

theorem unrestricted_recurrences_write_only_lattice_cells_witness:
  "snd (ComputeAlphaOneSequence max opts0 (mk_TensorView [2, 2] 0) pm0 1 1
          (mk_TensorView [2, 2] 0) (\<lambda>i. 7)) 3 = (7::real)
   \<and> snd (ComputeBetaOneSequence max opts0 (mk_TensorView [2, 2] 0) pm0 1 1
          (mk_TensorView [2, 2] 0) (\<lambda>i. 7)) 3 = (7::real)
   \<and> snd (ComputeAlphaOneSequence max opts0 (mk_TensorView [2, 2] 0) pm0 1 1
          (mk_TensorView [2, 2] 0) (\<lambda>i. 7)) (addr (mk_TensorView [2, 2] 0) [0, 1]) = (7::real)
   \<and> snd (ComputeBetaOneSequence max opts0 (mk_TensorView [2, 2] 0) pm0 1 1
          (mk_TensorView [2, 2] 0) (\<lambda>i. 7)) (addr (mk_TensorView [2, 2] 0) [0, 1]) = (7::real)"
proof -
  have h: "(1::int) \<le> 1" by simp
  have r: "\<forall>t u. 0 \<le> t \<and> t < 1 \<and> 0 \<le> u \<and> u < 1 \<longrightarrow> (3::int) \<noteq> addr (mk_TensorView [2, 2] 0) [t, u]"
    by auto
  show ?thesis
    using r unrestricted_recurrences_write_only_lattice_cells [OF h h, where x = 3
        and alpha = "mk_TensorView [2, 2] 0" and beta = "mk_TensorView [2, 2] 0"
        and lse = max and options = opts0 and logProbs = "mk_TensorView [2, 2] 0" and pm = pm0
        and am = "\<lambda>i. 7::real" and bm = "\<lambda>i. 7::real" and maxU = 2 and maxT = 2 and p = 0
        and t = 0 and u = 1]
    by simp
qed

text \<open>
  Claim C10 as stated fails for an empty sequence. The views are those of the second sample
  of a batch with \<open>maxT = maxU = 2\<close> (offset 4). With \<open>srcLen = 0\<close> and \<open>tgtLen = 1\<close> no cell
  has \<open>t < srcLen\<close>, and with \<open>srcLen = 1\<close> and \<open>tgtLen = 0\<close> no cell has \<open>u < tgtLen\<close>; yet
  the element of cell \<open>(0, 0)\<close>, which held 7, holds 0 after the call, because
  \<open>ComputeAlphaOneSequence\<close> assigns \<open>alpha({0, 0})\<close> before any loop.
\<close>

theorem empty_sequence_counterexample:
  "snd (ComputeAlphaOneSequence max opts2 (mk_TensorView [2, 2] 4) pm0 0 1
          (mk_TensorView [2, 2] 4) (\<lambda>i. 7)) (addr (mk_TensorView [2, 2] 4) [0, 0]) = (0::real)
   \<and> snd (ComputeAlphaOneSequence max opts2 (mk_TensorView [2, 2] 4) pm0 1 0
          (mk_TensorView [2, 2] 4) (\<lambda>i. 7)) (addr (mk_TensorView [2, 2] 4) [0, 0]) = (0::real)"
  by (simp add: ComputeAlphaOneSequence_def Let_def)

section \<open>The forward score is the backward score\<close>

lemma exp_math_lse: "exp (math_lse a b) = exp a + exp b"
proof (cases "a \<le> b")
  case True
  then have "math_lse a b = b + ln (1 + exp (a - b))" by (simp add: math_lse_def max_def)
  moreover have "0 < 1 + exp (a - b)" by (simp add: add_pos_pos)
  ultimately have "exp (math_lse a b) = exp b * (1 + exp (a - b))"
    by (simp add: exp_add)
  then show ?thesis by (simp add: algebra_simps exp_diff)
next
  case False
  then have "math_lse a b = a + ln (1 + exp (b - a))" by (simp add: math_lse_def max_def)
  moreover have "0 < 1 + exp (b - a)" by (simp add: add_pos_pos)
  ultimately have "exp (math_lse a b) = exp a * (1 + exp (b - a))"
    by (simp add: exp_add)
  then show ?thesis by (simp add: algebra_simps exp_diff)
qed

lemma exp_alpha_rec:
  "exp (alpha_rec math_lse sk em t u) = fwd (\<lambda>t u. exp (sk t u)) (\<lambda>t u. exp (em t u)) t u"
  by (induction math_lse sk em t u rule: alpha_rec.induct) (simp_all add: exp_add exp_math_lse)

lemma exp_beta_rev:
  "exp (beta_rev math_lse sk em n m i j) = bwd (\<lambda>t u. exp (sk t u)) (\<lambda>t u. exp (em t u)) n m i j"
  by (induction math_lse sk em n m i j rule: beta_rev.induct) (simp_all add: exp_add exp_math_lse)

lemma fwd_first_step:
  "t \<noteq> 0 \<or> u \<noteq> 0 \<Longrightarrow>
   fwd P Q t u =
     (case t of 0 \<Rightarrow> 0 | Suc t' \<Rightarrow> P 0 0 * fwd (\<lambda>t. P (Suc t)) (\<lambda>t. Q (Suc t)) t' u)
     + (case u of 0 \<Rightarrow> 0 | Suc u' \<Rightarrow> Q 0 0 * fwd (\<lambda>t u. P t (Suc u)) (\<lambda>t u. Q t (Suc u)) t u')"
proof (induction P Q t u rule: fwd.induct)
  case (2 P Q t)
  then show ?case by (cases t) (auto simp: algebra_simps)
next
  case (3 P Q u)
  then show ?case by (cases u) (auto simp: algebra_simps)
next
  case (4 P Q t u)
  then show ?case by (cases t; cases u) (auto simp: algebra_simps)
qed simp

lemma bwd_shift_t:
  "i \<le> n \<Longrightarrow> bwd P Q (Suc n) m i j = bwd (\<lambda>t. P (Suc t)) (\<lambda>t. Q (Suc t)) n m i j"
  by (induction P Q n m i j rule: bwd.induct) (auto simp: Suc_diff_le Suc_diff_Suc)

lemma bwd_shift_u:
  "j \<le> m \<Longrightarrow> bwd P Q n (Suc m) i j = bwd (\<lambda>t u. P t (Suc u)) (\<lambda>t u. Q t (Suc u)) n m i j"
  by (induction P Q n m i j rule: bwd.induct) (auto simp: Suc_diff_le Suc_diff_Suc)

lemma fwd_bwd: "fwd P Q n m * P n m = bwd P Q n m n m"
proof (induction "n + m" arbitrary: n m P Q rule: less_induct)
  case less
  show ?case
  proof (cases n)
    case 0
    note n0 = 0
    show ?thesis
    proof (cases m)
      case 0
      then show ?thesis using n0 by simp
    next
      case (Suc m')
      have "fwd (\<lambda>t u. P t (Suc u)) (\<lambda>t u. Q t (Suc u)) 0 m' * P 0 (Suc m')
            = bwd (\<lambda>t u. P t (Suc u)) (\<lambda>t u. Q t (Suc u)) 0 m' 0 m'"
        using less [of 0 m' "\<lambda>t u. P t (Suc u)" "\<lambda>t u. Q t (Suc u)"] n0 Suc by simp
      then show ?thesis
        using n0 Suc fwd_first_step [of 0 "Suc m'" P Q]
        by (simp add: bwd_shift_u algebra_simps)
    qed
  next
    case (Suc n')
    note nS = Suc
    have ih_t: "fwd (\<lambda>t. P (Suc t)) (\<lambda>t. Q (Suc t)) n' m * P (Suc n') m
            = bwd (\<lambda>t. P (Suc t)) (\<lambda>t. Q (Suc t)) n' m n' m"
      using less [of n' m "\<lambda>t. P (Suc t)" "\<lambda>t. Q (Suc t)"] nS by simp
    show ?thesis
    proof (cases m)
      case 0
      then show ?thesis
        using nS ih_t fwd_first_step [of "Suc n'" 0 P Q]
        by (simp add: bwd_shift_t algebra_simps)
    next
      case (Suc m')
      have ih_u: "fwd (\<lambda>t u. P t (Suc u)) (\<lambda>t u. Q t (Suc u)) n m' * P n (Suc m')
            = bwd (\<lambda>t u. P t (Suc u)) (\<lambda>t u. Q t (Suc u)) n m' n m'"
        using less [of n m' "\<lambda>t u. P t (Suc u)" "\<lambda>t u. Q t (Suc u)"] Suc by simp
      have "fwd P Q n m * P n m =
          P 0 0 * (fwd (\<lambda>t. P (Suc t)) (\<lambda>t. Q (Suc t)) n' m * P (Suc n') m)
          + Q 0 0 * (fwd (\<lambda>t u. P t (Suc u)) (\<lambda>t u. Q t (Suc u)) n m' * P n (Suc m'))"
        using nS Suc fwd_first_step [of n m P Q] by (simp add: algebra_simps)
      also have "\<dots> = P 0 0 * bwd P Q n m n' m + Q 0 0 * bwd P Q n m n m'"
        using ih_t ih_u nS Suc by (simp add: bwd_shift_t bwd_shift_u)
      also have "\<dots> = bwd P Q n m n m"
        using nS Suc by (simp add: algebra_simps)
      finally show ?thesis .
    qed
  qed
qed

lemma forward_eq_backward:
  "alpha_rec math_lse sk em n m + sk n m = beta_rev math_lse sk em n m n m"
proof -
  have "exp (alpha_rec math_lse sk em n m + sk n m) = exp (beta_rev math_lse sk em n m n m)"
    using fwd_bwd [of "\<lambda>t u. exp (sk t u)" "\<lambda>t u. exp (em t u)" n m]
    by (simp add: exp_add exp_alpha_rec exp_beta_rev)
  then show ?thesis by simp
qed

section \<open>The kernels compute the recurrences\<close>

lemma holds_on_upd:
  assumes "holds_on D a F s" and "v = F t u"
    and "\<And>t' u'. D' t' u' \<Longrightarrow> D t' u' \<or> (t' = t \<and> u' = u)"
    and "\<And>t' u'. D' t' u' \<Longrightarrow> a t' u' = a t u \<Longrightarrow> t' = t \<and> u' = u"
  shows "holds_on D' a F (s(a t u := v))"
  using assms unfolding holds_on_def by (metis fun_upd_apply)

lemma holds_onD: "holds_on D a F s \<Longrightarrow> D t u \<Longrightarrow> s (a t u) = F t u"
  by (simp add: holds_on_def)

lemma holds_on_weaken:
  assumes "holds_on D a F s" and "\<And>t u. D' t u \<Longrightarrow> D t u"
  shows "holds_on D' a F s"
  using assms unfolding holds_on_def by blast

lemma nat_pred_Suc: "1 \<le> k \<Longrightarrow> nat k = Suc (nat (k - 1))" for k :: int
  by simp

lemma alpha_rec_int:
  "1 \<le> t \<Longrightarrow> alpha_rec lse sk em (nat t) 0 =
      alpha_rec lse sk em (nat (t - 1)) 0 + sk (nat (t - 1)) 0"
  "1 \<le> u \<Longrightarrow> alpha_rec lse sk em 0 (nat u) =
      alpha_rec lse sk em 0 (nat (u - 1)) + em 0 (nat (u - 1))"
  "1 \<le> t \<Longrightarrow> 1 \<le> u \<Longrightarrow> alpha_rec lse sk em (nat t) (nat u) =
      lse (alpha_rec lse sk em (nat (t - 1)) (nat u) + sk (nat (t - 1)) (nat u))
          (alpha_rec lse sk em (nat t) (nat (u - 1)) + em (nat t) (nat (u - 1)))"
proof -
  show "1 \<le> t \<Longrightarrow> alpha_rec lse sk em (nat t) 0 =
      alpha_rec lse sk em (nat (t - 1)) 0 + sk (nat (t - 1)) 0"
    by (subst nat_pred_Suc) simp_all
  show "1 \<le> u \<Longrightarrow> alpha_rec lse sk em 0 (nat u) =
      alpha_rec lse sk em 0 (nat (u - 1)) + em 0 (nat (u - 1))"
    by (subst nat_pred_Suc) simp_all
  assume tu: "1 \<le> t" "1 \<le> u"
  define k l where "k = nat (t - 1)" and "l = nat (u - 1)"
  have "nat t = Suc k" "nat u = Suc l" using tu by (simp_all add: k_def l_def)
  then show "alpha_rec lse sk em (nat t) (nat u) =
      lse (alpha_rec lse sk em (nat (t - 1)) (nat u) + sk (nat (t - 1)) (nat u))
          (alpha_rec lse sk em (nat t) (nat (u - 1)) + em (nat t) (nat (u - 1)))"
    by (simp add: k_def [symmetric] l_def [symmetric])
qed

lemma ComputeAlphaOneSequence_cells:
  fixes pm :: "('a::{zero,plus}) LogProbs mem"
  assumes T: "1 \<le> T" and U: "1 \<le> U" "U \<le> maxU"
  shows "holds_on (\<lambda>t u. 0 \<le> t \<and> t < T \<and> 0 \<le> u \<and> u < U) (\<lambda>t u. p + t * maxU + u)
           (\<lambda>t u. alpha_rec lse (\<lambda>t u. skip (pm (addr logProbs [int t, int u])))
                                 (\<lambda>t u. emit (pm (addr logProbs [int t, int u]))) (nat t) (nat u))
           (snd (ComputeAlphaOneSequence lse options logProbs pm T U
                   (mk_TensorView [maxT, maxU] p) am))"
proof -
  define v where "v = mk_TensorView [maxT, maxU] p"
  define a where "a = (\<lambda>t u. addr v [t, u])"
  define sk where "sk = (\<lambda>t u. skip (pm (addr logProbs [int t, int u])))"
  define em where "em = (\<lambda>t u. emit (pm (addr logProbs [int t, int u])))"
  define F where "F = (\<lambda>t u. alpha_rec lse sk em (nat t) (nat u))"
  define G where "G = (\<lambda>t u. 0 \<le> t \<and> t < T \<and> 0 \<le> u \<and> u < U)"
  have a_eq: "a = (\<lambda>t u. p + t * maxU + u)" by (simp add: a_def v_def)
  have inj: "t' = t \<and> u' = u" if "G t u" "G t' u'" "a t' u' = a t u" for t u t' u'
    using cell_inj [of u' maxU u p t' t] that U by (auto simp: a_eq G_def)
  have upd: "holds_on D' a F (s(a t u := w))"
    if "holds_on D a F s" "w = F t u"
      "\<And>t' u'. D' t' u' \<Longrightarrow> G t' u' \<and> (D t' u' \<or> (t' = t \<and> u' = u))" "G t u"
    for D D' s t u w
  proof (rule holds_on_upd [OF that(1) that(2)])
    show "D t' u' \<or> t' = t \<and> u' = u" if "D' t' u'" for t' u'
      using that \<open>\<And>t' u'. D' t' u' \<Longrightarrow> G t' u' \<and> (D t' u' \<or> (t' = t \<and> u' = u))\<close> by blast
    show "t' = t \<and> u' = u" if "D' t' u'" "a t' u' = a t u" for t' u'
      using that \<open>\<And>t' u'. D' t' u' \<Longrightarrow> G t' u' \<and> (D t' u' \<or> (t' = t \<and> u' = u))\<close> \<open>G t u\<close> inj
      by blast
  qed
  have Fcol: "F t 0 = F (t - 1) 0 + skip (pm (addr logProbs [t - 1, 0]))" if "1 \<le> t" for t
    using that by (simp add: F_def alpha_rec_int(1) sk_def)
  have Frow: "F 0 u = F 0 (u - 1) + emit (pm (addr logProbs [0, u - 1]))" if "1 \<le> u" for u
    using that by (simp add: F_def alpha_rec_int(2) em_def)
  have Fint: "F t u = lse (F (t - 1) u + skip (pm (addr logProbs [t - 1, u])))
                          (F t (u - 1) + emit (pm (addr logProbs [t, u - 1])))"
    if "1 \<le> t" "1 \<le> u" for t u
    using that by (simp add: F_def alpha_rec_int(3) sk_def em_def)
  define am1 where "am1 = am(a 0 0 := 0)"
  define am2 where "am2 = for_loop 1 T (\<lambda>t am.
                  am(a t 0 := am (a (t - 1) 0) + skip (pm (addr logProbs [t - 1, 0])))) am1"
  define am3 where "am3 = for_loop 1 U (\<lambda>u am.
                  am(a 0 u := am (a 0 (u - 1)) + emit (pm (addr logProbs [0, u - 1])))) am2"
  define am4 where "am4 = for_loop 1 T (\<lambda>t. for_loop 1 U (\<lambda>u am.
                  am(a t u :=
                       lse (am (a (t - 1) u) + skip (pm (addr logProbs [t - 1, u])))
                           (am (a t (u - 1)) + emit (pm (addr logProbs [t, u - 1])))))) am3"
  have res: "snd (ComputeAlphaOneSequence lse options logProbs pm T U v am) = am4"
    by (simp add: ComputeAlphaOneSequence_def Let_def am4_def am3_def am2_def am1_def a_def)
  have h1: "holds_on (\<lambda>t u. G t u \<and> u = 0 \<and> t < 1) a F am1"
    unfolding am1_def
    by (rule upd [where D = "\<lambda>t u. False"])
       (use T U in \<open>auto simp: holds_on_def F_def G_def\<close>)
  have h2: "holds_on (\<lambda>t u. G t u \<and> u = 0 \<and> t < T) a F am2"
    unfolding am2_def
  proof (rule for_loop_inv [where P = "\<lambda>j. holds_on (\<lambda>t u. G t u \<and> u = 0 \<and> t < j) a F", OF h1 T])
    fix j s assume j: "1 \<le> j" "j < T" and h: "holds_on (\<lambda>t u. G t u \<and> u = 0 \<and> t < j) a F s"
    have "s (a (j - 1) 0) = F (j - 1) 0"
      using h j U by (simp add: holds_on_def G_def)
    then have "s (a (j - 1) 0) + skip (pm (addr logProbs [j - 1, 0])) = F j 0"
      using Fcol j by simp
    then show "holds_on (\<lambda>t u. G t u \<and> u = 0 \<and> t < j + 1) a F
                 (s(a j 0 := s (a (j - 1) 0) + skip (pm (addr logProbs [j - 1, 0]))))"
      using j U by (intro upd [OF h]) (auto simp: G_def)
  qed
  have h3: "holds_on (\<lambda>t u. G t u \<and> (u = 0 \<or> (t = 0 \<and> u < U))) a F am3"
    unfolding am3_def
  proof (rule for_loop_inv [where P = "\<lambda>j. holds_on (\<lambda>t u. G t u \<and> (u = 0 \<or> (t = 0 \<and> u < j))) a F",
        OF _ U(1)])
    show "holds_on (\<lambda>t u. G t u \<and> (u = 0 \<or> t = 0 \<and> u < 1)) a F am2"
      by (rule holds_on_weaken [OF h2]) (auto simp: G_def)
  next
    fix j s assume j: "1 \<le> j" "j < U"
      and h: "holds_on (\<lambda>t u. G t u \<and> (u = 0 \<or> (t = 0 \<and> u < j))) a F s"
    have "s (a 0 (j - 1)) = F 0 (j - 1)"
      using h j T by (simp add: holds_on_def G_def)
    then have "s (a 0 (j - 1)) + emit (pm (addr logProbs [0, j - 1])) = F 0 j"
      using Frow j by simp
    then show "holds_on (\<lambda>t u. G t u \<and> (u = 0 \<or> (t = 0 \<and> u < j + 1))) a F
                 (s(a 0 j := s (a 0 (j - 1)) + emit (pm (addr logProbs [0, j - 1]))))"
      using j T by (intro upd [OF h]) (auto simp: G_def)
  qed
  have h4: "holds_on (\<lambda>t u. G t u \<and> (u = 0 \<or> t < T)) a F am4"
    unfolding am4_def
  proof (rule for_loop_inv [where P = "\<lambda>j. holds_on (\<lambda>t u. G t u \<and> (u = 0 \<or> t < j)) a F",
        OF _ T])
    show "holds_on (\<lambda>t u. G t u \<and> (u = 0 \<or> t < 1)) a F am3"
      by (rule holds_on_weaken [OF h3]) (auto simp: G_def)
  next
    fix j s assume j: "1 \<le> j" "j < T"
      and h: "holds_on (\<lambda>t u. G t u \<and> (u = 0 \<or> t < j)) a F s"
    have "holds_on (\<lambda>t u. G t u \<and> (u = 0 \<or> t < j \<or> (t = j \<and> u < U))) a F
           (for_loop 1 U (\<lambda>u am.
                  am(a j u :=
                       lse (am (a (j - 1) u) + skip (pm (addr logProbs [j - 1, u])))
                           (am (a j (u - 1)) + emit (pm (addr logProbs [j, u - 1]))))) s)"
    proof (rule for_loop_inv [where P = "\<lambda>k. holds_on (\<lambda>t u. G t u \<and> (u = 0 \<or> t < j \<or> (t = j \<and> u < k))) a F",
        OF _ U(1)])
      show "holds_on (\<lambda>t u. G t u \<and> (u = 0 \<or> t < j \<or> t = j \<and> u < 1)) a F s"
        by (rule holds_on_weaken [OF h]) (auto simp: G_def)
    next
      fix k s' assume k: "1 \<le> k" "k < U"
        and h': "holds_on (\<lambda>t u. G t u \<and> (u = 0 \<or> t < j \<or> (t = j \<and> u < k))) a F s'"
      have "s' (a (j - 1) k) = F (j - 1) k" "s' (a j (k - 1)) = F j (k - 1)"
        using h' j k by (simp_all add: holds_on_def G_def)
      then have "lse (s' (a (j - 1) k) + skip (pm (addr logProbs [j - 1, k])))
                     (s' (a j (k - 1)) + emit (pm (addr logProbs [j, k - 1]))) = F j k"
        using Fint j k by simp
      then show "holds_on (\<lambda>t u. G t u \<and> (u = 0 \<or> t < j \<or> (t = j \<and> u < k + 1))) a F
                 (s'(a j k := lse (s' (a (j - 1) k) + skip (pm (addr logProbs [j - 1, k])))
                                  (s' (a j (k - 1)) + emit (pm (addr logProbs [j, k - 1])))))"
        using j k by (intro upd [OF h']) (auto simp: G_def)
    qed
    then show "holds_on (\<lambda>t u. G t u \<and> (u = 0 \<or> t < j + 1)) a F
           (for_loop 1 U (\<lambda>u am.
                  am(a j u :=
                       lse (am (a (j - 1) u) + skip (pm (addr logProbs [j - 1, u])))
                           (am (a j (u - 1)) + emit (pm (addr logProbs [j, u - 1]))))) s)"
      by (rule holds_on_weaken) (auto simp: G_def)
  qed
  have "holds_on G a F am4"
    by (rule holds_on_weaken [OF h4]) (auto simp: G_def)
  then show ?thesis
    using res by (simp add: G_def a_eq F_def sk_def em_def v_def)
qed

lemma beta_rev_int:
  assumes "0 \<le> t" "t \<le> T - 1" "0 \<le> u" "u \<le> U - 1"
  shows "t < T - 1 \<Longrightarrow>
      beta_rev lse sk em (nat (T - 1)) (nat (U - 1)) (nat (T - 1 - t)) 0 =
      beta_rev lse sk em (nat (T - 1)) (nat (U - 1)) (nat (T - 1 - (t + 1))) 0
        + sk (nat t) (nat (U - 1))"
    and "u < U - 1 \<Longrightarrow>
      beta_rev lse sk em (nat (T - 1)) (nat (U - 1)) 0 (nat (U - 1 - u)) =
      beta_rev lse sk em (nat (T - 1)) (nat (U - 1)) 0 (nat (U - 1 - (u + 1)))
        + em (nat (T - 1)) (nat u)"
    and "t < T - 1 \<Longrightarrow> u < U - 1 \<Longrightarrow>
      beta_rev lse sk em (nat (T - 1)) (nat (U - 1)) (nat (T - 1 - t)) (nat (U - 1 - u)) =
      lse (beta_rev lse sk em (nat (T - 1)) (nat (U - 1)) (nat (T - 1 - (t + 1))) (nat (U - 1 - u))
             + sk (nat t) (nat u))
          (beta_rev lse sk em (nat (T - 1)) (nat (U - 1)) (nat (T - 1 - t)) (nat (U - 1 - (u + 1)))
             + em (nat t) (nat u))"
proof -
  define i j where "i = nat (T - 1 - (t + 1))" and "j = nat (U - 1 - (u + 1))"
  have i: "nat (T - 1 - t) = Suc i" "nat (T - 1) - Suc i = nat t" if "t < T - 1"
    using that assms unfolding i_def by auto
  have j: "nat (U - 1 - u) = Suc j" "nat (U - 1) - Suc j = nat u" if "u < U - 1"
    using that assms unfolding j_def by auto
  show "t < T - 1 \<Longrightarrow>
      beta_rev lse sk em (nat (T - 1)) (nat (U - 1)) (nat (T - 1 - t)) 0 =
      beta_rev lse sk em (nat (T - 1)) (nat (U - 1)) (nat (T - 1 - (t + 1))) 0
        + sk (nat t) (nat (U - 1))"
    using i by (simp add: i_def)
  show "u < U - 1 \<Longrightarrow>
      beta_rev lse sk em (nat (T - 1)) (nat (U - 1)) 0 (nat (U - 1 - u)) =
      beta_rev lse sk em (nat (T - 1)) (nat (U - 1)) 0 (nat (U - 1 - (u + 1)))
        + em (nat (T - 1)) (nat u)"
    using j by (simp add: j_def)
  show "t < T - 1 \<Longrightarrow> u < U - 1 \<Longrightarrow>
      beta_rev lse sk em (nat (T - 1)) (nat (U - 1)) (nat (T - 1 - t)) (nat (U - 1 - u)) =
      lse (beta_rev lse sk em (nat (T - 1)) (nat (U - 1)) (nat (T - 1 - (t + 1))) (nat (U - 1 - u))
             + sk (nat t) (nat u))
          (beta_rev lse sk em (nat (T - 1)) (nat (U - 1)) (nat (T - 1 - t)) (nat (U - 1 - (u + 1)))
             + em (nat t) (nat u))"
    using i j by (simp add: i_def j_def)
qed

lemma ComputeBetaOneSequence_cells:
  fixes pm :: "('a::{zero,plus}) LogProbs mem"
  assumes T: "1 \<le> T" and U: "1 \<le> U" "U \<le> maxU"
  shows "holds_on (\<lambda>t u. 0 \<le> t \<and> t < T \<and> 0 \<le> u \<and> u < U) (\<lambda>t u. p + t * maxU + u)
           (\<lambda>t u. beta_rev lse (\<lambda>t u. skip (pm (addr logProbs [int t, int u])))
                                (\<lambda>t u. emit (pm (addr logProbs [int t, int u])))
                     (nat (T - 1)) (nat (U - 1)) (nat (T - 1 - t)) (nat (U - 1 - u)))
           (snd (ComputeBetaOneSequence lse options logProbs pm T U
                   (mk_TensorView [maxT, maxU] p) bm))"
proof -
  define v where "v = mk_TensorView [maxT, maxU] p"
  define a where "a = (\<lambda>t u. addr v [t, u])"
  define sk where "sk = (\<lambda>t u. skip (pm (addr logProbs [int t, int u])))"
  define em where "em = (\<lambda>t u. emit (pm (addr logProbs [int t, int u])))"
  define F where "F = (\<lambda>t u. beta_rev lse sk em (nat (T - 1)) (nat (U - 1))
                                 (nat (T - 1 - t)) (nat (U - 1 - u)))"
  define G where "G = (\<lambda>t u. 0 \<le> t \<and> t < T \<and> 0 \<le> u \<and> u < U)"
  have a_eq: "a = (\<lambda>t u. p + t * maxU + u)" by (simp add: a_def v_def)
  have inj: "t' = t \<and> u' = u" if "G t u" "G t' u'" "a t' u' = a t u" for t u t' u'
    using cell_inj [of u' maxU u p t' t] that U by (auto simp: a_eq G_def)
  have upd: "holds_on D' a F (s(a t u := w))"
    if "holds_on D a F s" "w = F t u"
      "\<And>t' u'. D' t' u' \<Longrightarrow> G t' u' \<and> (D t' u' \<or> (t' = t \<and> u' = u))" "G t u"
    for D D' s t u w
  proof (rule holds_on_upd [OF that(1) that(2)])
    show "D t' u' \<or> t' = t \<and> u' = u" if "D' t' u'" for t' u'
      using that \<open>\<And>t' u'. D' t' u' \<Longrightarrow> G t' u' \<and> (D t' u' \<or> (t' = t \<and> u' = u))\<close> by blast
    show "t' = t \<and> u' = u" if "D' t' u'" "a t' u' = a t u" for t' u'
      using that \<open>\<And>t' u'. D' t' u' \<Longrightarrow> G t' u' \<and> (D t' u' \<or> (t' = t \<and> u' = u))\<close> \<open>G t u\<close> inj
      by blast
  qed
  have Fcorner: "F (T - 1) (U - 1) = skip (pm (addr logProbs [T - 1, U - 1]))"
    using T U by (simp add: F_def sk_def)
  have Fcol: "F t (U - 1) = F (t + 1) (U - 1) + skip (pm (addr logProbs [t, U - 1]))"
    if "0 \<le> t" "t < T - 1" for t
    using that U beta_rev_int(1) [of t T "U - 1" U lse sk em]
    by (simp add: F_def sk_def)
  have Frow: "F (T - 1) u = F (T - 1) (u + 1) + emit (pm (addr logProbs [T - 1, u]))"
    if "0 \<le> u" "u < U - 1" for u
    using that T beta_rev_int(2) [of "T - 1" T u U lse sk em]
    by (simp add: F_def em_def)
  have Fint: "F t u = lse (F (t + 1) u + skip (pm (addr logProbs [t, u])))
                          (F t (u + 1) + emit (pm (addr logProbs [t, u])))"
    if "0 \<le> t" "t < T - 1" "0 \<le> u" "u < U - 1" for t u
    using that beta_rev_int(3) [of t T u U lse sk em]
    by (simp add: F_def sk_def em_def)
  define bm1 where "bm1 = bm(a (T - 1) (U - 1) := skip (pm (addr logProbs [T - 1, U - 1])))"
  define bm2 where "bm2 = for_down (T - 2) 0 (\<lambda>t bm.
                  bm(a t (U - 1) := bm (a (t + 1) (U - 1)) + skip (pm (addr logProbs [t, U - 1])))) bm1"
  define bm3 where "bm3 = for_down (U - 2) 0 (\<lambda>u bm.
                  bm(a (T - 1) u := bm (a (T - 1) (u + 1)) + emit (pm (addr logProbs [T - 1, u])))) bm2"
  define bm4 where "bm4 = for_down (T - 2) 0 (\<lambda>t. for_down (U - 2) 0 (\<lambda>u bm.
                  bm(a t u :=
                       lse (bm (a (t + 1) u) + skip (pm (addr logProbs [t, u])))
                           (bm (a t (u + 1)) + emit (pm (addr logProbs [t, u])))))) bm3"
  have res: "snd (ComputeBetaOneSequence lse options logProbs pm T U v bm) = bm4"
    by (simp add: ComputeBetaOneSequence_def Let_def bm4_def bm3_def bm2_def bm1_def a_def)
  have h1: "holds_on (\<lambda>t u. G t u \<and> u = U - 1 \<and> t > T - 2) a F bm1"
    unfolding bm1_def
    by (rule upd [where D = "\<lambda>t u. False"])
       (use T U Fcorner in \<open>auto simp: holds_on_def G_def\<close>)
  have h2: "holds_on (\<lambda>t u. G t u \<and> u = U - 1 \<and> t > 0 - 1) a F bm2"
    unfolding bm2_def
  proof (rule for_down_inv [where P = "\<lambda>j. holds_on (\<lambda>t u. G t u \<and> u = U - 1 \<and> t > j) a F",
        OF h1])
    show "0 - 1 \<le> T - 2" using T by simp
  next
    fix j s assume j: "0 \<le> j" "j \<le> T - 2"
      and h: "holds_on (\<lambda>t u. G t u \<and> u = U - 1 \<and> t > j) a F s"
    have "s (a (j + 1) (U - 1)) = F (j + 1) (U - 1)"
      using h j U by (simp add: holds_on_def G_def)
    then have "s (a (j + 1) (U - 1)) + skip (pm (addr logProbs [j, U - 1])) = F j (U - 1)"
      using Fcol j by simp
    then show "holds_on (\<lambda>t u. G t u \<and> u = U - 1 \<and> t > j - 1) a F
                 (s(a j (U - 1) := s (a (j + 1) (U - 1)) + skip (pm (addr logProbs [j, U - 1]))))"
      using j U by (intro upd [OF h]) (auto simp: G_def)
  qed
  have h3: "holds_on (\<lambda>t u. G t u \<and> (u = U - 1 \<or> (t = T - 1 \<and> u > 0 - 1))) a F bm3"
    unfolding bm3_def
  proof (rule for_down_inv [where
        P = "\<lambda>j. holds_on (\<lambda>t u. G t u \<and> (u = U - 1 \<or> (t = T - 1 \<and> u > j))) a F"])
    show "holds_on (\<lambda>t u. G t u \<and> (u = U - 1 \<or> t = T - 1 \<and> U - 2 < u)) a F bm2"
      by (rule holds_on_weaken [OF h2]) (auto simp: G_def)
    show "0 - 1 \<le> U - 2" using U by simp
  next
    fix j s assume j: "0 \<le> j" "j \<le> U - 2"
      and h: "holds_on (\<lambda>t u. G t u \<and> (u = U - 1 \<or> (t = T - 1 \<and> u > j))) a F s"
    have "s (a (T - 1) (j + 1)) = F (T - 1) (j + 1)"
      using h j T by (simp add: holds_on_def G_def)
    then have "s (a (T - 1) (j + 1)) + emit (pm (addr logProbs [T - 1, j])) = F (T - 1) j"
      using Frow j by simp
    then show "holds_on (\<lambda>t u. G t u \<and> (u = U - 1 \<or> (t = T - 1 \<and> u > j - 1))) a F
                 (s(a (T - 1) j := s (a (T - 1) (j + 1)) + emit (pm (addr logProbs [T - 1, j]))))"
      using j T by (intro upd [OF h]) (auto simp: G_def)
  qed
  have h4: "holds_on (\<lambda>t u. G t u \<and> (u = U - 1 \<or> t = T - 1 \<or> t > 0 - 1)) a F bm4"
    unfolding bm4_def
  proof (rule for_down_inv [where
        P = "\<lambda>j. holds_on (\<lambda>t u. G t u \<and> (u = U - 1 \<or> t = T - 1 \<or> t > j)) a F"])
    show "holds_on (\<lambda>t u. G t u \<and> (u = U - 1 \<or> t = T - 1 \<or> T - 2 < t)) a F bm3"
      by (rule holds_on_weaken [OF h3]) (auto simp: G_def)
    show "0 - 1 \<le> T - 2" using T by simp
  next
    fix j s assume j: "0 \<le> j" "j \<le> T - 2"
      and h: "holds_on (\<lambda>t u. G t u \<and> (u = U - 1 \<or> t = T - 1 \<or> t > j)) a F s"
    have "holds_on (\<lambda>t u. G t u \<and> (u = U - 1 \<or> t = T - 1 \<or> t > j \<or> (t = j \<and> u > 0 - 1))) a F
           (for_down (U - 2) 0 (\<lambda>u bm.
                  bm(a j u :=
                       lse (bm (a (j + 1) u) + skip (pm (addr logProbs [j, u])))
                           (bm (a j (u + 1)) + emit (pm (addr logProbs [j, u]))))) s)"
    proof (rule for_down_inv [where
          P = "\<lambda>k. holds_on (\<lambda>t u. G t u \<and> (u = U - 1 \<or> t = T - 1 \<or> t > j \<or> (t = j \<and> u > k))) a F"])
      show "holds_on (\<lambda>t u. G t u \<and> (u = U - 1 \<or> t = T - 1 \<or> j < t \<or> t = j \<and> U - 2 < u)) a F s"
        by (rule holds_on_weaken [OF h]) (auto simp: G_def)
      show "0 - 1 \<le> U - 2" using U by simp
    next
      fix k s' assume k: "0 \<le> k" "k \<le> U - 2"
        and h': "holds_on (\<lambda>t u. G t u \<and> (u = U - 1 \<or> t = T - 1 \<or> t > j \<or> (t = j \<and> u > k))) a F s'"
      have "s' (a (j + 1) k) = F (j + 1) k" "s' (a j (k + 1)) = F j (k + 1)"
        using h' j k by (simp_all add: holds_on_def G_def)
      then have "lse (s' (a (j + 1) k) + skip (pm (addr logProbs [j, k])))
                     (s' (a j (k + 1)) + emit (pm (addr logProbs [j, k]))) = F j k"
        using Fint j k by simp
      then show "holds_on (\<lambda>t u. G t u \<and> (u = U - 1 \<or> t = T - 1 \<or> t > j \<or> (t = j \<and> u > k - 1))) a F
                 (s'(a j k := lse (s' (a (j + 1) k) + skip (pm (addr logProbs [j, k])))
                                  (s' (a j (k + 1)) + emit (pm (addr logProbs [j, k])))))"
        using j k by (intro upd [OF h']) (auto simp: G_def)
    qed
    then show "holds_on (\<lambda>t u. G t u \<and> (u = U - 1 \<or> t = T - 1 \<or> t > j - 1)) a F
           (for_down (U - 2) 0 (\<lambda>u bm.
                  bm(a j u :=
                       lse (bm (a (j + 1) u) + skip (pm (addr logProbs [j, u])))
                           (bm (a j (u + 1)) + emit (pm (addr logProbs [j, u]))))) s)"
      by (rule holds_on_weaken) (auto simp: G_def)
  qed
  have "holds_on G a F bm4"
    by (rule holds_on_weaken [OF h4]) (auto simp: G_def)
  then show ?thesis
    using res by (simp add: G_def a_eq F_def sk_def em_def v_def)
qed

lemma forward_score_alpha_rec:
  fixes pm :: "('a::{zero,plus}) LogProbs mem"
  assumes "1 \<le> T" "1 \<le> U" "U \<le> maxU"
  shows "fst (ComputeAlphaOneSequence lse options logProbs pm T U (mk_TensorView [maxT, maxU] p) am)
       = alpha_rec lse (\<lambda>t u. skip (pm (addr logProbs [int t, int u])))
                       (\<lambda>t u. emit (pm (addr logProbs [int t, int u])))
           (nat (T - 1)) (nat (U - 1))
         + skip (pm (addr logProbs [T - 1, U - 1]))"
proof -
  have "fst (ComputeAlphaOneSequence lse options logProbs pm T U (mk_TensorView [maxT, maxU] p) am)
      = snd (ComputeAlphaOneSequence lse options logProbs pm T U (mk_TensorView [maxT, maxU] p) am)
          (p + (T - 1) * maxU + (U - 1))
        + skip (pm (addr logProbs [T - 1, U - 1]))"
    by (simp add: ComputeAlphaOneSequence_def Let_def)
  then show ?thesis
    using holds_onD [OF ComputeAlphaOneSequence_cells [OF assms, of p lse pm logProbs options maxT am],
        of "T - 1" "U - 1"] assms
    by simp
qed

lemma backward_score_beta_rev:
  fixes pm :: "('a::{zero,plus}) LogProbs mem"
  assumes "1 \<le> T" "1 \<le> U" "U \<le> maxU"
  shows "fst (ComputeBetaOneSequence lse options logProbs pm T U (mk_TensorView [maxT, maxU] p) bm)
       = beta_rev lse (\<lambda>t u. skip (pm (addr logProbs [int t, int u])))
                      (\<lambda>t u. emit (pm (addr logProbs [int t, int u])))
           (nat (T - 1)) (nat (U - 1)) (nat (T - 1)) (nat (U - 1))"
proof -
  have "fst (ComputeBetaOneSequence lse options logProbs pm T U (mk_TensorView [maxT, maxU] p) bm)
      = snd (ComputeBetaOneSequence lse options logProbs pm T U (mk_TensorView [maxT, maxU] p) bm)
          (p + 0 * maxU + 0)"
    by (simp add: ComputeBetaOneSequence_def Let_def)
  then show ?thesis
    using holds_onD [OF ComputeBetaOneSequence_cells [OF assms, of p lse pm logProbs options maxT bm],
        of 0 0] assms
    by simp
qed

lemma forward_score_backward_score:
  assumes "1 \<le> T" "1 \<le> U" "U \<le> maxU"
  shows "fst (ComputeAlphaOneSequence math_lse options logProbs pm T U
                (mk_TensorView [maxT, maxU] ap) am)
       = fst (ComputeBetaOneSequence math_lse options' logProbs pm T U
                (mk_TensorView [maxT, maxU] bp) bm)"
  using assms
    forward_eq_backward [of "\<lambda>t u. skip (pm (addr logProbs [int t, int u]))"
      "\<lambda>t u. emit (pm (addr logProbs [int t, int u]))" "nat (T - 1)" "nat (U - 1)"]
  by (simp add: forward_score_alpha_rec backward_score_beta_rev)

text \<open>
  Claim C2. On the same log-probs, for \<open>T \<ge> 1\<close> and \<open>1 \<le> U \<le> maxU\<close>, the forward score that
  \<open>ComputeAlphaOneSequence\<close> returns is the backward score that \<open>ComputeBetaOneSequence\<close>
  returns, in exact arithmetic.
\<close>

theorem forward_score_equals_backward_score:
  assumes "1 \<le> T" and "1 \<le> U" and "U \<le> maxU"
  shows "fst (ComputeAlphaOneSequence math_lse options logProbs pm T U
                (mk_TensorView [maxT, maxU] ap) am)
       = fst (ComputeBetaOneSequence math_lse options logProbs pm T U
                (mk_TensorView [maxT, maxU] bp) bm)"
  using assms by (rule forward_score_backward_score)

theorem forward_score_equals_backward_score_witness:
  "fst (ComputeAlphaOneSequence math_lse opts0 (mk_TensorView [2, 2] 0) pm0 2 2
          (mk_TensorView [2, 2] 0) (\<lambda>i. 0))
   = fst (ComputeBetaOneSequence math_lse opts0 (mk_TensorView [2, 2] 0) pm0 2 2
          (mk_TensorView [2, 2] 0) (\<lambda>i. 5))"
proof -
  have h: "(1::int) \<le> 2" "(2::int) \<le> 2" by simp_all
  show ?thesis
    by (rule forward_score_equals_backward_score [OF h(1) h(1) h(2)])
qed

section \<open>The cost of a sample\<close>

lemma for_loop_assign:
  assumes "i \<le> n"
  shows "for_loop i n (\<lambda>j s. s(j := f j)) s0 = (\<lambda>x. if i \<le> x \<and> x < n then f x else s0 x)"
proof -
  have "for_loop i n (\<lambda>j s. s(j := f j)) s0 =
        (\<lambda>x. if x \<in> (\<Union>k\<in>{i..<n}. {k}) then f x else s0 x)"
    by (rule for_loop_writes [OF assms]) (auto simp: fun_eq_iff)
  then show ?thesis by simp
qed

lemma ComputeAlphasBetas_costs:
  fixes logProbs :: "('a::{zero,plus,uminus}) LogProbs mem"
  assumes b: "0 \<le> b" "b < batchSize options"
    and len: "1 \<le> srcLengths b" "0 \<le> tgtLengths b" "tgtLengths b + 1 \<le> maxTgtLen options"
  shows "snd (snd (ComputeAlphasBetas mk_check lse ninf options logProbs srcLengths tgtLengths
                     alphas betas costs None)) b
       = - beta_rev lse
             (\<lambda>t u. skip (logProbs (addr (mk_TensorView [maxSrcLen options, maxTgtLen options]
                        (b * maxSrcLen options * maxTgtLen options)) [int t, int u])))
             (\<lambda>t u. emit (logProbs (addr (mk_TensorView [maxSrcLen options, maxTgtLen options]
                        (b * maxSrcLen options * maxTgtLen options)) [int t, int u])))
             (nat (srcLengths b - 1)) (nat (tgtLengths b)) (nat (srcLengths b - 1)) (nat (tgtLengths b))"
proof -
  define B maxT maxU where "B = batchSize options" and "maxT = maxSrcLen options"
    and "maxU = maxTgtLen options"
  define view where "view = (\<lambda>b. mk_TensorView [maxT, maxU] (b * maxT * maxU))"
  define X where "X = beta_rev lse
             (\<lambda>t u. skip (logProbs (addr (view b) [int t, int u])))
             (\<lambda>t u. emit (logProbs (addr (view b) [int t, int u])))
             (nat (srcLengths b - 1)) (nat (tgtLengths b)) (nat (srcLengths b - 1)) (nat (tgtLengths b))"
  define body where "body = (\<lambda>t (am, bm, scores :: 'a mem).
              let i = t div 2;
                  (score, am', bm') =
                    ComputeAlphaOrBetaOneSequence mk_check lse ninf t options (view i)
                      logProbs (srcLengths i) (tgtLengths i + 1) (view i) am
                      (view i) bm (map_option (\<lambda>w i'. w (i * maxU + i')) None)
              in (am', bm', scores(t := score)))"
  define r where "r = for_loop 0 (2 * B) body (alphas, betas, (\<lambda>t. 0))"
  have score: "fst (ComputeBetaOneSequence lse options (view b) logProbs (srcLengths b)
                      (tgtLengths b + 1) (view b) bm) = X" for bm
    using len backward_score_beta_rev [of "srcLengths b" "tgtLengths b + 1" maxU lse options
        "view b" logProbs maxT "b * maxT * maxU" bm]
    by (simp add: X_def view_def maxU_def)
  have inv: "2 * b < 2 * B \<longrightarrow>
               snd (snd (for_loop 0 (2 * B) body (alphas, betas, (\<lambda>t. 0)))) (2 * b) = X"
  proof (rule for_loop_inv [where
        P = "\<lambda>j (s :: 'a mem \<times> 'a mem \<times> 'a mem). 2 * b < j \<longrightarrow> snd (snd s) (2 * b) = X"])
    show "0 \<le> 2 * B" using b by (simp add: B_def)
  next
    fix j and s :: "'a mem \<times> 'a mem \<times> 'a mem"
    assume j: "0 \<le> j" "j < 2 * B" and h: "2 * b < j \<longrightarrow> snd (snd s) (2 * b) = X"
    obtain am bm sc where s: "s = (am, bm, sc)" by (cases s)
    show "2 * b < j + 1 \<longrightarrow> snd (snd (body j s)) (2 * b) = X"
    proof (cases "j = 2 * b")
      case True
      then show ?thesis
        using score [of bm]
        by (simp add: body_def s Let_def ComputeAlphaOrBetaOneSequence_def split_beta)
    next
      case False
      then show ?thesis
        using h by (simp add: body_def s Let_def split_beta)
    qed
  qed (use b in simp)
  then have sc: "snd (snd r) (2 * b) = X"
    using b by (simp add: r_def B_def)
  have "snd (snd (ComputeAlphasBetas mk_check lse ninf options logProbs srcLengths tgtLengths
                     alphas betas costs None))
       = for_loop 0 B (\<lambda>b costs. costs(b := - snd (snd r) (2 * b))) costs"
    by (simp add: ComputeAlphasBetas_def Let_def split_beta r_def body_def view_def
        B_def maxT_def maxU_def)
  then show ?thesis
    using b sc by (simp add: for_loop_assign B_def X_def view_def maxT_def maxU_def)
qed

text \<open>
  In exact arithmetic the two scores are equal, so the cost is the negated forward score of
  \<open>ComputeAlphaOneSequence\<close> there.
\<close>

lemma ComputeAlphasBetas_cost_exact:
  assumes "0 \<le> b" and "b < batchSize options"
    and "1 \<le> srcLengths b" and "0 \<le> tgtLengths b" and "tgtLengths b + 1 \<le> maxTgtLen options"
  shows "snd (snd (ComputeAlphasBetas mk_check math_lse ninf options logProbs srcLengths tgtLengths
                     alphas betas costs None)) b
       = - fst (ComputeAlphaOneSequence math_lse options
                  (mk_TensorView [maxSrcLen options, maxTgtLen options]
                     (b * maxSrcLen options * maxTgtLen options))
                  logProbs (srcLengths b) (tgtLengths b + 1)
                  (mk_TensorView [maxSrcLen options, maxTgtLen options]
                     (b * maxSrcLen options * maxTgtLen options)) am)"
proof -
  define view where "view = mk_TensorView [maxSrcLen options, maxTgtLen options]
                     (b * maxSrcLen options * maxTgtLen options)"
  have "fst (ComputeAlphaOneSequence math_lse options view logProbs (srcLengths b) (tgtLengths b + 1)
               view am)
      = fst (ComputeBetaOneSequence math_lse options view logProbs (srcLengths b) (tgtLengths b + 1)
               view am)"
    unfolding view_def using assms by (intro forward_score_backward_score) auto
  also have "\<dots> = beta_rev math_lse
             (\<lambda>t u. skip (logProbs (addr view [int t, int u])))
             (\<lambda>t u. emit (logProbs (addr view [int t, int u])))
             (nat (srcLengths b - 1)) (nat (tgtLengths b)) (nat (srcLengths b - 1)) (nat (tgtLengths b))"
    unfolding view_def using assms by (subst backward_score_beta_rev) auto
  finally show ?thesis
    using assms ComputeAlphasBetas_costs [where b = b and options = options
        and srcLengths = srcLengths and tgtLengths = tgtLengths and mk_check = mk_check
        and lse = math_lse and ninf = ninf and logProbs = logProbs and alphas = alphas
        and betas = betas and costs = costs]
    by (simp add: view_def)
qed

section \<open>The cost in 32-bit floats\<close>










section \<open>The gradient stage\<close>

lemma ComputeGradientsOneSequence_stages:
  "ComputeGradientsOneSequence options logits targets T U denom dm alpha am beta bm gradients hm =
     (if addr gradients [0, 0, 0] = addr logits [0, 0, 0]
      then for_loop 0 T (\<lambda>t. for_loop U (maxTgtLen options) (\<lambda>u.
             for_loop 0 (numTargets options) (\<lambda>d hm. hm(addr gradients [t, u, d] := 0))))
             (for_loop T (maxSrcLen options) (\<lambda>t. for_loop 0 (maxTgtLen options) (\<lambda>u.
                for_loop 0 (numTargets options) (\<lambda>d hm. hm(addr gradients [t, u, d] := 0))))
                (gradients_valid_region options logits targets T U denom dm alpha am beta bm
                   gradients hm))
      else gradients_valid_region options logits targets T U denom dm alpha am beta bm
             gradients hm)"
  unfolding ComputeGradientsOneSequence_def gradients_valid_region_def Let_def by (rule refl)

lemma cell_bound:
  assumes "0 \<le> u" "u < (m::int)" "0 \<le> t" "t < n"
  shows "0 \<le> t * m + u" "t * m + u < n * m"
proof -
  show "0 \<le> t * m + u" using assms by simp
  have "(t + 1) * m \<le> n * m" using assms by (intro mult_right_mono) auto
  then show "t * m + u < n * m" using assms by (simp add: algebra_simps)
qed

lemma cell3_inj:
  assumes "0 \<le> u" "u < (m::int)" "0 \<le> d" "d < D" "0 \<le> u'" "u' < m" "0 \<le> d'" "d' < D"
    and "q + t * (m * D) + u * D + d = q + t' * (m * D) + u' * D + d'"
  shows "t = t' \<and> u = u' \<and> d = d'"
proof -
  have "0 + (t * m + u) * D + d = 0 + (t' * m + u') * D + d'"
    using assms(9) by (simp add: algebra_simps)
  then have *: "t * m + u = t' * m + u' \<and> d = d'"
    using cell_inj [of d D d' 0 "t * m + u" "t' * m + u'"] assms by simp
  then have "0 + t * m + u = 0 + t' * m + u'" by simp
  then have "t = t' \<and> u = u'"
    using cell_inj [of u m u' 0 t t'] assms by simp
  then show ?thesis using * by simp
qed

lemma cell3_bound:
  assumes "0 \<le> t" "t < n" "0 \<le> u" "u < (m::int)" "0 \<le> d" "d < D"
  shows "0 \<le> t * (m * D) + u * D + d" "t * (m * D) + u * D + d < n * m * D"
proof -
  have 1: "0 \<le> t * m + u" "t * m + u < n * m" using cell_bound [of u m t n] assms by auto
  have "0 \<le> (t * m + u) * D + d" "(t * m + u) * D + d < (n * m) * D"
    using cell_bound [of d D "t * m + u" "n * m"] assms 1 by auto
  then show "0 \<le> t * (m * D) + u * D + d" "t * (m * D) + u * D + d < n * m * D"
    by (simp_all add: algebra_simps)
qed

lemma filled_upd:
  assumes "filled Dn a F s0 s" and "v = F t u d"
    and "\<And>t' u' d'. Dn' t' u' d' \<longleftrightarrow> Dn t' u' d' \<or> (t' = t \<and> u' = u \<and> d' = d)"
    and "\<And>t' u' d'. Dn t' u' d' \<Longrightarrow> a t' u' d' \<noteq> a t u d"
  shows "filled Dn' a F s0 (s(a t u d := v))"
  using assms unfolding filled_def by (auto simp: fun_upd_apply)

lemma filled_cong:
  assumes "filled Dn a F s0 s" and "\<And>t u d. Dn' t u d \<longleftrightarrow> Dn t u d"
  shows "filled Dn' a F s0 s"
  using assms unfolding filled_def by simp

lemma gradients_valid_region_filled:
  assumes T: "0 \<le> T" "T \<le> maxT" and U: "0 \<le> U" "U \<le> maxU" and D: "0 \<le> D"
    and opts: "numTargets options = D"
    and sep: "gp = lp \<or> gp + maxT * maxU * D \<le> lp \<or> lp + maxT * maxU * D \<le> gp"
  shows "filled (\<lambda>t u d. 0 \<le> t \<and> t < T \<and> 0 \<le> u \<and> u < U \<and> 0 \<le> d \<and> d < D)
           (\<lambda>t u d. gp + t * (maxU * D) + u * D + d)
           (\<lambda>t u d. clip (clamp options)
              (spec_gradient (blank options) targets T U
                 (\<lambda>t u d. hm (lp + t * (maxU * D) + u * D + d))
                 (\<lambda>t u. dm (addr denom [t, u])) (\<lambda>t u. am (addr alpha [t, u]))
                 (\<lambda>t u. bm (addr beta [t, u])) t u d))
           hm
           (gradients_valid_region options (mk_TensorView [maxT, maxU, D] lp) targets T U
              denom dm alpha am beta bm (mk_TensorView [maxT, maxU, D] gp) hm)"
proof -
  define a where "a = (\<lambda>t u d. gp + t * (maxU * D) + u * D + d)"
  define l where "l = (\<lambda>t u d. lp + t * (maxU * D) + u * D + d)"
  define val where "val = (\<lambda>t u d x. clip (clamp options)
              (spec_gradient (blank options) targets T U (\<lambda>t u d. x)
                 (\<lambda>t u. dm (addr denom [t, u])) (\<lambda>t u. am (addr alpha [t, u]))
                 (\<lambda>t u. bm (addr beta [t, u])) t u d))"
  define F where "F = (\<lambda>t u d. val t u d (hm (l t u d)))"
  define G where "G = (\<lambda>t u d. 0 \<le> t \<and> t < T \<and> 0 \<le> u \<and> u < U \<and> 0 \<le> d \<and> d < D)"
  define body where "body = (\<lambda>t u d (hm :: real mem).
             let g = hm (l t u d)
                     + (am (addr alpha [t, u]) + - bm (addr beta [0, 0]) - dm (addr denom [t, u]));
                 hm' = hm(a t u d :=
                         (if d = blank options \<and> t = T - 1 \<and> u = U - 1
                          then exp (g + bm (addr beta [t, u])) - exp g
                          else if d = blank options \<and> t < T - 1
                          then exp (g + bm (addr beta [t, u]))
                               - exp (g + bm (addr beta [t + 1, u]))
                          else if u < U - 1 \<and> d = targets u
                          then exp (g + bm (addr beta [t, u]))
                               - exp (g + bm (addr beta [t, u + 1]))
                          else exp (g + bm (addr beta [t, u]))))
             in if clamp options > 0
                then (let hm'' = hm'(a t u d := min (hm' (a t u d)) (clamp options))
                      in hm''(a t u d := max (hm'' (a t u d)) (- clamp options)))
                else hm')"
  have body_eq: "body t u d s = s(a t u d := val t u d (s (l t u d)))" for t u d s
    by (simp add: body_def val_def clip_def spec_gradient_def Let_def)
  have res: "gradients_valid_region options (mk_TensorView [maxT, maxU, D] lp) targets T U
              denom dm alpha am beta bm (mk_TensorView [maxT, maxU, D] gp) hm
           = for_loop 0 T (\<lambda>t. for_loop 0 U (\<lambda>u. for_loop 0 D (body t u))) hm"
    unfolding gradients_valid_region_def body_def Let_def opts a_def l_def addr3 by (rule refl)
  have inj: "t' = t \<and> u' = u \<and> d' = d" if "G t u d" "G t' u' d'" "a t' u' d' = a t u d"
    for t u d t' u' d'
    using cell3_inj [of u' maxU d' D u d gp t' t] that U by (auto simp: a_def G_def)
  have logit_intact: "l t u d \<noteq> a t' u' d'"
    if "G t u d" "G t' u' d'" "(t', u', d') \<noteq> (t, u, d)" for t u d t' u' d'
  proof (cases "gp = lp")
    case True
    then have "l t u d = a t u d" by (simp add: l_def a_def)
    then show ?thesis using inj [OF that(1,2)] that(3) by auto
  next
    case False
    have 1: "0 \<le> t * (maxU * D) + u * D + d" "t * (maxU * D) + u * D + d < maxT * maxU * D"
      using cell3_bound [of t maxT u maxU d D] that(1) T U by (auto simp: G_def)
    have 2: "0 \<le> t' * (maxU * D) + u' * D + d'" "t' * (maxU * D) + u' * D + d' < maxT * maxU * D"
      using cell3_bound [of t' maxT u' maxU d' D] that(2) T U by (auto simp: G_def)
    show ?thesis using sep False 1 2 by (auto simp: l_def a_def)
  qed
  have step: "filled Dn' a F hm (body t u d s)"
    if "filled Dn a F hm s" "G t u d" "\<not> Dn t u d" "\<And>t' u' d'. Dn t' u' d' \<Longrightarrow> G t' u' d'"
      "\<And>t' u' d'. Dn' t' u' d' \<longleftrightarrow> Dn t' u' d' \<or> (t' = t \<and> u' = u \<and> d' = d)"
    for Dn Dn' t u d s
  proof -
    have "\<forall>t' u' d'. Dn t' u' d' \<longrightarrow> l t u d \<noteq> a t' u' d'"
      using that(2,3,4) logit_intact by blast
    then have "s (l t u d) = hm (l t u d)"
      using that(1) by (simp add: filled_def)
    then have v: "val t u d (s (l t u d)) = F t u d" by (simp add: F_def)
    show ?thesis
      unfolding body_eq
    proof (rule filled_upd [OF that(1) v that(5)])
      show "a t' u' d' \<noteq> a t u d" if "Dn t' u' d'" for t' u' d'
        using inj [of t u d t' u' d'] that \<open>G t u d\<close> \<open>\<not> Dn t u d\<close>
          \<open>\<And>t' u' d'. Dn t' u' d' \<Longrightarrow> G t' u' d'\<close> by blast
    qed
  qed
  have "filled (\<lambda>t u d. G t u d \<and> t < T) a F hm
          (for_loop 0 T (\<lambda>t. for_loop 0 U (\<lambda>u. for_loop 0 D (body t u))) hm)"
  proof (rule for_loop_inv [where P = "\<lambda>j. filled (\<lambda>t u d. G t u d \<and> t < j) a F hm", OF _ T(1)])
    show "filled (\<lambda>t u d. G t u d \<and> t < 0) a F hm hm"
      by (simp add: filled_def G_def)
  next
    fix j s assume j: "0 \<le> j" "j < T" and h: "filled (\<lambda>t u d. G t u d \<and> t < j) a F hm s"
    have "filled (\<lambda>t u d. G t u d \<and> (t < j \<or> (t = j \<and> u < U))) a F hm
            (for_loop 0 U (\<lambda>u. for_loop 0 D (body j u)) s)"
    proof (rule for_loop_inv [where
          P = "\<lambda>k. filled (\<lambda>t u d. G t u d \<and> (t < j \<or> (t = j \<and> u < k))) a F hm", OF _ U(1)])
      show "filled (\<lambda>t u d. G t u d \<and> (t < j \<or> t = j \<and> u < 0)) a F hm s"
        by (rule filled_cong [OF h]) (auto simp: G_def)
    next
      fix k s' assume k: "0 \<le> k" "k < U"
        and h': "filled (\<lambda>t u d. G t u d \<and> (t < j \<or> (t = j \<and> u < k))) a F hm s'"
      have "filled (\<lambda>t u d. G t u d \<and> (t < j \<or> (t = j \<and> (u < k \<or> (u = k \<and> d < D))))) a F hm
              (for_loop 0 D (body j k) s')"
      proof (rule for_loop_inv [where
            P = "\<lambda>e. filled (\<lambda>t u d. G t u d \<and> (t < j \<or> (t = j \<and> (u < k \<or> (u = k \<and> d < e))))) a F hm",
            OF _ D])
        show "filled (\<lambda>t u d. G t u d \<and> (t < j \<or> t = j \<and> (u < k \<or> u = k \<and> d < 0))) a F hm s'"
          by (rule filled_cong [OF h']) (auto simp: G_def)
      next
        fix e s'' assume e: "0 \<le> e" "e < D"
          and h'': "filled (\<lambda>t u d. G t u d \<and> (t < j \<or> (t = j \<and> (u < k \<or> (u = k \<and> d < e))))) a F hm s''"
        show "filled (\<lambda>t u d. G t u d \<and> (t < j \<or> (t = j \<and> (u < k \<or> (u = k \<and> d < e + 1))))) a F hm
                (body j k e s'')"
          by (rule step [OF h'']) (use j k e in \<open>auto simp: G_def\<close>)
      qed
      then show "filled (\<lambda>t u d. G t u d \<and> (t < j \<or> (t = j \<and> u < k + 1))) a F hm
              (for_loop 0 D (body j k) s')"
        by (rule filled_cong) (auto simp: G_def)
    qed
    then show "filled (\<lambda>t u d. G t u d \<and> t < j + 1) a F hm
            (for_loop 0 U (\<lambda>u. for_loop 0 D (body j u)) s)"
      by (rule filled_cong) (auto simp: G_def)
  qed
  then have "filled G a F hm (for_loop 0 T (\<lambda>t. for_loop 0 U (\<lambda>u. for_loop 0 D (body t u))) hm)"
    by (rule filled_cong) (auto simp: G_def)
  moreover have "F = (\<lambda>t u d. clip (clamp options)
              (spec_gradient (blank options) targets T U
                 (\<lambda>t u d. hm (lp + t * (maxU * D) + u * D + d))
                 (\<lambda>t u. dm (addr denom [t, u])) (\<lambda>t u. am (addr alpha [t, u]))
                 (\<lambda>t u. bm (addr beta [t, u])) t u d))"
    by (simp add: F_def val_def l_def spec_gradient_def)
  ultimately show ?thesis
    unfolding res by (simp add: G_def a_def)
qed

lemma for_loop_writes_any:
  assumes step: "\<And>j s. i \<le> j \<Longrightarrow> j < n \<Longrightarrow> body j s = (\<lambda>x. if x \<in> W j then G x else s x)"
  shows "for_loop i n body s0 = (\<lambda>x. if x \<in> (\<Union>k\<in>{i..<n}. W k) then G x else s0 x)"
proof (cases "i \<le> n")
  case True
  then show ?thesis by (rule for_loop_writes) (use step in auto)
next
  case False
  then show ?thesis by simp
qed

lemma zero_loops:
  "for_loop t0 t1 (\<lambda>t. for_loop u0 u1 (\<lambda>u. for_loop d0 d1 (\<lambda>d hm. hm(a t u d := (0::real))))) s
   = (\<lambda>x. if x \<in> (\<Union>t\<in>{t0..<t1}. \<Union>u\<in>{u0..<u1}. \<Union>d\<in>{d0..<d1}. {a t u d}) then 0 else s x)"
proof (rule for_loop_writes_any)
  fix t s
  show "for_loop u0 u1 (\<lambda>u. for_loop d0 d1 (\<lambda>d hm. hm(a t u d := 0))) s
        = (\<lambda>x. if x \<in> (\<Union>u\<in>{u0..<u1}. \<Union>d\<in>{d0..<d1}. {a t u d}) then 0 else s x)"
  proof (rule for_loop_writes_any)
    fix u s'
    show "for_loop d0 d1 (\<lambda>d hm. hm(a t u d := 0)) s'
          = (\<lambda>x. if x \<in> (\<Union>d\<in>{d0..<d1}. {a t u d}) then 0 else s' x)"
      by (rule for_loop_writes_any) (auto simp: fun_eq_iff)
  qed
qed

lemma ComputeGradientsOneSequence_result:
  assumes T: "0 \<le> T" "T \<le> maxT" and U: "0 \<le> U" "U \<le> maxU" and D: "0 \<le> D"
    and opts: "maxSrcLen options = maxT" "maxTgtLen options = maxU" "numTargets options = D"
    and sep: "gp = lp \<or> gp + maxT * maxU * D \<le> lp \<or> lp + maxT * maxU * D \<le> gp"
    and u: "0 \<le> u" "u < maxU" and d: "0 \<le> d" "d < D"
  shows "0 \<le> t \<Longrightarrow> t < T \<Longrightarrow> u < U \<Longrightarrow>
         ComputeGradientsOneSequence options (mk_TensorView [maxT, maxU, D] lp) targets T U
           denom dm alpha am beta bm (mk_TensorView [maxT, maxU, D] gp) hm
           (gp + t * (maxU * D) + u * D + d)
         = clip (clamp options)
              (spec_gradient (blank options) targets T U
                 (\<lambda>t u d. hm (lp + t * (maxU * D) + u * D + d))
                 (\<lambda>t u. dm (addr denom [t, u])) (\<lambda>t u. am (addr alpha [t, u]))
                 (\<lambda>t u. bm (addr beta [t, u])) t u d)"
    and "gp = lp \<Longrightarrow> 0 \<le> t \<Longrightarrow> t < maxT \<Longrightarrow> T \<le> t \<or> U \<le> u \<Longrightarrow>
         ComputeGradientsOneSequence options (mk_TensorView [maxT, maxU, D] lp) targets T U
           denom dm alpha am beta bm (mk_TensorView [maxT, maxU, D] gp) hm
           (gp + t * (maxU * D) + u * D + d) = 0"
    and "gp \<noteq> lp \<Longrightarrow> t < 0 \<or> T \<le> t \<or> U \<le> u \<Longrightarrow>
         ComputeGradientsOneSequence options (mk_TensorView [maxT, maxU, D] lp) targets T U
           denom dm alpha am beta bm (mk_TensorView [maxT, maxU, D] gp) hm
           (gp + t * (maxU * D) + u * D + d) = hm (gp + t * (maxU * D) + u * D + d)"
proof -
  define a where "a = (\<lambda>t u d. gp + t * (maxU * D) + u * D + d)"
  define hm1 where "hm1 = gradients_valid_region options (mk_TensorView [maxT, maxU, D] lp)
      targets T U denom dm alpha am beta bm (mk_TensorView [maxT, maxU, D] gp) hm"
  define F where "F = (\<lambda>t u d. clip (clamp options)
              (spec_gradient (blank options) targets T U
                 (\<lambda>t u d. hm (lp + t * (maxU * D) + u * D + d))
                 (\<lambda>t u. dm (addr denom [t, u])) (\<lambda>t u. am (addr alpha [t, u]))
                 (\<lambda>t u. bm (addr beta [t, u])) t u d))"
  define Z where "Z = (\<Union>t'\<in>{0..<T}. \<Union>u'\<in>{U..<maxU}. \<Union>d'\<in>{0..<D}. {a t' u' d'})
                      \<union> (\<Union>t'\<in>{T..<maxT}. \<Union>u'\<in>{0..<maxU}. \<Union>d'\<in>{0..<D}. {a t' u' d'})"
  have fl: "filled (\<lambda>t u d. 0 \<le> t \<and> t < T \<and> 0 \<le> u \<and> u < U \<and> 0 \<le> d \<and> d < D) a F hm hm1"
    unfolding a_def F_def hm1_def
    by (rule gradients_valid_region_filled [OF T U D opts(3) sep])
  have res: "ComputeGradientsOneSequence options (mk_TensorView [maxT, maxU, D] lp) targets T U
           denom dm alpha am beta bm (mk_TensorView [maxT, maxU, D] gp) hm
           = (if gp = lp then (\<lambda>x. if x \<in> Z then 0 else hm1 x) else hm1)"
    unfolding ComputeGradientsOneSequence_stages opts hm1_def [symmetric] addr3
    by (auto simp: zero_loops a_def Z_def fun_eq_iff)
  have inj: "t' = t \<and> u' = u \<and> d' = d"
    if "a t' u' d' = a t u d" "0 \<le> u'" "u' < maxU" "0 \<le> d'" "d' < D" for t' u' d'
    using cell3_inj [of u' maxU d' D u d gp t' t] that u d by (auto simp: a_def)
  have notZ: "a t u d \<notin> Z" if "0 \<le> t" "t < T" "u < U"
  proof
    assume "a t u d \<in> Z"
    then obtain t' u' d' where "a t' u' d' = a t u d" "0 \<le> u'" "u' < maxU" "0 \<le> d'" "d' < D"
      "T \<le> t' \<or> U \<le> u'"
      using U by (auto simp: Z_def)
    then show False using inj [of t' u' d'] that by auto
  qed
  have inZ: "a t u d \<in> Z" if "0 \<le> t" "t < maxT" "T \<le> t \<or> U \<le> u"
  proof (cases "T \<le> t")
    case True
    then have "a t u d \<in> (\<Union>t'\<in>{T..<maxT}. \<Union>u'\<in>{0..<maxU}. \<Union>d'\<in>{0..<D}. {a t' u' d'})"
      using that u d by (intro UN_I [of t] UN_I [of u] UN_I [of d]) auto
    then show ?thesis by (simp add: Z_def)
  next
    case False
    then have "a t u d \<in> (\<Union>t'\<in>{0..<T}. \<Union>u'\<in>{U..<maxU}. \<Union>d'\<in>{0..<D}. {a t' u' d'})"
      using that u d by (intro UN_I [of t] UN_I [of u] UN_I [of d]) auto
    then show ?thesis by (simp add: Z_def)
  qed
  have val: "hm1 (a t u d) = F t u d" if "0 \<le> t" "t < T" "u < U"
    using fl that u d by (simp add: filled_def)
  have frame: "hm1 (a t u d) = hm (a t u d)" if "t < 0 \<or> T \<le> t \<or> U \<le> u"
  proof -
    have "\<forall>t' u' d'. 0 \<le> t' \<and> t' < T \<and> 0 \<le> u' \<and> u' < U \<and> 0 \<le> d' \<and> d' < D \<longrightarrow> a t u d \<noteq> a t' u' d'"
      using inj that U by (metis less_le_trans not_le)
    then show ?thesis using fl by (simp add: filled_def)
  qed
  define CG where "CG = ComputeGradientsOneSequence options (mk_TensorView [maxT, maxU, D] lp)
           targets T U denom dm alpha am beta bm (mk_TensorView [maxT, maxU, D] gp) hm"
  have res': "CG = (if gp = lp then (\<lambda>x. if x \<in> Z then 0 else hm1 x) else hm1)"
    using res by (simp add: CG_def)
  have m1: "CG (a t u d) = F t u d" if "0 \<le> t" "t < T" "u < U"
    using notZ [OF that] val [OF that] by (simp add: res')
  have m2: "CG (a t u d) = 0" if "gp = lp" "0 \<le> t" "t < maxT" "T \<le> t \<or> U \<le> u"
    using inZ [OF that(2-4)] that(1) by (simp add: res')
  have m3: "CG (a t u d) = hm (a t u d)" if "gp \<noteq> lp" "t < 0 \<or> T \<le> t \<or> U \<le> u"
    using frame [OF that(2)] that(1) by (simp add: res')
  show "0 \<le> t \<Longrightarrow> t < T \<Longrightarrow> u < U \<Longrightarrow>
         ComputeGradientsOneSequence options (mk_TensorView [maxT, maxU, D] lp) targets T U
           denom dm alpha am beta bm (mk_TensorView [maxT, maxU, D] gp) hm
           (gp + t * (maxU * D) + u * D + d)
         = clip (clamp options)
              (spec_gradient (blank options) targets T U
                 (\<lambda>t u d. hm (lp + t * (maxU * D) + u * D + d))
                 (\<lambda>t u. dm (addr denom [t, u])) (\<lambda>t u. am (addr alpha [t, u]))
                 (\<lambda>t u. bm (addr beta [t, u])) t u d)"
    using m1 by (simp add: a_def F_def CG_def)
  show "gp = lp \<Longrightarrow> 0 \<le> t \<Longrightarrow> t < maxT \<Longrightarrow> T \<le> t \<or> U \<le> u \<Longrightarrow>
         ComputeGradientsOneSequence options (mk_TensorView [maxT, maxU, D] lp) targets T U
           denom dm alpha am beta bm (mk_TensorView [maxT, maxU, D] gp) hm
           (gp + t * (maxU * D) + u * D + d) = 0"
    using m2 by (simp add: a_def CG_def)
  show "gp \<noteq> lp \<Longrightarrow> t < 0 \<or> T \<le> t \<or> U \<le> u \<Longrightarrow>
         ComputeGradientsOneSequence options (mk_TensorView [maxT, maxU, D] lp) targets T U
           denom dm alpha am beta bm (mk_TensorView [maxT, maxU, D] gp) hm
           (gp + t * (maxU * D) + u * D + d) = hm (gp + t * (maxU * D) + u * D + d)"
    using m3 by (simp add: a_def CG_def)
qed

text \<open>
  Claim C3. With \<open>clamp = 0\<close> (and whatever \<open>fusedLogSmax\<close> is: the kernel does not read it),
  for every in-range cell \<open>(t, u)\<close> and every \<open>d\<close> in \<open>[0, D)\<close>, \<open>ComputeGradientsOneSequence\<close>
  leaves in \<open>gradient(t,u,d)\<close> the value of the four-case table of section 4.5,
  \<open>spec_gradient\<close>, computed from the logits as they were before the call, whether the
  gradients share the memory of the logits or lie apart from it.
\<close>

theorem ComputeGradientsOneSequence_four_case_table:
  assumes "clamp options = 0"
    and "0 \<le> t" and "t < T" and "T \<le> maxSrcLen options"
    and "0 \<le> u" and "u < U" and "U \<le> maxTgtLen options"
    and "0 \<le> d" and "d < numTargets options"
    and "gp = lp
         \<or> gp + maxSrcLen options * maxTgtLen options * numTargets options \<le> lp
         \<or> lp + maxSrcLen options * maxTgtLen options * numTargets options \<le> gp"
  shows "ComputeGradientsOneSequence options
           (mk_TensorView [maxSrcLen options, maxTgtLen options, numTargets options] lp)
           targets T U denom dm alpha am beta bm
           (mk_TensorView [maxSrcLen options, maxTgtLen options, numTargets options] gp) hm
           (addr (mk_TensorView [maxSrcLen options, maxTgtLen options, numTargets options] gp)
              [t, u, d])
       = spec_gradient (blank options) targets T U
           (\<lambda>t u d. hm (addr (mk_TensorView [maxSrcLen options, maxTgtLen options,
                                  numTargets options] lp) [t, u, d]))
           (\<lambda>t u. dm (addr denom [t, u])) (\<lambda>t u. am (addr alpha [t, u]))
           (\<lambda>t u. bm (addr beta [t, u])) t u d"
proof -
  have "0 \<le> T" "0 \<le> U" "0 \<le> numTargets options" "u < maxTgtLen options"
    using assms by auto
  then show ?thesis
    using assms
      ComputeGradientsOneSequence_result(1) [where options = options and T = T and U = U
        and maxT = "maxSrcLen options" and maxU = "maxTgtLen options" and D = "numTargets options"
        and gp = gp and lp = lp and t = t and u = u and d = d and hm = hm and targets = targets
        and denom = denom and dm = dm and alpha = alpha and am = am and beta = beta and bm = bm]
    by (simp add: clip_def)
qed

theorem ComputeGradientsOneSequence_four_case_table_witness:
  "ComputeGradientsOneSequence opts0
     (mk_TensorView [maxSrcLen opts0, maxTgtLen opts0, numTargets opts0] 0)
     (\<lambda>u. 1) 1 1 (mk_TensorView [1, 1] 0) (\<lambda>i. ln 2) (mk_TensorView [1, 1] 0) (\<lambda>i. 0)
     (mk_TensorView [1, 1] 0) (\<lambda>i. - ln 2)
     (mk_TensorView [maxSrcLen opts0, maxTgtLen opts0, numTargets opts0] 0) (\<lambda>i. 0)
     (addr (mk_TensorView [maxSrcLen opts0, maxTgtLen opts0, numTargets opts0] 0) [0, 0, 0])
   = - 1 / 2"
proof -
  have h: "clamp opts0 = 0" "(0::int) \<le> 0" "(0::int) < 1" "1 \<le> maxSrcLen opts0"
    "1 \<le> maxTgtLen opts0" "0 < numTargets opts0"
    "(0::int) = 0 \<or> 0 + maxSrcLen opts0 * maxTgtLen opts0 * numTargets opts0 \<le> 0
       \<or> 0 + maxSrcLen opts0 * maxTgtLen opts0 * numTargets opts0 \<le> 0"
    by (simp_all add: opts0_def)
  show ?thesis
    using ComputeGradientsOneSequence_four_case_table [OF h(1) h(2) h(3) h(4) h(2) h(3) h(5) h(2) h(6) h(7),
        where targets = "\<lambda>u. 1" and denom = "mk_TensorView [1, 1] 0" and dm = "\<lambda>i. ln 2"
          and alpha = "mk_TensorView [1, 1] 0" and am = "\<lambda>i. 0"
          and beta = "mk_TensorView [1, 1] 0" and bm = "\<lambda>i. - ln 2" and hm = "\<lambda>i. 0"]
    by (simp add: spec_gradient_def opts0_def exp_minus)
qed

text \<open>
  Claim C8, as the code has it. When the gradients pointer equals the logits pointer, every
  padding cell of the gradients (\<open>t \<ge> T\<close> or \<open>u \<ge> U\<close>, up to \<open>maxT\<close> and \<open>maxU\<close>) is zero
  after the call; when the two buffers lie apart, every padding cell keeps what it held
  before the call (zero or not); in both cases the in-range cells hold the value of the
  gradient table, clipped to \<open>[-clamp, clamp]\<close> when \<open>clamp > 0\<close>.
\<close>

theorem gradient_padding_zero_when_aliased_else_untouched:
  assumes "0 \<le> T" and "T \<le> maxSrcLen options" and "0 \<le> U" and "U \<le> maxTgtLen options"
    and "0 \<le> u" and "u < maxTgtLen options" and "0 \<le> d" and "d < numTargets options"
    and "gp = lp
         \<or> gp + maxSrcLen options * maxTgtLen options * numTargets options \<le> lp
         \<or> lp + maxSrcLen options * maxTgtLen options * numTargets options \<le> gp"
  shows "(gp = lp \<and> 0 \<le> t \<and> t < maxSrcLen options \<and> (T \<le> t \<or> U \<le> u) \<longrightarrow>
            ComputeGradientsOneSequence options
              (mk_TensorView [maxSrcLen options, maxTgtLen options, numTargets options] lp)
              targets T U denom dm alpha am beta bm
              (mk_TensorView [maxSrcLen options, maxTgtLen options, numTargets options] gp) hm
              (addr (mk_TensorView [maxSrcLen options, maxTgtLen options, numTargets options] gp)
                 [t, u, d]) = 0)
       \<and> (gp \<noteq> lp \<and> 0 \<le> t \<and> t < maxSrcLen options \<and> (T \<le> t \<or> U \<le> u) \<longrightarrow>
            ComputeGradientsOneSequence options
              (mk_TensorView [maxSrcLen options, maxTgtLen options, numTargets options] lp)
              targets T U denom dm alpha am beta bm
              (mk_TensorView [maxSrcLen options, maxTgtLen options, numTargets options] gp) hm
              (addr (mk_TensorView [maxSrcLen options, maxTgtLen options, numTargets options] gp)
                 [t, u, d])
            = hm (addr (mk_TensorView [maxSrcLen options, maxTgtLen options, numTargets options] gp)
                 [t, u, d]))
       \<and> (0 \<le> t \<and> t < T \<and> u < U \<longrightarrow>
            ComputeGradientsOneSequence options
              (mk_TensorView [maxSrcLen options, maxTgtLen options, numTargets options] lp)
              targets T U denom dm alpha am beta bm
              (mk_TensorView [maxSrcLen options, maxTgtLen options, numTargets options] gp) hm
              (addr (mk_TensorView [maxSrcLen options, maxTgtLen options, numTargets options] gp)
                 [t, u, d])
            = clip (clamp options)
                (spec_gradient (blank options) targets T U
                   (\<lambda>t u d. hm (addr (mk_TensorView [maxSrcLen options, maxTgtLen options,
                                          numTargets options] lp) [t, u, d]))
                   (\<lambda>t u. dm (addr denom [t, u])) (\<lambda>t u. am (addr alpha [t, u]))
                   (\<lambda>t u. bm (addr beta [t, u])) t u d))"
proof -
  have D: "0 \<le> numTargets options" using assms by auto
  note r = ComputeGradientsOneSequence_result [where options = options and T = T and U = U
        and maxT = "maxSrcLen options" and maxU = "maxTgtLen options" and D = "numTargets options"
        and gp = gp and lp = lp and t = t and u = u and d = d and hm = hm and targets = targets
        and denom = denom and dm = dm and alpha = alpha and am = am and beta = beta and bm = bm,
        OF assms(1-4) D refl refl refl assms(9) assms(5-8)]
  show ?thesis
    using r by simp
qed

theorem gradient_padding_zero_when_aliased_else_untouched_witness:
  "ComputeGradientsOneSequence opts1
     (mk_TensorView [maxSrcLen opts1, maxTgtLen opts1, numTargets opts1] 0)
     (\<lambda>u. 1) 1 1 (mk_TensorView [2, 1] 0) (\<lambda>i. ln 2) (mk_TensorView [2, 1] 0) (\<lambda>i. 0)
     (mk_TensorView [2, 1] 0) (\<lambda>i. - ln 2)
     (mk_TensorView [maxSrcLen opts1, maxTgtLen opts1, numTargets opts1] 0) (\<lambda>i. 7)
     (addr (mk_TensorView [maxSrcLen opts1, maxTgtLen opts1, numTargets opts1] 0) [1, 0, 0])
   = 0
   \<and> ComputeGradientsOneSequence opts1
     (mk_TensorView [maxSrcLen opts1, maxTgtLen opts1, numTargets opts1] 0)
     (\<lambda>u. 1) 1 1 (mk_TensorView [2, 1] 0) (\<lambda>i. ln 2) (mk_TensorView [2, 1] 0) (\<lambda>i. 0)
     (mk_TensorView [2, 1] 0) (\<lambda>i. - ln 2)
     (mk_TensorView [maxSrcLen opts1, maxTgtLen opts1, numTargets opts1] 4) (\<lambda>i. 7)
     (addr (mk_TensorView [maxSrcLen opts1, maxTgtLen opts1, numTargets opts1] 4) [1, 0, 0])
   = 7"
proof -
  have h: "(0::int) \<le> 1" "1 \<le> maxSrcLen opts1" "1 \<le> maxTgtLen opts1" "(0::int) \<le> 0"
    "0 < maxTgtLen opts1" "0 < numTargets opts1"
    "(0::int) = 0 \<or> 0 + maxSrcLen opts1 * maxTgtLen opts1 * numTargets opts1 \<le> 0
       \<or> 0 + maxSrcLen opts1 * maxTgtLen opts1 * numTargets opts1 \<le> 0"
    "(4::int) = 0 \<or> 4 + maxSrcLen opts1 * maxTgtLen opts1 * numTargets opts1 \<le> 0
       \<or> 0 + maxSrcLen opts1 * maxTgtLen opts1 * numTargets opts1 \<le> 4"
    by (simp_all add: opts1_def)
  show ?thesis
    using gradient_padding_zero_when_aliased_else_untouched
        [OF h(1) h(2) h(1) h(3) h(4) h(5) h(4) h(6) h(7),
        where t = 1 and targets = "\<lambda>u. 1" and denom = "mk_TensorView [2, 1] 0" and dm = "\<lambda>i. ln 2"
          and alpha = "mk_TensorView [2, 1] 0" and am = "\<lambda>i. 0"
          and beta = "mk_TensorView [2, 1] 0" and bm = "\<lambda>i. - ln 2" and hm = "\<lambda>i. 7"]
      gradient_padding_zero_when_aliased_else_untouched
        [OF h(1) h(2) h(1) h(3) h(4) h(5) h(4) h(6) h(8),
        where t = 1 and targets = "\<lambda>u. 1" and denom = "mk_TensorView [2, 1] 0" and dm = "\<lambda>i. ln 2"
          and alpha = "mk_TensorView [2, 1] 0" and am = "\<lambda>i. 0"
          and beta = "mk_TensorView [2, 1] 0" and bm = "\<lambda>i. - ln 2" and hm = "\<lambda>i. 7"]
    by (simp add: opts1_def)
qed

text \<open>
  Claim C8 as stated fails in its "only if": with gradients apart from the logits in a
  buffer that holds zeros, the padding cell \<open>(1, 0, 0)\<close> is exactly zero after the call
  although the in-place path was not taken.
\<close>

theorem padding_zero_without_aliasing_counterexample:
  "addr (mk_TensorView [maxSrcLen opts1, maxTgtLen opts1, numTargets opts1] 4) [0, 0, 0]
     \<noteq> addr (mk_TensorView [maxSrcLen opts1, maxTgtLen opts1, numTargets opts1] 0) [0, 0, 0]
   \<and> ComputeGradientsOneSequence opts1
     (mk_TensorView [maxSrcLen opts1, maxTgtLen opts1, numTargets opts1] 0)
     (\<lambda>u. 1) 1 1 (mk_TensorView [2, 1] 0) (\<lambda>i. ln 2) (mk_TensorView [2, 1] 0) (\<lambda>i. 0)
     (mk_TensorView [2, 1] 0) (\<lambda>i. - ln 2)
     (mk_TensorView [maxSrcLen opts1, maxTgtLen opts1, numTargets opts1] 4) (\<lambda>i. 0)
     (addr (mk_TensorView [maxSrcLen opts1, maxTgtLen opts1, numTargets opts1] 4) [1, 0, 0])
   = 0"
proof -
  have "ComputeGradientsOneSequence opts1 (mk_TensorView [2, 1, 2] 0)
     (\<lambda>u. 1) 1 1 (mk_TensorView [2, 1] 0) (\<lambda>i. ln 2) (mk_TensorView [2, 1] 0) (\<lambda>i. 0)
     (mk_TensorView [2, 1] 0) (\<lambda>i. - ln 2) (mk_TensorView [2, 1, 2] 4) (\<lambda>i. 0)
     (4 + 1 * (1 * 2) + 0 * 2 + 0) = (\<lambda>i. 0) (4 + 1 * (1 * 2) + 0 * 2 + (0::int))"
    by (rule ComputeGradientsOneSequence_result(3)) (simp_all add: opts1_def)
  then show ?thesis by (simp add: opts1_def)
qed

section \<open>The gradients of a cell sum to zero\<close>

lemma spec_gradient_sum_zero:
  assumes inv: "invariants_I1_I5 T U D blank' targets logits denom skip' emit' alpha beta"
    and t: "0 \<le> t" "t < T" and u: "0 \<le> u" "u < U"
    and bl: "0 \<le> blank'" "blank' < D"
    and tg: "\<forall>u. 0 \<le> u \<and> u < U - 1 \<longrightarrow> 0 \<le> targets u \<and> targets u < D \<and> targets u \<noteq> blank'"
  shows "(\<Sum>d\<in>{0..<D}. spec_gradient blank' targets T U logits denom alpha beta t u d) = 0"
proof -
  define K where "K = alpha t u + - beta 0 0"
  define c where "c = K - denom t u"
  define B where "B = (if t = T - 1 \<and> u = U - 1 then exp (logits t u blank' + c)
                       else if t < T - 1 then exp (logits t u blank' + c + beta (t + 1) u) else 0)"
  define Tg where "Tg = (if u < U - 1 then exp (logits t u (targets u) + c + beta t (u + 1)) else 0)"
  have ne: "{0..<D} \<noteq> {}" using bl by auto
  have pos: "0 < (\<Sum>d\<in>{0..<D}. exp (logits t u d))"
    by (rule sum_pos) (use ne in auto)
  have "denom t u = ln (\<Sum>d\<in>{0..<D}. exp (logits t u d))"
    using inv t u by (simp add: invariants_I1_I5_def I1_def)
  then have den: "exp (denom t u) = (\<Sum>d\<in>{0..<D}. exp (logits t u d))"
    using pos by simp
  have sk: "logits t u blank' + c = skip' t u + K"
    using inv t u by (simp add: invariants_I1_I5_def I2_def c_def)
  have em: "logits t u (targets u) + c = emit' t u + K" if "u < U - 1"
    using inv t u that by (simp add: invariants_I1_I5_def I3_def c_def)
  have tgu: "0 \<le> targets u \<and> targets u < D \<and> targets u \<noteq> blank'" if "u < U - 1"
    using tg u that by simp
  have point: "spec_gradient blank' targets T U logits denom alpha beta t u d
      = exp (c + beta t u) * exp (logits t u d)
        - ((if d = blank' then B else 0) + (if d = targets u then Tg else 0))" for d
    using tgu
    by (auto simp: spec_gradient_def Let_def B_def Tg_def c_def K_def exp_add [symmetric]
        algebra_simps)
  have "(\<Sum>d\<in>{0..<D}. spec_gradient blank' targets T U logits denom alpha beta t u d)
      = exp (c + beta t u) * exp (denom t u)
        - ((\<Sum>d\<in>{0..<D}. if d = blank' then B else 0)
           + (\<Sum>d\<in>{0..<D}. if d = targets u then Tg else 0))"
    by (simp add: point sum_subtractf sum.distrib sum_distrib_left [symmetric] den)
  also have "(\<Sum>d\<in>{0..<D}. if d = blank' then B else 0) = B"
    using bl by (simp add: sum.delta)
  also have "(\<Sum>d\<in>{0..<D}. if d = targets u then Tg else 0) = Tg"
  proof (cases "u < U - 1")
    case True
    then show ?thesis using tgu by (simp add: sum.delta)
  next
    case False
    then show ?thesis by (simp add: Tg_def)
  qed
  also have "exp (c + beta t u) * exp (denom t u) = exp (K + beta t u)"
    by (simp add: c_def exp_add [symmetric])
  also have "exp (K + beta t u) - (B + Tg) = 0"
  proof -
    have beta: "I4_beta T U skip' emit' beta" using inv by (simp add: invariants_I1_I5_def)
    consider (corner) "t = T - 1" "u = U - 1" | (col) "t < T - 1" "u = U - 1"
      | (row) "t = T - 1" "u < U - 1" | (inner) "t < T - 1" "u < U - 1"
      using t u by linarith
    then show ?thesis
    proof cases
      case corner
      have "beta (T - 1) (U - 1) = skip' (T - 1) (U - 1)" using beta by (simp add: I4_beta_def)
      then have b: "beta t u = skip' t u" unfolding corner [symmetric] .
      have "B = exp (skip' t u + K)" "Tg = 0"
        using corner sk by (simp_all add: B_def Tg_def)
      then show ?thesis by (simp add: b add.commute)
    next
      case col
      have "beta t (U - 1) = beta (t + 1) (U - 1) + skip' t (U - 1)"
        using beta t col by (simp add: I4_beta_def)
      then have b: "beta t u = beta (t + 1) u + skip' t u" unfolding col(2) [symmetric] .
      have "B = exp (skip' t u + K + beta (t + 1) u)" "Tg = 0"
        using col sk by (simp_all add: B_def Tg_def)
      then show ?thesis by (simp add: b algebra_simps)
    next
      case row
      have "beta (T - 1) u = beta (T - 1) (u + 1) + emit' (T - 1) u"
        using beta u row by (simp add: I4_beta_def)
      then have b: "beta t u = beta t (u + 1) + emit' t u" unfolding row(1) [symmetric] .
      have "B = 0" "Tg = exp (emit' t u + K + beta t (u + 1))"
        using row em by (simp_all add: B_def Tg_def)
      then show ?thesis by (simp add: b algebra_simps)
    next
      case inner
      then have "beta t u = math_lse (beta (t + 1) u + skip' t u) (beta t (u + 1) + emit' t u)"
        using beta t u by (simp add: I4_beta_def)
      then have "exp (beta t u) = exp (beta (t + 1) u + skip' t u) + exp (beta t (u + 1) + emit' t u)"
        by (simp add: exp_math_lse)
      then have e: "exp (K + beta t u)
          = exp (skip' t u + K + beta (t + 1) u) + exp (emit' t u + K + beta t (u + 1))"
        by (simp add: exp_add algebra_simps)
      have "B = exp (skip' t u + K + beta (t + 1) u)" "Tg = exp (emit' t u + K + beta t (u + 1))"
        using inner sk em by (simp_all add: B_def Tg_def)
      then show ?thesis by (simp add: e)
    qed
  qed
  finally show ?thesis .
qed

text \<open>
  Claim C4, amended. With \<open>clamp = 0\<close>, a blank index in \<open>[0, D)\<close>, target labels in
  \<open>[0, D)\<close> that are not the blank, and tables that satisfy the invariants I1 to I5 of the
  spec in exact arithmetic, the gradients that \<open>ComputeGradientsOneSequence\<close> writes for an
  in-range cell sum to zero over \<open>d\<close>.
\<close>

theorem gradients_sum_to_zero:
  assumes "clamp options = 0"
    and "0 \<le> t" and "t < T" and "T \<le> maxSrcLen options"
    and "0 \<le> u" and "u < U" and "U \<le> maxTgtLen options"
    and "gp = lp
         \<or> gp + maxSrcLen options * maxTgtLen options * numTargets options \<le> lp
         \<or> lp + maxSrcLen options * maxTgtLen options * numTargets options \<le> gp"
    and "0 \<le> blank options" and "blank options < numTargets options"
    and "\<forall>u. 0 \<le> u \<and> u < U - 1 \<longrightarrow>
           0 \<le> targets u \<and> targets u < numTargets options \<and> targets u \<noteq> blank options"
    and "invariants_I1_I5 T U (numTargets options) (blank options) targets
           (\<lambda>t u d. hm (addr (mk_TensorView [maxSrcLen options, maxTgtLen options,
                                  numTargets options] lp) [t, u, d]))
           (\<lambda>t u. dm (addr denom [t, u])) skip' emit'
           (\<lambda>t u. am (addr alpha [t, u])) (\<lambda>t u. bm (addr beta [t, u]))"
  shows "(\<Sum>d\<in>{0..<numTargets options}.
            ComputeGradientsOneSequence options
              (mk_TensorView [maxSrcLen options, maxTgtLen options, numTargets options] lp)
              targets T U denom dm alpha am beta bm
              (mk_TensorView [maxSrcLen options, maxTgtLen options, numTargets options] gp) hm
              (addr (mk_TensorView [maxSrcLen options, maxTgtLen options, numTargets options] gp)
                 [t, u, d])) = 0"
proof -
  have b: "0 \<le> T" "0 \<le> U" "0 \<le> numTargets options" "u < maxTgtLen options"
    using assms by auto
  have "(\<Sum>d\<in>{0..<numTargets options}.
            ComputeGradientsOneSequence options
              (mk_TensorView [maxSrcLen options, maxTgtLen options, numTargets options] lp)
              targets T U denom dm alpha am beta bm
              (mk_TensorView [maxSrcLen options, maxTgtLen options, numTargets options] gp) hm
              (addr (mk_TensorView [maxSrcLen options, maxTgtLen options, numTargets options] gp)
                 [t, u, d]))
      = (\<Sum>d\<in>{0..<numTargets options}.
            spec_gradient (blank options) targets T U
              (\<lambda>t u d. hm (addr (mk_TensorView [maxSrcLen options, maxTgtLen options,
                                  numTargets options] lp) [t, u, d]))
              (\<lambda>t u. dm (addr denom [t, u])) (\<lambda>t u. am (addr alpha [t, u]))
              (\<lambda>t u. bm (addr beta [t, u])) t u d)"
  proof (rule sum.cong [OF refl])
    fix d assume "d \<in> {0..<numTargets options}"
    then have d: "0 \<le> d" "d < numTargets options" by auto
    show "ComputeGradientsOneSequence options
              (mk_TensorView [maxSrcLen options, maxTgtLen options, numTargets options] lp)
              targets T U denom dm alpha am beta bm
              (mk_TensorView [maxSrcLen options, maxTgtLen options, numTargets options] gp) hm
              (addr (mk_TensorView [maxSrcLen options, maxTgtLen options, numTargets options] gp)
                 [t, u, d])
        = spec_gradient (blank options) targets T U
              (\<lambda>t u d. hm (addr (mk_TensorView [maxSrcLen options, maxTgtLen options,
                                  numTargets options] lp) [t, u, d]))
              (\<lambda>t u. dm (addr denom [t, u])) (\<lambda>t u. am (addr alpha [t, u]))
              (\<lambda>t u. bm (addr beta [t, u])) t u d"
      using assms(1-8) b d
        ComputeGradientsOneSequence_result(1) [where options = options and T = T and U = U
          and maxT = "maxSrcLen options" and maxU = "maxTgtLen options" and D = "numTargets options"
          and gp = gp and lp = lp and t = t and u = u and d = d and hm = hm and targets = targets
          and denom = denom and dm = dm and alpha = alpha and am = am and beta = beta and bm = bm]
      by (simp add: clip_def)
  qed
  also have "\<dots> = 0"
    by (rule spec_gradient_sum_zero [OF assms(12) assms(2,3,5,6,9,10,11)])
  finally show ?thesis .
qed

lemma int_interval_2: "{0..<2::int} = {0, 1}"
  by auto

theorem gradients_sum_to_zero_witness:
  "(\<Sum>d\<in>{0..<numTargets opts0}.
      ComputeGradientsOneSequence opts0
        (mk_TensorView [maxSrcLen opts0, maxTgtLen opts0, numTargets opts0] 0)
        (\<lambda>u. 1) 1 1 (mk_TensorView [1, 1] 0) (\<lambda>i. ln 2) (mk_TensorView [1, 1] 0) (\<lambda>i. 0)
        (mk_TensorView [1, 1] 0) (\<lambda>i. - ln 2)
        (mk_TensorView [maxSrcLen opts0, maxTgtLen opts0, numTargets opts0] 0) (\<lambda>i. 0)
        (addr (mk_TensorView [maxSrcLen opts0, maxTgtLen opts0, numTargets opts0] 0) [0, 0, d]))
   = 0"
proof -
  have h: "clamp opts0 = 0" "(0::int) \<le> 0" "(0::int) < 1" "1 \<le> maxSrcLen opts0"
    "1 \<le> maxTgtLen opts0"
    "(0::int) = 0 \<or> 0 + maxSrcLen opts0 * maxTgtLen opts0 * numTargets opts0 \<le> 0
       \<or> 0 + maxSrcLen opts0 * maxTgtLen opts0 * numTargets opts0 \<le> 0"
    "0 \<le> blank opts0" "blank opts0 < numTargets opts0"
    "\<forall>u. 0 \<le> u \<and> u < 1 - 1 \<longrightarrow>
        0 \<le> (\<lambda>u. 1::int) u \<and> (\<lambda>u. 1::int) u < numTargets opts0 \<and> (\<lambda>u. 1::int) u \<noteq> blank opts0"
    by (simp_all add: opts0_def)
  have inv: "invariants_I1_I5 1 1 (numTargets opts0) (blank opts0) (\<lambda>u. 1)
           (\<lambda>t u d. (\<lambda>i. 0) (addr (mk_TensorView [maxSrcLen opts0, maxTgtLen opts0,
                                  numTargets opts0] 0) [t, u, d]))
           (\<lambda>t u. (\<lambda>i. ln 2) (addr (mk_TensorView [1, 1] 0) [t, u])) (\<lambda>t u. - ln 2) (\<lambda>t u. 0)
           (\<lambda>t u. (\<lambda>i. 0) (addr (mk_TensorView [1, 1] 0) [t, u]))
           (\<lambda>t u. (\<lambda>i. - ln 2) (addr (mk_TensorView [1, 1] 0) [t, u]))"
    by (simp add: invariants_I1_I5_def I1_def I2_def I3_def I4_alpha_def I4_beta_def I5_def
        opts0_def int_interval_2)
  show ?thesis
    by (rule gradients_sum_to_zero [OF h(1) h(2) h(3) h(4) h(2) h(3) h(5) h(6) h(7) h(8) h(9) inv])
qed

lemma math_lse_same: "math_lse a a = a + ln 2"
  by (simp add: math_lse_def)

text \<open>
  Claim C4 as stated fails when a target label is the blank: two frames, one target label
  equal to the blank, two classes and zero logits. The tables satisfy I1 to I5, and the
  gradients of cell \<open>(0, 0)\<close> sum to one half: the blank case of the table takes the blank
  logit, and the emit term is subtracted nowhere.
\<close>

theorem gradients_sum_blank_target_counterexample:
  "fusedLogSmax opts2 \<and> clamp opts2 = 0
   \<and> invariants_I1_I5 2 2 (numTargets opts2) (blank opts2) (\<lambda>u. 0)
        (\<lambda>t u d. (\<lambda>i. 0) (addr (mk_TensorView [maxSrcLen opts2, maxTgtLen opts2,
                                numTargets opts2] 0) [t, u, d]))
        (\<lambda>t u. (\<lambda>i. ln 2) (addr (mk_TensorView [2, 2] 0) [t, u]))
        (\<lambda>t u. - ln 2) (\<lambda>t u. - ln 2)
        (\<lambda>t u. alpha2 (addr (mk_TensorView [2, 2] 0) [t, u]))
        (\<lambda>t u. beta2 (addr (mk_TensorView [2, 2] 0) [t, u]))
   \<and> (\<Sum>d\<in>{0..<numTargets opts2}.
        ComputeGradientsOneSequence opts2
          (mk_TensorView [maxSrcLen opts2, maxTgtLen opts2, numTargets opts2] 0)
          (\<lambda>u. 0) 2 2 (mk_TensorView [2, 2] 0) (\<lambda>i. ln 2) (mk_TensorView [2, 2] 0) alpha2
          (mk_TensorView [2, 2] 0) beta2
          (mk_TensorView [maxSrcLen opts2, maxTgtLen opts2, numTargets opts2] 0) (\<lambda>i. 0)
          (addr (mk_TensorView [maxSrcLen opts2, maxTgtLen opts2, numTargets opts2] 0) [0, 0, d]))
     = 1 / 2"
proof -
  have one: "t = 1" if "1 \<le> t" "t < 2" for t :: int using that by simp
  have zero: "t = 0" if "0 \<le> t" "t < 1" for t :: int using that by simp
  have i1: "I1 2 2 2 (\<lambda>t u d. 0) (\<lambda>t u. ln 2)"
    by (simp add: I1_def int_interval_2)
  have i2: "I2 2 2 0 (\<lambda>t u d. 0) (\<lambda>t u. ln 2) (\<lambda>t u. - ln 2)"
    by (simp add: I2_def)
  have i3: "I3 2 2 (\<lambda>u. 0) (\<lambda>t u d. 0) (\<lambda>t u. ln 2) (\<lambda>t u. - ln 2)"
    by (simp add: I3_def)
  have i4a: "I4_alpha 2 2 (\<lambda>t u. - ln 2) (\<lambda>t u. - ln 2) (\<lambda>t u. alpha2 (0 + t * 2 + u))"
    unfolding I4_alpha_def
    by (auto dest!: one simp: alpha2_def math_lse_same)
  have i4b: "I4_beta 2 2 (\<lambda>t u. - ln 2) (\<lambda>t u. - ln 2) (\<lambda>t u. beta2 (0 + t * 2 + u))"
    unfolding I4_beta_def
    by (auto dest!: zero simp: beta2_def math_lse_same)
  have i5: "I5 2 2 (\<lambda>t u. - ln 2) (\<lambda>t u. alpha2 (0 + t * 2 + u)) (\<lambda>t u. beta2 (0 + t * 2 + u))"
    by (simp add: I5_def alpha2_def beta2_def)
  have inv: "invariants_I1_I5 2 2 (numTargets opts2) (blank opts2) (\<lambda>u. 0)
        (\<lambda>t u d. (\<lambda>i. 0) (addr (mk_TensorView [maxSrcLen opts2, maxTgtLen opts2,
                                numTargets opts2] 0) [t, u, d]))
        (\<lambda>t u. (\<lambda>i. ln 2) (addr (mk_TensorView [2, 2] 0) [t, u]))
        (\<lambda>t u. - ln 2) (\<lambda>t u. - ln 2)
        (\<lambda>t u. alpha2 (addr (mk_TensorView [2, 2] 0) [t, u]))
        (\<lambda>t u. beta2 (addr (mk_TensorView [2, 2] 0) [t, u]))"
    using i1 i2 i3 i4a i4b i5 by (simp add: invariants_I1_I5_def opts2_def)
  have g: "ComputeGradientsOneSequence opts2 (mk_TensorView [2, 2, 2] 0)
          (\<lambda>u. 0) 2 2 (mk_TensorView [2, 2] 0) (\<lambda>i. ln 2) (mk_TensorView [2, 2] 0) alpha2
          (mk_TensorView [2, 2] 0) beta2 (mk_TensorView [2, 2, 2] 0) (\<lambda>i. 0)
          (0 + 0 * (2 * 2) + 0 * 2 + d)
        = clip (clamp opts2)
            (spec_gradient (blank opts2) (\<lambda>u. 0) 2 2 (\<lambda>t u d. (\<lambda>i. 0) (0 + t * (2 * 2) + u * 2 + d))
               (\<lambda>t u. (\<lambda>i. ln 2) (addr (mk_TensorView [2, 2] 0) [t, u]))
               (\<lambda>t u. alpha2 (addr (mk_TensorView [2, 2] 0) [t, u]))
               (\<lambda>t u. beta2 (addr (mk_TensorView [2, 2] 0) [t, u])) 0 0 d)"
    if "0 \<le> d" "d < 2" for d
    by (rule ComputeGradientsOneSequence_result(1)) (use that in \<open>simp_all add: opts2_def\<close>)
  have "(\<Sum>d\<in>{0..<numTargets opts2}.
        ComputeGradientsOneSequence opts2
          (mk_TensorView [maxSrcLen opts2, maxTgtLen opts2, numTargets opts2] 0)
          (\<lambda>u. 0) 2 2 (mk_TensorView [2, 2] 0) (\<lambda>i. ln 2) (mk_TensorView [2, 2] 0) alpha2
          (mk_TensorView [2, 2] 0) beta2
          (mk_TensorView [maxSrcLen opts2, maxTgtLen opts2, numTargets opts2] 0) (\<lambda>i. 0)
          (addr (mk_TensorView [maxSrcLen opts2, maxTgtLen opts2, numTargets opts2] 0) [0, 0, d]))
     = 1 / 2"
    using g [of 0] g [of 1]
    by (simp add: opts2_def int_interval_2 clip_def spec_gradient_def alpha2_def beta2_def
        exp_minus exp_diff)
  then show ?thesis using inv by (simp add: opts2_def)
qed

section \<open>The restricted recurrences\<close>

lemma for_loop_break_frame:
  assumes "\<And>j s s'. i \<le> j \<Longrightarrow> j < n \<Longrightarrow> body j s = Some s' \<Longrightarrow> s' x = s x"
  shows "for_loop_break i n body s x = s x"
  using assms
proof (induction i n body s rule: for_loop_break.induct)
  case (1 i n body s)
  show ?case
  proof (cases "i < n")
    case True
    show ?thesis
    proof (cases "body i s")
      case None
      then show ?thesis using True by (subst for_loop_break.simps) simp
    next
      case (Some s')
      have "for_loop_break (i + 1) n body s' x = s' x"
      proof (rule 1(1) [OF True Some])
        fix j s s'' assume "i + 1 \<le> j" "j < n" "body j s = Some s''"
        then show "s'' x = s x" using 1(2) [of j s s''] by simp
      qed
      moreover have "s' x = s x" using 1(2) [of i s s'] True Some by simp
      ultimately show ?thesis using True Some by (subst for_loop_break.simps) simp
    qed
  next
    case False
    then show ?thesis by (subst for_loop_break.simps) simp
  qed
qed

lemma for_down_break_frame:
  assumes "\<And>j s s'. lo \<le> j \<Longrightarrow> j \<le> i \<Longrightarrow> body j s = Some s' \<Longrightarrow> s' x = s x"
  shows "for_down_break i lo body s x = s x"
  using assms
proof (induction i lo body s rule: for_down_break.induct)
  case (1 i lo body s)
  show ?case
  proof (cases "lo \<le> i")
    case True
    show ?thesis
    proof (cases "body i s")
      case None
      then show ?thesis using True by (subst for_down_break.simps) simp
    next
      case (Some s')
      have "for_down_break (i - 1) lo body s' x = s' x"
      proof (rule 1(1) [OF True Some])
        fix j s s'' assume "lo \<le> j" "j \<le> i - 1" "body j s = Some s''"
        then show "s'' x = s x" using 1(2) [of j s s''] by simp
      qed
      moreover have "s' x = s x" using 1(2) [of i s s'] True Some by simp
      ultimately show ?thesis using True Some by (subst for_down_break.simps) simp
    qed
  next
    case False
    then show ?thesis by (subst for_down_break.simps) simp
  qed
qed

lemma init_loops:
  "for_loop t0 t1 (\<lambda>t. for_loop u0 u1 (\<lambda>u am. am(a t u := c))) s
   = (\<lambda>x. if x \<in> (\<Union>t\<in>{t0..<t1}. \<Union>u\<in>{u0..<u1}. {a t u}) then c else s x)"
proof (rule for_loop_writes_any)
  fix t s
  show "for_loop u0 u1 (\<lambda>u am. am(a t u := c)) s
        = (\<lambda>x. if x \<in> (\<Union>u\<in>{u0..<u1}. {a t u}) then c else s x)"
    by (rule for_loop_writes_any) (auto simp: fun_eq_iff)
qed

lemma init_loops_cell:
  assumes "t0 \<le> t" "t < t1" "u0 \<le> u" "u < u1"
  shows "for_loop t0 t1 (\<lambda>t. for_loop u0 u1 (\<lambda>u am. am(a t u := c))) s (a t u) = c"
proof -
  have "a t u \<in> (\<Union>t\<in>{t0..<t1}. \<Union>u\<in>{u0..<u1}. {a t u})"
    using assms by (intro UN_I [of t] UN_I [of u]) auto
  then show ?thesis by (simp add: init_loops del: UN_iff)
qed

lemma alpha_restricted_cell_frame:
  "x \<noteq> addr alpha [t, u] \<Longrightarrow>
   alpha_restricted_cell check lse ninf logProbs pm alpha t u am x = am x"
  by (simp add: alpha_restricted_cell_def Let_def)

lemma alpha_restricted_cell_rejected:
  "\<not> alphaBlankTransition check t u \<Longrightarrow> \<not> alphaEmitTransition check t u \<Longrightarrow>
   alpha_restricted_cell check lse ninf logProbs pm alpha t u am = am"
  by (simp add: alpha_restricted_cell_def Let_def)

lemma beta_restricted_cell_frame:
  "x \<noteq> addr beta [t, u] \<Longrightarrow>
   beta_restricted_cell check lse ninf logProbs pm beta t u bm x = bm x"
  by (simp add: beta_restricted_cell_def Let_def)

lemma beta_restricted_cell_rejected:
  "\<not> betaBlankTransition check t u \<Longrightarrow> \<not> betaEmitTransition check t u \<Longrightarrow>
   beta_restricted_cell check lse ninf logProbs pm beta t u bm = bm"
  by (simp add: beta_restricted_cell_def Let_def)

lemma ComputeAlphaOneSequenceRestricted_untouched:
  fixes pm :: "('a::{zero,plus}) LogProbs mem"
  assumes U: "U \<le> maxU" and cell: "0 \<le> t" "t < T" "0 \<le> u" "u < U" and ne: "t \<noteq> 0 \<or> u \<noteq> 0"
    and rej: "(\<not> alphaBlankTransition (mk_check wpEnds T U (lBuffer options) (rBuffer options)) t u
               \<and> \<not> alphaEmitTransition (mk_check wpEnds T U (lBuffer options) (rBuffer options)) t u)
              \<or> (1 \<le> t \<and> 1 \<le> u
                  \<and> \<not> (fst (validTimeRanges (mk_check wpEnds T U (lBuffer options) (rBuffer options)) u) \<le> t
                        \<and> t \<le> snd (validTimeRanges (mk_check wpEnds T U (lBuffer options) (rBuffer options)) u)))"
  shows "snd (ComputeAlphaOneSequenceRestricted mk_check lse ninf options logProbs pm T U
                (mk_TensorView [maxT, maxU] p) am wpEnds) (p + t * maxU + u) = ninf"
proof -
  define check where "check = mk_check wpEnds T U (lBuffer options) (rBuffer options)"
  define v where "v = mk_TensorView [maxT, maxU] p"
  define x where "x = p + t * maxU + u"
  have a: "addr v [t', u'] = p + t' * maxU + u'" for t' u' by (simp add: v_def)
  have um: "0 \<le> u" "u < maxU" using cell U by auto
  have same: "t' = t \<and> u' = u" if "addr v [t', u'] = x" "0 \<le> u'" "u' < U" for t' u'
    using cell_inj [of u' maxU u p t' t] that um U by (simp add: a x_def)
  define am0 where "am0 = for_loop 0 T (\<lambda>t. for_loop 0 U (\<lambda>u am. am(addr v [t, u] := ninf))) am"
  define am1 where "am1 = am0(addr v [0, 0] := 0)"
  define am2 where "am2 = for_loop_break 1 T (\<lambda>t am.
                  if \<not> alphaBlankTransition check t 0 then None
                  else Some (am(addr v [t, 0] :=
                       am (addr v [t - 1, 0]) + skip (pm (addr logProbs [t - 1, 0]))))) am1"
  define am3 where "am3 = for_loop_break 1 U (\<lambda>u am.
                  if \<not> alphaEmitTransition check 0 u then None
                  else Some (am(addr v [0, u] :=
                       am (addr v [0, u - 1]) + emit (pm (addr logProbs [0, u - 1]))))) am2"
  define am4 where "am4 = for_loop 1 U (\<lambda>u am.
                  let (start_t, end_t) = validTimeRanges check u
                  in for_loop start_t (end_t + 1) (\<lambda>t.
                       alpha_restricted_cell check lse ninf logProbs pm v t u) am) am3"
  have res: "snd (ComputeAlphaOneSequenceRestricted mk_check lse ninf options logProbs pm T U
                v am wpEnds) = am4"
    unfolding ComputeAlphaOneSequenceRestricted_def Let_def am4_def am3_def am2_def am1_def am0_def
      check_def snd_conv by (rule refl)
  have rej': "(\<not> alphaBlankTransition check t u \<and> \<not> alphaEmitTransition check t u)
              \<or> (1 \<le> t \<and> 1 \<le> u
                  \<and> \<not> (fst (validTimeRanges check u) \<le> t \<and> t \<le> snd (validTimeRanges check u)))"
    using rej by (simp add: check_def)
  have "am0 x = ninf"
    unfolding am0_def x_def a [symmetric] using cell by (intro init_loops_cell) auto
  moreover have "am1 x = am0 x"
    using same [of 0 0] ne cell by (auto simp: am1_def)
  moreover have "am2 x = am1 x"
    unfolding am2_def
  proof (rule for_loop_break_frame)
    fix j s s' assume j: "1 \<le> j" "j < T"
      and b: "(if \<not> alphaBlankTransition check j 0 then None
               else Some (s(addr v [j, 0] :=
                       s (addr v [j - 1, 0]) + skip (pm (addr logProbs [j - 1, 0])))))
              = Some s'"
    have "addr v [j, 0] \<noteq> x"
    proof
      assume "addr v [j, 0] = x"
      then have "j = t \<and> 0 = u" using same [of j 0] cell by auto
      then show False using b rej' by (auto split: if_splits)
    qed
    then show "s' x = s x" using b by (auto split: if_splits)
  qed
  moreover have "am3 x = am2 x"
    unfolding am3_def
  proof (rule for_loop_break_frame)
    fix j s s' assume j: "1 \<le> j" "j < U"
      and b: "(if \<not> alphaEmitTransition check 0 j then None
               else Some (s(addr v [0, j] :=
                       s (addr v [0, j - 1]) + emit (pm (addr logProbs [0, j - 1])))))
              = Some s'"
    have "addr v [0, j] \<noteq> x"
    proof
      assume "addr v [0, j] = x"
      then have "0 = t \<and> j = u" using same [of 0 j] j by auto
      then show False using b rej' by (auto split: if_splits)
    qed
    then show "s' x = s x" using b by (auto split: if_splits)
  qed
  moreover have "am4 x = am3 x"
    unfolding am4_def
  proof (rule for_loop_frame)
    fix j s assume j: "1 \<le> j" "j < U"
    obtain st en where vt: "validTimeRanges check j = (st, en)" by (cases "validTimeRanges check j")
    have "for_loop st (en + 1) (\<lambda>t. alpha_restricted_cell check lse ninf logProbs pm v t j) s x = s x"
    proof (rule for_loop_frame)
      fix k s' assume k: "st \<le> k" "k < en + 1"
      show "alpha_restricted_cell check lse ninf logProbs pm v k j s' x = s' x"
      proof (cases "addr v [k, j] = x")
        case True
        then have kj: "k = t" "j = u" using same [of k j] j by auto
        then have "\<not> alphaBlankTransition check k j \<and> \<not> alphaEmitTransition check k j"
          using rej' k vt by auto
        then show ?thesis by (simp add: alpha_restricted_cell_rejected)
      next
        case False
        then show ?thesis by (simp add: alpha_restricted_cell_frame)
      qed
    qed
    then show "(let (start_t, end_t) = validTimeRanges check j
                in for_loop start_t (end_t + 1) (\<lambda>t.
                       alpha_restricted_cell check lse ninf logProbs pm v t j) s) x = s x"
      by (simp add: vt)
  qed
  ultimately show ?thesis
    using res by (simp add: x_def v_def)
qed

lemma ComputeBetaOneSequenceRestricted_untouched:
  fixes pm :: "('a::{zero,plus}) LogProbs mem"
  assumes U: "U \<le> maxU" and cell: "0 \<le> t" "t < T" "0 \<le> u" "u < U"
    and ne: "t \<noteq> T - 1 \<or> u \<noteq> U - 1"
    and rej: "(\<not> betaBlankTransition (mk_check wpEnds T U (lBuffer options) (rBuffer options)) t u
               \<and> \<not> betaEmitTransition (mk_check wpEnds T U (lBuffer options) (rBuffer options)) t u)
              \<or> (t \<le> T - 2 \<and> u \<le> U - 2
                  \<and> \<not> (fst (validTimeRanges (mk_check wpEnds T U (lBuffer options) (rBuffer options)) u) \<le> t
                        \<and> t \<le> snd (validTimeRanges (mk_check wpEnds T U (lBuffer options) (rBuffer options)) u)))"
  shows "snd (ComputeBetaOneSequenceRestricted mk_check lse ninf options logProbs pm T U
                (mk_TensorView [maxT, maxU] p) bm wpEnds) (p + t * maxU + u) = ninf"
proof -
  define check where "check = mk_check wpEnds T U (lBuffer options) (rBuffer options)"
  define v where "v = mk_TensorView [maxT, maxU] p"
  define x where "x = p + t * maxU + u"
  have a: "addr v [t', u'] = p + t' * maxU + u'" for t' u' by (simp add: v_def)
  have um: "0 \<le> u" "u < maxU" using cell U by auto
  have same: "t' = t \<and> u' = u" if "addr v [t', u'] = x" "0 \<le> u'" "u' < U" for t' u'
    using cell_inj [of u' maxU u p t' t] that um U by (simp add: a x_def)
  define bm0 where "bm0 = for_loop 0 T (\<lambda>t. for_loop 0 U (\<lambda>u bm. bm(addr v [t, u] := ninf))) bm"
  define bm1 where "bm1 = bm0(addr v [T - 1, U - 1] := skip (pm (addr logProbs [T - 1, U - 1])))"
  define bm2 where "bm2 = for_down_break (T - 2) 0 (\<lambda>t bm.
                  if \<not> betaBlankTransition check t (U - 1) then None
                  else Some (bm(addr v [t, U - 1] :=
                       bm (addr v [t + 1, U - 1]) + skip (pm (addr logProbs [t, U - 1]))))) bm1"
  define bm3 where "bm3 = for_down_break (U - 2) 0 (\<lambda>u bm.
                  if \<not> betaEmitTransition check (T - 1) u then None
                  else Some (bm(addr v [T - 1, u] :=
                       bm (addr v [T - 1, u + 1]) + emit (pm (addr logProbs [T - 1, u]))))) bm2"
  define bm4 where "bm4 = for_down (U - 2) 0 (\<lambda>u bm.
                  let (start_t, end_t) = validTimeRanges check u
                  in for_down end_t start_t (\<lambda>t.
                       beta_restricted_cell check lse ninf logProbs pm v t u) bm) bm3"
  have res: "snd (ComputeBetaOneSequenceRestricted mk_check lse ninf options logProbs pm T U
                v bm wpEnds) = bm4"
    unfolding ComputeBetaOneSequenceRestricted_def Let_def bm4_def bm3_def bm2_def bm1_def bm0_def
      check_def snd_conv by (rule refl)
  have rej': "(\<not> betaBlankTransition check t u \<and> \<not> betaEmitTransition check t u)
              \<or> (t \<le> T - 2 \<and> u \<le> U - 2
                  \<and> \<not> (fst (validTimeRanges check u) \<le> t \<and> t \<le> snd (validTimeRanges check u)))"
    using rej by (simp add: check_def)
  have "bm0 x = ninf"
    unfolding bm0_def x_def a [symmetric] using cell by (intro init_loops_cell) auto
  moreover have "bm1 x = bm0 x"
    using same [of "T - 1" "U - 1"] ne cell by (auto simp: bm1_def)
  moreover have "bm2 x = bm1 x"
    unfolding bm2_def
  proof (rule for_down_break_frame)
    fix j s s' assume j: "0 \<le> j" "j \<le> T - 2"
      and b: "(if \<not> betaBlankTransition check j (U - 1) then None
               else Some (s(addr v [j, U - 1] :=
                       s (addr v [j + 1, U - 1]) + skip (pm (addr logProbs [j, U - 1])))))
              = Some s'"
    have "addr v [j, U - 1] \<noteq> x"
    proof
      assume "addr v [j, U - 1] = x"
      then have "j = t \<and> U - 1 = u" using same [of j "U - 1"] cell by auto
      then show False using b rej' by (auto split: if_splits)
    qed
    then show "s' x = s x" using b by (auto split: if_splits)
  qed
  moreover have "bm3 x = bm2 x"
    unfolding bm3_def
  proof (rule for_down_break_frame)
    fix j s s' assume j: "0 \<le> j" "j \<le> U - 2"
      and b: "(if \<not> betaEmitTransition check (T - 1) j then None
               else Some (s(addr v [T - 1, j] :=
                       s (addr v [T - 1, j + 1]) + emit (pm (addr logProbs [T - 1, j])))))
              = Some s'"
    have "addr v [T - 1, j] \<noteq> x"
    proof
      assume "addr v [T - 1, j] = x"
      then have "T - 1 = t \<and> j = u" using same [of "T - 1" j] j by auto
      then show False using b rej' by (auto split: if_splits)
    qed
    then show "s' x = s x" using b by (auto split: if_splits)
  qed
  moreover have "bm4 x = bm3 x"
    unfolding bm4_def
  proof (rule for_down_frame)
    fix j s assume j: "0 \<le> j" "j \<le> U - 2"
    obtain st en where vt: "validTimeRanges check j = (st, en)" by (cases "validTimeRanges check j")
    have "for_down en st (\<lambda>t. beta_restricted_cell check lse ninf logProbs pm v t j) s x = s x"
    proof (rule for_down_frame)
      fix k s' assume k: "st \<le> k" "k \<le> en"
      show "beta_restricted_cell check lse ninf logProbs pm v k j s' x = s' x"
      proof (cases "addr v [k, j] = x")
        case True
        then have kj: "k = t" "j = u" using same [of k j] j by auto
        then have "\<not> betaBlankTransition check k j \<and> \<not> betaEmitTransition check k j"
          using rej' k vt by auto
        then show ?thesis by (simp add: beta_restricted_cell_rejected)
      next
        case False
        then show ?thesis by (simp add: beta_restricted_cell_frame)
      qed
    qed
    then show "(let (start_t, end_t) = validTimeRanges check j
                in for_down end_t start_t (\<lambda>t.
                       beta_restricted_cell check lse ninf logProbs pm v t j) s) x = s x"
      by (simp add: vt)
  qed
  ultimately show ?thesis
    using res by (simp add: x_def v_def)
qed

lemma alpha_restricted_cell_assigned:
  assumes "alpha_restricted_cell check lse ninf logProbs pm alpha t u am \<noteq> am"
  shows "(alphaBlankTransition check t u
            \<and> am (addr alpha [t - 1, u]) + skip (pm (addr logProbs [t - 1, u])) \<noteq> ninf)
         \<or> (alphaEmitTransition check t u
            \<and> am (addr alpha [t, u - 1]) + emit (pm (addr logProbs [t, u - 1])) \<noteq> ninf)"
  using assms by (auto simp: alpha_restricted_cell_def Let_def split: if_splits)

lemma beta_restricted_cell_assigned:
  assumes "beta_restricted_cell check lse ninf logProbs pm beta t u bm \<noteq> bm"
  shows "(betaBlankTransition check t u
            \<and> bm (addr beta [t + 1, u]) + skip (pm (addr logProbs [t, u])) \<noteq> ninf)
         \<or> (betaEmitTransition check t u
            \<and> bm (addr beta [t, u + 1]) + emit (pm (addr logProbs [t, u])) \<noteq> ninf)"
  using assms by (auto simp: beta_restricted_cell_def Let_def split: if_splits)

text \<open>
  Claim C7. For every check (every assignment of the four predicates and of the time
  ranges), every element type and every \<open>lse\<close>: after \<open>ComputeAlphaOneSequenceRestricted\<close>
  a lattice cell other than \<open>alpha(0,0)\<close> holds \<open>-INFINITY\<close> when the check accepts no
  transition into it, and also when it is an interior cell outside the valid time range of
  its column; after \<open>ComputeBetaOneSequenceRestricted\<close> the same holds of a lattice cell
  other than \<open>beta(T-1,U-1)\<close> and of the transitions out of it. The update of an interior
  cell changes the buffer only if an accepted transition contributes a term that is not
  \<open>-INFINITY\<close>. (The boundary loops assign the term of their only transition itself.)
\<close>

theorem restricted_cells_outside_allowed_region:
  fixes pm :: "('a::{zero,plus}) LogProbs mem"
  assumes "U \<le> maxU" and "0 \<le> t" and "t < T" and "0 \<le> u" and "u < U"
  shows "((t \<noteq> 0 \<or> u \<noteq> 0)
          \<and> \<not> alphaBlankTransition (mk_check wpEnds T U (lBuffer options) (rBuffer options)) t u
          \<and> \<not> alphaEmitTransition (mk_check wpEnds T U (lBuffer options) (rBuffer options)) t u \<longrightarrow>
          snd (ComputeAlphaOneSequenceRestricted mk_check lse ninf options logProbs pm T U
                 (mk_TensorView [maxT, maxU] p) am wpEnds)
            (addr (mk_TensorView [maxT, maxU] p) [t, u]) = ninf)
       \<and> (1 \<le> t \<and> 1 \<le> u
          \<and> \<not> (fst (validTimeRanges (mk_check wpEnds T U (lBuffer options) (rBuffer options)) u) \<le> t
                \<and> t \<le> snd (validTimeRanges (mk_check wpEnds T U (lBuffer options) (rBuffer options)) u)) \<longrightarrow>
          snd (ComputeAlphaOneSequenceRestricted mk_check lse ninf options logProbs pm T U
                 (mk_TensorView [maxT, maxU] p) am wpEnds)
            (addr (mk_TensorView [maxT, maxU] p) [t, u]) = ninf)
       \<and> ((t \<noteq> T - 1 \<or> u \<noteq> U - 1)
          \<and> \<not> betaBlankTransition (mk_check wpEnds T U (lBuffer options) (rBuffer options)) t u
          \<and> \<not> betaEmitTransition (mk_check wpEnds T U (lBuffer options) (rBuffer options)) t u \<longrightarrow>
          snd (ComputeBetaOneSequenceRestricted mk_check lse ninf options logProbs pm T U
                 (mk_TensorView [maxT, maxU] p) bm wpEnds)
            (addr (mk_TensorView [maxT, maxU] p) [t, u]) = ninf)
       \<and> (t \<le> T - 2 \<and> u \<le> U - 2
          \<and> \<not> (fst (validTimeRanges (mk_check wpEnds T U (lBuffer options) (rBuffer options)) u) \<le> t
                \<and> t \<le> snd (validTimeRanges (mk_check wpEnds T U (lBuffer options) (rBuffer options)) u)) \<longrightarrow>
          snd (ComputeBetaOneSequenceRestricted mk_check lse ninf options logProbs pm T U
                 (mk_TensorView [maxT, maxU] p) bm wpEnds)
            (addr (mk_TensorView [maxT, maxU] p) [t, u]) = ninf)
       \<and> (alpha_restricted_cell check lse ninf logProbs pm alpha t' u' am' \<noteq> am' \<longrightarrow>
            (alphaBlankTransition check t' u'
               \<and> am' (addr alpha [t' - 1, u']) + skip (pm (addr logProbs [t' - 1, u'])) \<noteq> ninf)
            \<or> (alphaEmitTransition check t' u'
               \<and> am' (addr alpha [t', u' - 1]) + emit (pm (addr logProbs [t', u' - 1])) \<noteq> ninf))
       \<and> (beta_restricted_cell check lse ninf logProbs pm beta t' u' bm' \<noteq> bm' \<longrightarrow>
            (betaBlankTransition check t' u'
               \<and> bm' (addr beta [t' + 1, u']) + skip (pm (addr logProbs [t', u'])) \<noteq> ninf)
            \<or> (betaEmitTransition check t' u'
               \<and> bm' (addr beta [t', u' + 1]) + emit (pm (addr logProbs [t', u'])) \<noteq> ninf))"
proof (intro conjI impI)
  assume "(t \<noteq> 0 \<or> u \<noteq> 0)
          \<and> \<not> alphaBlankTransition (mk_check wpEnds T U (lBuffer options) (rBuffer options)) t u
          \<and> \<not> alphaEmitTransition (mk_check wpEnds T U (lBuffer options) (rBuffer options)) t u"
  then show "snd (ComputeAlphaOneSequenceRestricted mk_check lse ninf options logProbs pm T U
                 (mk_TensorView [maxT, maxU] p) am wpEnds)
            (addr (mk_TensorView [maxT, maxU] p) [t, u]) = ninf"
    using ComputeAlphaOneSequenceRestricted_untouched [OF assms, of mk_check wpEnds options lse ninf
        logProbs pm maxT p am]
    by simp
next
  assume "1 \<le> t \<and> 1 \<le> u
          \<and> \<not> (fst (validTimeRanges (mk_check wpEnds T U (lBuffer options) (rBuffer options)) u) \<le> t
                \<and> t \<le> snd (validTimeRanges (mk_check wpEnds T U (lBuffer options) (rBuffer options)) u))"
  then show "snd (ComputeAlphaOneSequenceRestricted mk_check lse ninf options logProbs pm T U
                 (mk_TensorView [maxT, maxU] p) am wpEnds)
            (addr (mk_TensorView [maxT, maxU] p) [t, u]) = ninf"
    using ComputeAlphaOneSequenceRestricted_untouched [OF assms, of mk_check wpEnds options lse ninf
        logProbs pm maxT p am]
    by simp
next
  assume "(t \<noteq> T - 1 \<or> u \<noteq> U - 1)
          \<and> \<not> betaBlankTransition (mk_check wpEnds T U (lBuffer options) (rBuffer options)) t u
          \<and> \<not> betaEmitTransition (mk_check wpEnds T U (lBuffer options) (rBuffer options)) t u"
  then show "snd (ComputeBetaOneSequenceRestricted mk_check lse ninf options logProbs pm T U
                 (mk_TensorView [maxT, maxU] p) bm wpEnds)
            (addr (mk_TensorView [maxT, maxU] p) [t, u]) = ninf"
    using ComputeBetaOneSequenceRestricted_untouched [OF assms, of mk_check wpEnds options lse ninf
        logProbs pm maxT p bm]
    by simp
next
  assume "t \<le> T - 2 \<and> u \<le> U - 2
          \<and> \<not> (fst (validTimeRanges (mk_check wpEnds T U (lBuffer options) (rBuffer options)) u) \<le> t
                \<and> t \<le> snd (validTimeRanges (mk_check wpEnds T U (lBuffer options) (rBuffer options)) u))"
  then show "snd (ComputeBetaOneSequenceRestricted mk_check lse ninf options logProbs pm T U
                 (mk_TensorView [maxT, maxU] p) bm wpEnds)
            (addr (mk_TensorView [maxT, maxU] p) [t, u]) = ninf"
    using ComputeBetaOneSequenceRestricted_untouched [OF assms, of mk_check wpEnds options lse ninf
        logProbs pm maxT p bm]
    by simp
next
  assume "alpha_restricted_cell check lse ninf logProbs pm alpha t' u' am' \<noteq> am'"
  then show "(alphaBlankTransition check t' u'
               \<and> am' (addr alpha [t' - 1, u']) + skip (pm (addr logProbs [t' - 1, u'])) \<noteq> ninf)
            \<or> (alphaEmitTransition check t' u'
               \<and> am' (addr alpha [t', u' - 1]) + emit (pm (addr logProbs [t', u' - 1])) \<noteq> ninf)"
    by (rule alpha_restricted_cell_assigned)
next
  assume "beta_restricted_cell check lse ninf logProbs pm beta t' u' bm' \<noteq> bm'"
  then show "(betaBlankTransition check t' u'
               \<and> bm' (addr beta [t' + 1, u']) + skip (pm (addr logProbs [t', u'])) \<noteq> ninf)
            \<or> (betaEmitTransition check t' u'
               \<and> bm' (addr beta [t', u' + 1]) + emit (pm (addr logProbs [t', u'])) \<noteq> ninf)"
    by (rule beta_restricted_cell_assigned)
qed

theorem restricted_cells_outside_allowed_region_witness:
  "snd (ComputeAlphaOneSequenceRestricted window_check xlse NegInf opts2 (mk_TensorView [2, 2] 0)
          xpm0 2 2 (mk_TensorView [2, 2] 0) (\<lambda>i. Fin 5) (\<lambda>u. u))
     (addr (mk_TensorView [2, 2] 0) [0, 1]) = NegInf
   \<and> snd (ComputeBetaOneSequenceRestricted window_check xlse NegInf opts2 (mk_TensorView [2, 2] 0)
          xpm0 2 2 (mk_TensorView [2, 2] 0) (\<lambda>i. Fin 5) (\<lambda>u. u))
     (addr (mk_TensorView [2, 2] 0) [0, 1]) = NegInf"
proof -
  have h: "(2::int) \<le> 2" "(0::int) \<le> 0" "(0::int) < 2" "(0::int) \<le> 1" "(1::int) < 2"
    by simp_all
  have r: "\<not> alphaBlankTransition (window_check (\<lambda>u. u) 2 2 (lBuffer opts2) (rBuffer opts2)) 0 1"
    "\<not> alphaEmitTransition (window_check (\<lambda>u. u) 2 2 (lBuffer opts2) (rBuffer opts2)) 0 1"
    "\<not> betaBlankTransition (window_check (\<lambda>u. u) 2 2 (lBuffer opts2) (rBuffer opts2)) 0 1"
    "\<not> betaEmitTransition (window_check (\<lambda>u. u) 2 2 (lBuffer opts2) (rBuffer opts2)) 0 1"
    by (simp_all add: window_check_def opts2_def)
  show ?thesis
    using r restricted_cells_outside_allowed_region [OF h(1) h(2) h(3) h(4) h(5),
        where mk_check = window_check and wpEnds = "\<lambda>u. u" and options = opts2 and lse = xlse
          and ninf = NegInf and logProbs = "mk_TensorView [2, 2] 0" and pm = xpm0 and maxT = 2
          and p = 0 and am = "\<lambda>i. Fin 5" and bm = "\<lambda>i. Fin 5"]
    by simp
qed

end
